theory Spec2Isabelle
  imports Complex_Main
begin

section \<open>JavaScript numbers\<close>

text \<open>
  A JavaScript \<open>number\<close> that reaches the monitoring engine from outside (a model's
  confidence, a head-pose angle, a metadata value) is a finite number or \<open>NaN\<close>.
  Comparisons with \<open>NaN\<close> are false, \<open>Math.abs\<close> and \<open>Math.max\<close> propagate it.
  Finite numbers are modelled as reals: every threshold of the engine is compared
  exactly. Wall-clock timestamps (\<open>Date.now()\<close>) are integers (milliseconds).
\<close>

datatype jsnum = Num real | NaN

fun js_lt :: "jsnum \<Rightarrow> jsnum \<Rightarrow> bool" where
  "js_lt (Num a) (Num b) = (a < b)"
| "js_lt _ _ = False"

fun js_le :: "jsnum \<Rightarrow> jsnum \<Rightarrow> bool" where
  "js_le (Num a) (Num b) = (a \<le> b)"
| "js_le _ _ = False"

fun js_gt :: "jsnum \<Rightarrow> jsnum \<Rightarrow> bool" where
  "js_gt (Num a) (Num b) = (a > b)"
| "js_gt _ _ = False"

fun js_ge :: "jsnum \<Rightarrow> jsnum \<Rightarrow> bool" where
  "js_ge (Num a) (Num b) = (a \<ge> b)"
| "js_ge _ _ = False"

text \<open>
  Products and quotients are rounded to a double: to the nearest one, and to the even one
  of two nearest. The doubles of the binade \<open>e\<close>, from \<open>pow2 e\<close> up to
  \<open>pow2 (e + 1)\<close>, are the multiples of \<open>pow2 (e - 52)\<close>; below \<open>pow2 (- 1022)\<close>
  they are the multiples of \<open>pow2 (- 1074)\<close>. \<open>fl x\<close> is the double nearest to
  \<open>x\<close>. Magnitudes from \<open>pow2 1024\<close> up, which round to an infinity, are left out:
  the quantities rounded here are clock readings (below \<open>8.64e15\<close>), ratios of them
  and percentages. A real number given for a \<open>number\<close> argument stands for the double
  nearest to it, as the literal \<open>0.88\<close> does in the source; the integers of magnitude
  up to \<open>pow2 53\<close>, and so all clock readings, their differences and the sums of the
  time-quality cells of a session, are doubles themselves.
\<close>

definition roundEven :: "real \<Rightarrow> int" where
  "roundEven y =
     (if y - real_of_int \<lfloor>y\<rfloor> < 1 / 2 then \<lfloor>y\<rfloor>
      else if 1 / 2 < y - real_of_int \<lfloor>y\<rfloor> then \<lfloor>y\<rfloor> + 1
      else if even \<lfloor>y\<rfloor> then \<lfloor>y\<rfloor> else \<lfloor>y\<rfloor> + 1)"

definition pow2 :: "int \<Rightarrow> real" where
  "pow2 e = (if 0 \<le> e then 2 ^ nat e else 1 / 2 ^ nat (- e))"

text \<open>The binade of a number, found by halving from 1 up and by doubling from 1 down,
  and not below \<open>- 1022\<close>.\<close>

fun binadeUp :: "nat \<Rightarrow> real \<Rightarrow> int" where
  "binadeUp 0 x = 0"
| "binadeUp (Suc n) x = (if x < 2 then 0 else binadeUp n (x / 2) + 1)"

fun binadeDown :: "nat \<Rightarrow> real \<Rightarrow> int" where
  "binadeDown 0 x = 0"
| "binadeDown (Suc n) x = (if 1 \<le> x then 0 else binadeDown n (x * 2) - 1)"

definition binade :: "real \<Rightarrow> int" where
  "binade x = (if 1 \<le> \<bar>x\<bar> then binadeUp 1023 \<bar>x\<bar> else binadeDown 1022 \<bar>x\<bar>)"

definition fl :: "real \<Rightarrow> real" where
  "fl x =
     (if x = 0 then 0
      else real_of_int (roundEven (x / pow2 (binade x - 52))) * pow2 (binade x - 52))"

text \<open>The quotient \<open>x / d\<close> of a number by a constant.\<close>

fun js_div :: "jsnum \<Rightarrow> real \<Rightarrow> jsnum" where
  "js_div (Num a) d = Num (fl (fl a / d))"
| "js_div NaN d = NaN"

text \<open>
  The quotient of an integer by 10 or by 100 that ends a rounding to one or two decimals
  is kept as the decimal fraction it is: the source holds the double nearest to it, the
  one the decimal denotes.
\<close>

fun js_decimal :: "jsnum \<Rightarrow> real \<Rightarrow> jsnum" where
  "js_decimal (Num a) d = Num (a / d)"
| "js_decimal NaN d = NaN"

fun Math_abs :: "jsnum \<Rightarrow> jsnum" where
  "Math_abs (Num a) = Num \<bar>a\<bar>"
| "Math_abs NaN = NaN"

fun Math_max :: "jsnum \<Rightarrow> jsnum \<Rightarrow> jsnum" where
  "Math_max (Num a) (Num b) = Num (max a b)"
| "Math_max _ _ = NaN"

text \<open>\<open>Math.round\<close> rounds to the nearest integer, halves towards \<open>+\<infinity>\<close>.\<close>

definition Math_round :: "real \<Rightarrow> int" where
  "Math_round x = \<lfloor>x + 1 / 2\<rfloor>"

fun Math_round_js :: "jsnum \<Rightarrow> jsnum" where
  "Math_round_js (Num a) = Num (real_of_int (Math_round a))"
| "Math_round_js NaN = NaN"

text \<open>The remainder \<open>x % y\<close> of JavaScript takes the sign of the dividend.\<close>

definition js_rem :: "real \<Rightarrow> real \<Rightarrow> real" where
  "js_rem x y =
     x - y * real_of_int (if 0 \<le> x / y then \<lfloor>x / y\<rfloor> else \<lceil>x / y\<rceil>)"

text \<open>A value of type \<open>unknown\<close> or \<open>any\<close>, as far as \<open>typeof\<close> tells them apart.\<close>

datatype jsval =
  JNumber jsnum | JString string | JBoolean bool | JUndefined | JArray "jsval list"

section \<open>Shared constants (lib/utils/constants)\<close>

definition CONFIDENCE_THRESHOLD :: real where "CONFIDENCE_THRESHOLD = 0.65"
definition INFERENCE_FPS :: real where "INFERENCE_FPS = 10"
definition INFERENCE_INTERVAL_MS :: real where "INFERENCE_INTERVAL_MS = 1000 / INFERENCE_FPS"
definition SUSTAIN_DURATION_MS :: int where "SUSTAIN_DURATION_MS = 2500"
definition GAZE_COOLDOWN_MS :: int where "GAZE_COOLDOWN_MS = 5000"
definition MIN_FACE_CONFIDENCE :: real where "MIN_FACE_CONFIDENCE = 0.6"
definition FACE_ABSENCE_SUSTAIN_MS :: int where "FACE_ABSENCE_SUSTAIN_MS = 2500"
definition FACE_ABSENCE_COOLDOWN_MS :: int where "FACE_ABSENCE_COOLDOWN_MS = 5000"
definition MAX_YAW_NORMAL :: real where "MAX_YAW_NORMAL = 18"
definition MAX_PITCH_NORMAL :: real where "MAX_PITCH_NORMAL = 22"
definition STRONG_YAW_DEG :: real where "STRONG_YAW_DEG = 25"
definition STRONG_PITCH_UP_DEG :: real where "STRONG_PITCH_UP_DEG = 30"
definition STRONG_PITCH_DOWN_DEG :: real where "STRONG_PITCH_DOWN_DEG = 35"
definition CENTERED_SUSTAIN_DURATION_MS :: int where "CENTERED_SUSTAIN_DURATION_MS = 3500"
definition OBJECT_DETECTION_COOLDOWN_MS :: int where "OBJECT_DETECTION_COOLDOWN_MS = 5000"

definition PROHIBITED_LABELS :: "string set" where
  "PROHIBITED_LABELS =
     {''cell phone'', ''book'', ''laptop'', ''remote'', ''keyboard'', ''mouse'',
      ''tablet'', ''paper'', ''notepad''}"

text \<open>\<open>RISK_WEIGHTS\<close>: a weight per incident and a cap on the incidents counted.\<close>

record WeightCap =
  weight :: real
  cap :: real

definition RISK_WEIGHTS_gazeDeviation :: WeightCap where
  "RISK_WEIGHTS_gazeDeviation = \<lparr>weight = 8, cap = 5\<rparr>"
definition RISK_WEIGHTS_faceAbsence :: WeightCap where
  "RISK_WEIGHTS_faceAbsence = \<lparr>weight = 15, cap = 3\<rparr>"
definition RISK_WEIGHTS_objectDetection :: WeightCap where
  "RISK_WEIGHTS_objectDetection = \<lparr>weight = 20, cap = 3\<rparr>"
definition RISK_WEIGHTS_tabSwitch :: WeightCap where
  "RISK_WEIGHTS_tabSwitch = \<lparr>weight = 6, cap = 5\<rparr>"

definition RISK_THRESHOLDS_medium :: int where "RISK_THRESHOLDS_medium = 35"
definition RISK_THRESHOLDS_high :: int where "RISK_THRESHOLDS_high = 70"

section \<open>Gaze tracker (lib/ai/gaze-tracker.ts)\<close>

record GazeVector =
  gazeX :: jsnum
  gazeY :: jsnum

record GazeResult =
  gaze :: GazeVector
  isLookingAway :: bool
  faceDetectionConfidence :: jsnum
  faceDetected :: bool
  timestamp :: int
  maxDeviation :: jsnum
  yawDeg :: jsnum
  pitchDeg :: jsnum
  rollDeg :: jsnum
  inSafeZone :: bool
  isStrongDeviation :: bool
  isCentered :: bool

definition isInSafeZone :: "jsnum \<Rightarrow> jsnum \<Rightarrow> bool" where
  "isInSafeZone yaw pitch \<longleftrightarrow>
     js_le (Math_abs yaw) (Num MAX_YAW_NORMAL) \<and> js_le (Math_abs pitch) (Num MAX_PITCH_NORMAL)"

definition isStrongDeviationCheck :: "jsnum \<Rightarrow> jsnum \<Rightarrow> bool" where
  "isStrongDeviationCheck yaw pitch =
     (if js_gt (Math_abs yaw) (Num STRONG_YAW_DEG) then True
      else if js_lt pitch (Num (- STRONG_PITCH_UP_DEG)) then True
      else if js_gt pitch (Num STRONG_PITCH_DOWN_DEG) then True
      else False)"

definition NO_FACE_RESULT :: "jsnum \<Rightarrow> int \<Rightarrow> GazeResult" where
  "NO_FACE_RESULT confidence now =
     \<lparr>gaze = \<lparr>gazeX = Num 0, gazeY = Num 0\<rparr>,
      isLookingAway = False,
      faceDetectionConfidence = confidence,
      faceDetected = False,
      timestamp = now,
      maxDeviation = Num 0,
      yawDeg = Num 0, pitchDeg = Num 0, rollDeg = Num 0,
      inSafeZone = False, isStrongDeviation = False, isCentered = False\<rparr>"

text \<open>
  What \<open>runGazeInference\<close> reads off the highest-confidence face of the model: its
  probability (1 when the model gives none), and the results of \<open>deriveGazeVector\<close>,
  \<open>estimateHeadPose\<close> and \<open>isFaceCentered\<close>, whose trigonometry on the image
  landmarks is not modelled.
\<close>

record FaceMeasurement =
  confidence :: jsnum
  measuredGaze :: GazeVector
  measuredYaw :: jsnum
  measuredPitch :: jsnum
  measuredRoll :: jsnum
  centered :: bool

text \<open>
  \<open>runGazeInference\<close> after the model has answered: \<open>None\<close> is an empty list of
  predictions; \<open>now\<close> is the clock at the inference.
\<close>

definition runGazeInference :: "FaceMeasurement option \<Rightarrow> int \<Rightarrow> GazeResult" where
  "runGazeInference best now =
     (case best of
        None \<Rightarrow> NO_FACE_RESULT (Num 0) now
      | Some m \<Rightarrow>
          if js_lt (confidence m) (Num MIN_FACE_CONFIDENCE)
          then NO_FACE_RESULT (confidence m) now
          else
            \<lparr>gaze = measuredGaze m,
             isLookingAway = False,
             faceDetectionConfidence = confidence m,
             faceDetected = True,
             timestamp = now,
             maxDeviation =
               Math_max (Math_abs (gazeX (measuredGaze m))) (Math_abs (gazeY (measuredGaze m))),
             yawDeg = measuredYaw m, pitchDeg = measuredPitch m, rollDeg = measuredRoll m,
             inSafeZone = isInSafeZone (measuredYaw m) (measuredPitch m),
             isStrongDeviation = isStrongDeviationCheck (measuredYaw m) (measuredPitch m),
             isCentered = centered m\<rparr>)"

section \<open>Object detector (lib/ai/object-detector.ts)\<close>

text \<open>A raw prediction of the detector: \<open>pclass\<close> is its field \<open>class\<close>.\<close>

record RawPrediction =
  pclass :: string
  pscore :: jsval
  pbbox :: "jsval list"

record DetectedObject =
  label :: string
  score :: jsnum
  bbox :: "jsval list"

definition surfaced :: "RawPrediction \<Rightarrow> bool" where
  "surfaced p =
     (case pscore p of
        JNumber n \<Rightarrow> js_ge n (Num CONFIDENCE_THRESHOLD) \<and> pclass p \<in> PROHIBITED_LABELS
      | _ \<Rightarrow> False)"

definition toDetectedObject :: "RawPrediction \<Rightarrow> DetectedObject" where
  "toDetectedObject p =
     \<lparr>label = pclass p,
      score = (case pscore p of JNumber n \<Rightarrow> n | _ \<Rightarrow> NaN),
      bbox = pbbox p\<rparr>"

text \<open>The \<open>detections\<close> of \<open>runObjectDetection\<close>, from the detector's raw predictions.\<close>

definition runObjectDetection :: "RawPrediction list \<Rightarrow> DetectedObject list" where
  "runObjectDetection rawPredictions = map toDetectedObject (filter surfaced rawPredictions)"

section \<open>Risk calculator (lib/utils/risk-calculator.ts)\<close>

text \<open>The counts and the duration of a risk input are finite numbers (counts of events
  are lengths of the event log); the score is what \<open>Math.round\<close> returns, an integer.\<close>

record RiskInput =
  gazeDeviationCount :: real
  faceAbsenceCount :: real
  objectDetectionCount :: real
  tabSwitchCount :: real
  sessionDurationMs :: real

datatype RiskLevel = Low | Medium | High

record RiskOutput =
  score :: int
  level :: RiskLevel

definition calculateRiskScore :: "RiskInput \<Rightarrow> RiskOutput" where
  "calculateRiskScore input =
     (let gazeImpact =
            min (gazeDeviationCount input) (cap RISK_WEIGHTS_gazeDeviation)
              * weight RISK_WEIGHTS_gazeDeviation;
          absenceImpact =
            min (faceAbsenceCount input) (cap RISK_WEIGHTS_faceAbsence)
              * weight RISK_WEIGHTS_faceAbsence;
          objectImpact =
            min (objectDetectionCount input) (cap RISK_WEIGHTS_objectDetection)
              * weight RISK_WEIGHTS_objectDetection;
          tabImpact =
            min (tabSwitchCount input) (cap RISK_WEIGHTS_tabSwitch)
              * weight RISK_WEIGHTS_tabSwitch;
          raw = gazeImpact + absenceImpact + objectImpact + tabImpact;
          sc = min 100 (max 0 (Math_round raw))
      in \<lparr>score = sc,
          level = (if sc \<ge> RISK_THRESHOLDS_high then High
                   else if sc \<ge> RISK_THRESHOLDS_medium then Medium
                   else Low)\<rparr>)"

section \<open>Session events and the metrics aggregator (lib/utils/metrics-aggregator.ts)\<close>

text \<open>
  A \<open>SessionEvent\<close> of the store. Its \<open>id\<close> (built from the clock and a random
  number) carries no behaviour and is left out; \<open>etype\<close> is the field \<open>type\<close>;
  the optional \<open>metadata\<close> record is an association list.
\<close>

datatype Severity = normal | warning | suspicious

record SessionEvent =
  etype :: string
  timestamp :: int
  severity :: Severity
  metadata :: "(string \<times> jsval) list option"

text \<open>The optional-chaining read \<open>e.metadata?.key\<close>.\<close>

definition metadata_get :: "SessionEvent \<Rightarrow> string \<Rightarrow> jsval" where
  "metadata_get e key =
     (case metadata e of
        None \<Rightarrow> JUndefined
      | Some m \<Rightarrow> (case map_of m key of None \<Rightarrow> JUndefined | Some v \<Rightarrow> v))"

definition countEventsByType :: "SessionEvent list \<Rightarrow> string \<Rightarrow> nat" where
  "countEventsByType events ty = length (filter (\<lambda>e. etype e = ty) events)"

fun longestDuration_loop :: "jsnum \<Rightarrow> SessionEvent list \<Rightarrow> string \<Rightarrow> jsnum" where
  "longestDuration_loop longest [] ty = longest"
| "longestDuration_loop longest (e # es) ty =
     longestDuration_loop
       (case metadata_get e ''durationMs'' of
          JNumber d \<Rightarrow> if etype e = ty then Math_max longest d else longest
        | _ \<Rightarrow> longest)
       es ty"

definition longestDuration :: "SessionEvent list \<Rightarrow> string \<Rightarrow> jsnum" where
  "longestDuration events ty = longestDuration_loop (Num 0) events ty"

definition buildRiskInput :: "SessionEvent list \<Rightarrow> real \<Rightarrow> RiskInput" where
  "buildRiskInput events durationMs =
     \<lparr>gazeDeviationCount = real (countEventsByType events ''GAZE_AWAY''),
      faceAbsenceCount = real (countEventsByType events ''FACE_ABSENT''),
      objectDetectionCount = real (countEventsByType events ''OBJECT_DETECTED''),
      tabSwitchCount = real (countEventsByType events ''TAB_SWITCH''),
      sessionDurationMs = durationMs\<rparr>"

record GeminiPayload =
  sessionDurationSec :: int
  focusRatio :: real
  gazeIncidents :: nat
  longestGazeAwaySec :: jsnum
  faceAbsenceEvents :: nat
  objectIncidents :: nat
  tabSwitches :: nat
  riskScore :: int

definition buildGeminiPayload :: "SessionEvent list \<Rightarrow> real \<Rightarrow> real \<Rightarrow> GeminiPayload" where
  "buildGeminiPayload events durationMs ratio =
     \<lparr>sessionDurationSec = Math_round (fl (fl durationMs / 1000)),
      focusRatio = real_of_int (Math_round (fl (fl ratio * 100))) / 100,
      gazeIncidents = countEventsByType events ''GAZE_AWAY'',
      longestGazeAwaySec =
        js_decimal (Math_round_js (js_div (longestDuration events ''GAZE_AWAY'') 100)) 10,
      faceAbsenceEvents = countEventsByType events ''FACE_ABSENT'',
      objectIncidents = countEventsByType events ''OBJECT_DETECTED'',
      tabSwitches = countEventsByType events ''TAB_SWITCH'',
      riskScore = score (calculateRiskScore (buildRiskInput events durationMs))\<rparr>"

section \<open>Monitoring loop (hooks/useMonitoring)\<close>

datatype GazeState = NORMAL | MONITORING_DEVIATION | ALERT_ACTIVE | ABSENT

record TimeQualityMetrics =
  focusedTimeMs :: int
  minorMovementTimeMs :: int
  deviationTimeMs :: int
  absenceTimeMs :: int
  totalSessionTimeMs :: int
  focusRatio :: real

definition INITIAL_TIME_QUALITY :: TimeQualityMetrics where
  "INITIAL_TIME_QUALITY =
     \<lparr>focusedTimeMs = 0, minorMovementTimeMs = 0, deviationTimeMs = 0, absenceTimeMs = 0,
      totalSessionTimeMs = 0, focusRatio = 1\<rparr>"

text \<open>
  The mutable cells the loop closes over (the \<open>useRef\<close>s of the hook), and the
  published \<open>timeQuality\<close> state. A \<open>number | null\<close> cell is an \<open>int option\<close>.
  The setters that only mirror a cell for display (\<open>setGazeState\<close>,
  \<open>setLastGazeResult\<close>, \<open>setLastObjectResult\<close>) are left out.
\<close>

record Refs =
  gazeStateRef :: GazeState
  deviationStartRef :: "int option"
  lastGazeAlertTimeRef :: int
  absenceStartRef :: "int option"
  lastFaceAbsentTimeRef :: int
  isFaceAbsentLoggedRef :: bool
  objectCooldownMap :: "string \<rightharpoonup> int"
  lastFrameTimeRef :: int
  tqFocusedRef :: int
  tqMinorRef :: int
  tqDeviationRef :: int
  tqAbsenceRef :: int
  longestGazeAwayRef :: int
  lastGazeInferenceRef :: real
  lastObjInferenceRef :: real
  timeQuality :: TimeQualityMetrics

text \<open>The cells at session start (and after the reset on session end), at clock \<open>t0\<close>.\<close>

definition initialRefs :: "int \<Rightarrow> Refs" where
  "initialRefs t0 =
     \<lparr>gazeStateRef = NORMAL, deviationStartRef = None, lastGazeAlertTimeRef = 0,
      absenceStartRef = None, lastFaceAbsentTimeRef = 0, isFaceAbsentLoggedRef = False,
      objectCooldownMap = Map.empty, lastFrameTimeRef = t0,
      tqFocusedRef = 0, tqMinorRef = 0, tqDeviationRef = 0, tqAbsenceRef = 0,
      longestGazeAwayRef = 0, lastGazeInferenceRef = 0, lastObjInferenceRef = 0,
      timeQuality = INITIAL_TIME_QUALITY\<rparr>"

subsection \<open>The events the loop appends\<close>

definition FACE_ABSENT_event :: "int \<Rightarrow> int \<Rightarrow> SessionEvent" where
  "FACE_ABSENT_event frameNow absenceDuration =
     \<lparr>etype = ''FACE_ABSENT'', SessionEvent.timestamp = frameNow, severity = suspicious,
      metadata = Some [(''durationMs'', JNumber (Num (real_of_int absenceDuration)))]\<rparr>"

definition GAZE_AWAY_event :: "int \<Rightarrow> int \<Rightarrow> GazeResult \<Rightarrow> SessionEvent" where
  "GAZE_AWAY_event frameNow durationMs result =
     \<lparr>etype = ''GAZE_AWAY'', SessionEvent.timestamp = frameNow, severity = warning,
      metadata = Some
        [(''durationMs'', JNumber (Num (real_of_int durationMs))),
         (''gazeX'', JNumber (gazeX (gaze result))),
         (''gazeY'', JNumber (gazeY (gaze result))),
         (''yawDeg'', JNumber (yawDeg result)),
         (''pitchDeg'', JNumber (pitchDeg result)),
         (''maxDeviation'', JNumber (maxDeviation result))]\<rparr>"

definition OBJECT_DETECTED_event :: "int \<Rightarrow> DetectedObject \<Rightarrow> SessionEvent" where
  "OBJECT_DETECTED_event frameNow det =
     \<lparr>etype = ''OBJECT_DETECTED'', SessionEvent.timestamp = frameNow, severity = suspicious,
      metadata = Some
        [(''label'', JString (label det)),
         (''score'', JNumber (DetectedObject.score det)),
         (''bbox'', JArray (bbox det))]\<rparr>"

subsection \<open>One processed gaze measurement\<close>

text \<open>The test of the face-absence branch: no face, or a confidence below the minimum.\<close>

definition faceAbsent :: "GazeResult \<Rightarrow> bool" where
  "faceAbsent result \<longleftrightarrow>
     \<not> faceDetected result \<or> js_lt (faceDetectionConfidence result) (Num MIN_FACE_CONFIDENCE)"

text \<open>
  The face-absence branch. \<open>!absenceStartRef.current\<close> holds for \<open>null\<close> and for 0;
  in the subtraction a \<open>null\<close> start would count as 0.
\<close>

definition absenceBranch :: "Refs \<Rightarrow> int \<Rightarrow> int \<Rightarrow> Refs \<times> SessionEvent list" where
  "absenceBranch s frameNow deltaMs =
     (let s1 = (if absenceStartRef s = None \<or> absenceStartRef s = Some 0
                then s\<lparr>absenceStartRef := Some frameNow\<rparr> else s);
          absenceDuration = frameNow - (case absenceStartRef s1 of None \<Rightarrow> 0 | Some a \<Rightarrow> a);
          emit = (absenceDuration \<ge> FACE_ABSENCE_SUSTAIN_MS \<and>
                  \<not> isFaceAbsentLoggedRef s1 \<and>
                  frameNow - lastFaceAbsentTimeRef s1 \<ge> FACE_ABSENCE_COOLDOWN_MS);
          s2 = (if emit
                then s1\<lparr>isFaceAbsentLoggedRef := True, lastFaceAbsentTimeRef := frameNow\<rparr>
                else s1);
          s3 = s2\<lparr>tqAbsenceRef := tqAbsenceRef s2 + deltaMs\<rparr>;
          s4 = s3\<lparr>gazeStateRef := ABSENT\<rparr>
      in (s4, if emit then [FACE_ABSENT_event frameNow absenceDuration] else []))"

text \<open>Centered faces get a longer sustain requirement.\<close>

definition requiredSustain :: "GazeResult \<Rightarrow> int" where
  "requiredSustain result =
     (if isCentered result then CENTERED_SUSTAIN_DURATION_MS else SUSTAIN_DURATION_MS)"

text \<open>Gate 3 of the gaze state machine: a strong deviation.\<close>

definition strongDeviationGate ::
    "Refs \<Rightarrow> int \<Rightarrow> int \<Rightarrow> GazeResult \<Rightarrow> Refs \<times> SessionEvent list" where
  "strongDeviationGate s frameNow deltaMs result =
     (let s1 = (if gazeStateRef s = NORMAL
                then s\<lparr>gazeStateRef := MONITORING_DEVIATION, deviationStartRef := Some frameNow\<rparr>
                else s);
          sustained = frameNow - (case deviationStartRef s1 of None \<Rightarrow> frameNow | Some d \<Rightarrow> d);
          emit = (gazeStateRef s1 = MONITORING_DEVIATION \<and>
                  sustained \<ge> requiredSustain result \<and>
                  frameNow - lastGazeAlertTimeRef s1 \<ge> GAZE_COOLDOWN_MS);
          s2 = (if emit
                then s1\<lparr>gazeStateRef := ALERT_ACTIVE,
                        lastGazeAlertTimeRef := frameNow,
                        longestGazeAwayRef :=
                          (if sustained > longestGazeAwayRef s1 then sustained
                           else longestGazeAwayRef s1)\<rparr>
                else s1);
          s3 = s2\<lparr>tqDeviationRef := tqDeviationRef s2 + deltaMs\<rparr>
      in (s3, if emit then [GAZE_AWAY_event frameNow sustained result] else []))"

text \<open>The face-present branch: absence tracking is reset, then the three gates.\<close>

definition presentBranch ::
    "Refs \<Rightarrow> int \<Rightarrow> int \<Rightarrow> GazeResult \<Rightarrow> Refs \<times> SessionEvent list" where
  "presentBranch s frameNow deltaMs result =
     (let s0 = s\<lparr>absenceStartRef := None, isFaceAbsentLoggedRef := False\<rparr> in
      if inSafeZone result then
        (s0\<lparr>gazeStateRef := NORMAL, deviationStartRef := None,
            tqFocusedRef := tqFocusedRef s0 + deltaMs\<rparr>, [])
      else if \<not> isStrongDeviation result then
        (s0\<lparr>gazeStateRef := NORMAL, deviationStartRef := None,
            tqMinorRef := tqMinorRef s0 + deltaMs\<rparr>, [])
      else strongDeviationGate s0 frameNow deltaMs result)"

text \<open>The body of \<open>if (result) { ... }\<close> for a gaze result.\<close>

definition gazeTick ::
    "Refs \<Rightarrow> int \<Rightarrow> int \<Rightarrow> GazeResult \<Rightarrow> Refs \<times> SessionEvent list" where
  "gazeTick s frameNow deltaMs result =
     (if faceAbsent result then absenceBranch s frameNow deltaMs
      else presentBranch s frameNow deltaMs result)"

subsection \<open>The per-label object cooldown\<close>

text \<open>\<open>objectCooldownMap.current.get(label) ?? 0\<close>\<close>

definition lastFor :: "(string \<rightharpoonup> int) \<Rightarrow> string \<Rightarrow> int" where
  "lastFor m l = (case m l of None \<Rightarrow> 0 | Some t \<Rightarrow> t)"

fun objectCooldownLoop ::
    "(string \<rightharpoonup> int) \<Rightarrow> int \<Rightarrow> DetectedObject list \<Rightarrow> (string \<rightharpoonup> int) \<times> SessionEvent list" where
  "objectCooldownLoop m frameNow [] = (m, [])"
| "objectCooldownLoop m frameNow (det # dets) =
     (if frameNow - lastFor m (label det) \<ge> OBJECT_DETECTION_COOLDOWN_MS then
        (fst (objectCooldownLoop (m(label det \<mapsto> frameNow)) frameNow dets),
         OBJECT_DETECTED_event frameNow det
           # snd (objectCooldownLoop (m(label det \<mapsto> frameNow)) frameNow dets))
      else objectCooldownLoop m frameNow dets)"

subsection \<open>One animation frame of \<open>aiLoop\<close>\<close>

text \<open>
  What one call of \<open>aiLoop\<close> reads from outside while the session is active: the
  frame time \<open>now\<close> passed by \<open>requestAnimationFrame\<close>, the clock \<open>Date.now()\<close>,
  and what the two models answer if asked (\<open>None\<close>: no video, model not ready, or a
  \<open>null\<close> result). The face inference gives the best face of the frame, if any; the
  clock of the result is taken to be the clock of the frame.
\<close>

record Frame =
  rafNow :: real
  dateNow :: int
  faceInference :: "FaceMeasurement option option"
  objectInference :: "RawPrediction list option"

definition gazePhase :: "Refs \<Rightarrow> Frame \<Rightarrow> int \<Rightarrow> Refs \<times> SessionEvent list" where
  "gazePhase s f deltaMs =
     (if rafNow f - lastGazeInferenceRef s \<ge> INFERENCE_INTERVAL_MS then
        (let s1 = s\<lparr>lastGazeInferenceRef := rafNow f\<rparr> in
         case faceInference f of
           None \<Rightarrow> (s1, [])
         | Some best \<Rightarrow> gazeTick s1 (dateNow f) deltaMs (runGazeInference best (dateNow f)))
      else (s, []))"

definition objectPhase :: "Refs \<Rightarrow> Frame \<Rightarrow> Refs \<times> SessionEvent list" where
  "objectPhase s f =
     (if rafNow f - lastObjInferenceRef s \<ge> INFERENCE_INTERVAL_MS * 1.5 then
        (let s1 = s\<lparr>lastObjInferenceRef := rafNow f\<rparr> in
         case objectInference f of
           None \<Rightarrow> (s1, [])
         | Some rawPredictions \<Rightarrow>
             (s1\<lparr>objectCooldownMap :=
                   fst (objectCooldownLoop (objectCooldownMap s1) (dateNow f)
                          (runObjectDetection rawPredictions))\<rparr>,
              snd (objectCooldownLoop (objectCooldownMap s1) (dateNow f)
                     (runObjectDetection rawPredictions))))
      else (s, []))"

definition publishTimeQuality :: "Refs \<Rightarrow> real \<Rightarrow> Refs" where
  "publishTimeQuality s now =
     (let totalMs = tqFocusedRef s + tqMinorRef s + tqDeviationRef s + tqAbsenceRef s in
      if totalMs > 0 \<and> js_rem now 4 < 1 then
        s\<lparr>timeQuality :=
            \<lparr>focusedTimeMs = tqFocusedRef s,
             minorMovementTimeMs = tqMinorRef s,
             deviationTimeMs = tqDeviationRef s,
             absenceTimeMs = tqAbsenceRef s,
             totalSessionTimeMs = totalMs,
             focusRatio =
               real_of_int (Math_round
                 (fl (fl (real_of_int (tqFocusedRef s + tqMinorRef s) / real_of_int totalMs)
                        * 100)))
                 / 100\<rparr>\<rparr>
      else s)"

definition aiLoop :: "Refs \<Rightarrow> Frame \<Rightarrow> Refs \<times> SessionEvent list" where
  "aiLoop s f =
     (let frameNow = dateNow f;
          deltaMs = frameNow - lastFrameTimeRef s;
          s1 = s\<lparr>lastFrameTimeRef := frameNow\<rparr>;
          g = gazePhase s1 f deltaMs;
          ob = objectPhase (fst g) f
      in (publishTimeQuality (fst ob) (rafNow f), snd g @ snd ob))"

subsection \<open>Runs\<close>

text \<open>A processed gaze measurement: the clock, the frame delta and the result.\<close>

record Tick =
  tickNow :: int
  tickDelta :: int
  tickResult :: GazeResult

definition tick :: "Refs \<Rightarrow> Tick \<Rightarrow> Refs \<times> SessionEvent list" where
  "tick s t = gazeTick s (tickNow t) (tickDelta t) (tickResult t)"

text \<open>The cells after a sequence of measurements, and the events of each of them.\<close>

fun ticksRefs :: "Refs \<Rightarrow> Tick list \<Rightarrow> Refs" where
  "ticksRefs s [] = s"
| "ticksRefs s (t # ts) = ticksRefs (fst (tick s t)) ts"

fun ticksEvents :: "Refs \<Rightarrow> Tick list \<Rightarrow> SessionEvent list list" where
  "ticksEvents s [] = []"
| "ticksEvents s (t # ts) = snd (tick s t) # ticksEvents (fst (tick s t)) ts"

text \<open>The cells after a sequence of animation frames.\<close>

fun framesRefs :: "Refs \<Rightarrow> Frame list \<Rightarrow> Refs" where
  "framesRefs s [] = s"
| "framesRefs s (f # fs) = framesRefs (fst (aiLoop s f)) fs"

subsection \<open>The vocabulary of the claims\<close>

text \<open>The three kinds of measurement: the face is absent; it is present with a strong
  deviation; it is present in the safe zone or with a minor movement.\<close>

definition absentTick :: "Tick \<Rightarrow> bool" where
  "absentTick t \<longleftrightarrow> faceAbsent (tickResult t)"

definition strongDeviationTick :: "Tick \<Rightarrow> bool" where
  "strongDeviationTick t \<longleftrightarrow>
     \<not> faceAbsent (tickResult t) \<and> \<not> inSafeZone (tickResult t) \<and>
     isStrongDeviation (tickResult t)"

definition resetTick :: "Tick \<Rightarrow> bool" where
  "resetTick t \<longleftrightarrow>
     \<not> faceAbsent (tickResult t) \<and>
     (inSafeZone (tickResult t) \<or> \<not> isStrongDeviation (tickResult t))"


text \<open>A face-absence event is due: the absence that started at \<open>start\<close> has lasted
  the sustain, and the cooldown since \<open>lastEmitted\<close> is over.\<close>

definition faceAbsentDue :: "int \<Rightarrow> int \<Rightarrow> Tick \<Rightarrow> bool" where
  "faceAbsentDue start lastEmitted t \<longleftrightarrow>
     tickNow t - start \<ge> FACE_ABSENCE_SUSTAIN_MS \<and>
     tickNow t - lastEmitted \<ge> FACE_ABSENCE_COOLDOWN_MS"

text \<open>The four time-quality cells, and the addition of a frame delta to one of them.\<close>

datatype Bucket = FocusedBucket | MinorMovementBucket | DeviationBucket | AbsenceBucket

definition bucketsOf :: "Refs \<Rightarrow> int \<times> int \<times> int \<times> int" where
  "bucketsOf s = (tqFocusedRef s, tqMinorRef s, tqDeviationRef s, tqAbsenceRef s)"

fun addTo :: "Bucket \<Rightarrow> int \<Rightarrow> int \<times> int \<times> int \<times> int \<Rightarrow> int \<times> int \<times> int \<times> int" where
  "addTo FocusedBucket d (f, m, dv, a) = (f + d, m, dv, a)"
| "addTo MinorMovementBucket d (f, m, dv, a) = (f, m + d, dv, a)"
| "addTo DeviationBucket d (f, m, dv, a) = (f, m, dv + d, a)"
| "addTo AbsenceBucket d (f, m, dv, a) = (f, m, dv, a + d)"

text \<open>The bucket of a measurement by what was measured: the branch of the loop it takes.\<close>

definition measuredBucket :: "GazeResult \<Rightarrow> Bucket" where
  "measuredBucket r =
     (if faceAbsent r then AbsenceBucket
      else if inSafeZone r then FocusedBucket
      else if \<not> isStrongDeviation r then MinorMovementBucket
      else DeviationBucket)"

text \<open>
  The bucket of a measurement in the words of the specification: chosen by the combined
  state of the tick, in the priority Absent, then AlertActive or MonitoringDeviation,
  then minor movement, then Normal (safe zone).
\<close>

definition specBucket :: "GazeState \<Rightarrow> GazeResult \<Rightarrow> Bucket" where
  "specBucket st r =
     (if st = ABSENT then AbsenceBucket
      else if st = ALERT_ACTIVE \<or> st = MONITORING_DEVIATION then DeviationBucket
      else if \<not> inSafeZone r \<and> \<not> isStrongDeviation r then MinorMovementBucket
      else FocusedBucket)"

text \<open>A strong deviation measured on a present face while the state is ABSENT.\<close>

definition lockedOut :: "Refs \<Rightarrow> GazeResult \<Rightarrow> bool" where
  "lockedOut s r \<longleftrightarrow>
     gazeStateRef s = ABSENT \<and> \<not> faceAbsent r \<and> \<not> inSafeZone r \<and> isStrongDeviation r"

text \<open>The measurement a frame processes, if it processes one.\<close>

definition processedResult :: "Refs \<Rightarrow> Frame \<Rightarrow> GazeResult option" where
  "processedResult s f =
     (if rafNow f - lastGazeInferenceRef s \<ge> INFERENCE_INTERVAL_MS
      then map_option (\<lambda>best. runGazeInference best (dateNow f)) (faceInference f)
      else None)"

text \<open>A frame of a session in which the subject is always present and in the safe zone.\<close>

definition focusedFrame :: "Frame \<Rightarrow> bool" where
  "focusedFrame f \<longleftrightarrow>
     (case faceInference f of
        None \<Rightarrow> True
      | Some best \<Rightarrow> measuredBucket (runGazeInference best (dateNow f)) = FocusedBucket)"

text \<open>The share of the focused and minor-movement time in published metrics: the exact
  quotient, and the focus ratio derived from it by the rounding of the loop, in doubles,
  to a whole number of hundredths.\<close>

definition focusShare :: "TimeQualityMetrics \<Rightarrow> real" where
  "focusShare q =
     real_of_int (focusedTimeMs q + minorMovementTimeMs q) / real_of_int (totalSessionTimeMs q)"

definition derivedFocusRatio :: "TimeQualityMetrics \<Rightarrow> real" where
  "derivedFocusRatio q = real_of_int (Math_round (fl (fl (focusShare q) * 100))) / 100"

text \<open>Published metrics are consistent: the total is the sum of the four buckets, and
  the focus ratio is the initial 1 or the one derived from the buckets.\<close>

definition consistentMetrics :: "TimeQualityMetrics \<Rightarrow> bool" where
  "consistentMetrics q \<longleftrightarrow>
     totalSessionTimeMs q =
       focusedTimeMs q + minorMovementTimeMs q + deviationTimeMs q + absenceTimeMs q \<and>
     (q = INITIAL_TIME_QUALITY \<or>
      (0 < totalSessionTimeMs q \<and> focusRatio q = derivedFocusRatio q))"

text \<open>No published bucket is negative.\<close>

definition nonNegativeMetrics :: "TimeQualityMetrics \<Rightarrow> bool" where
  "nonNegativeMetrics q \<longleftrightarrow>
     0 \<le> focusedTimeMs q \<and> 0 \<le> minorMovementTimeMs q \<and> 0 \<le> deviationTimeMs q \<and>
     0 \<le> absenceTimeMs q"

text \<open>Invariants of the cells: no bucket is negative; only the focused bucket is used.\<close>

definition nonNegativeBuckets :: "Refs \<Rightarrow> bool" where
  "nonNegativeBuckets s \<longleftrightarrow>
     0 \<le> tqFocusedRef s \<and> 0 \<le> tqMinorRef s \<and> 0 \<le> tqDeviationRef s \<and> 0 \<le> tqAbsenceRef s"

definition onlyFocused :: "Refs \<Rightarrow> bool" where
  "onlyFocused s \<longleftrightarrow> tqMinorRef s = 0 \<and> tqDeviationRef s = 0 \<and> tqAbsenceRef s = 0"

text \<open>The OBJECT_DETECTED events of a list that carry the label \<open>l\<close>.\<close>

definition objectEventsFor :: "string \<Rightarrow> SessionEvent list \<Rightarrow> SessionEvent list" where
  "objectEventsFor l evs =
     filter (\<lambda>e. etype e = ''OBJECT_DETECTED'' \<and> metadata_get e ''label'' = JString l) evs"

subsection \<open>Example measurements\<close>

text \<open>A face with the given confidence, yaw and pitch; a measurement of it at clock
  \<open>now\<close>, 100 ms after the frame before; a face turned 40 degrees aside, a face
  looking at the screen, and no face at all.\<close>

definition exampleFace :: "jsnum \<Rightarrow> real \<Rightarrow> real \<Rightarrow> bool \<Rightarrow> FaceMeasurement" where
  "exampleFace conf yaw pitch c =
     \<lparr>confidence = conf, measuredGaze = \<lparr>gazeX = Num 0, gazeY = Num 0\<rparr>,
      measuredYaw = Num yaw, measuredPitch = Num pitch, measuredRoll = Num 0, centered = c\<rparr>"

definition exampleTick :: "int \<Rightarrow> FaceMeasurement option \<Rightarrow> Tick" where
  "exampleTick now best =
     \<lparr>tickNow = now, tickDelta = 100, tickResult = runGazeInference best now\<rparr>"

definition lookingAway :: "FaceMeasurement option" where
  "lookingAway = Some (exampleFace (Num 0.9) 40 0 False)"

definition lookingAtScreen :: "FaceMeasurement option" where
  "lookingAtScreen = Some (exampleFace (Num 0.9) 5 10 True)"

definition faceLost :: "FaceMeasurement option" where
  "faceLost = None"



text \<open>Two absences of the face, measured at the same clocks.\<close>

definition firstAbsence :: "Tick list" where
  "firstAbsence =
     [exampleTick 100000 faceLost, exampleTick 102499 faceLost,
      exampleTick 102500 faceLost, exampleTick 102600 faceLost]"

definition secondAbsence :: "Tick list" where
  "secondAbsence =
     [exampleTick 103000 faceLost, exampleTick 105500 faceLost,
      exampleTick 107499 faceLost, exampleTick 107500 faceLost]"

text \<open>An animation frame at clock \<open>now\<close> whose gaze inference sees the given face
  (the frame time and the clock run together here).\<close>

definition exampleFrame :: "int \<Rightarrow> FaceMeasurement option \<Rightarrow> Frame" where
  "exampleFrame now best =
     \<lparr>rafNow = real_of_int now, dateNow = now, faceInference = Some best,
      objectInference = None\<rparr>"

text \<open>Two frames between which the wall clock steps back by 5 seconds (the frame
  time goes on): a focused one, then one without a face.\<close>

definition clockStepsBack :: "Frame list" where
  "clockStepsBack =
     [\<lparr>rafNow = 100000, dateNow = 100000, faceInference = Some lookingAtScreen,
       objectInference = None\<rparr>,
      \<lparr>rafNow = 100200, dateNow = 95000, faceInference = Some faceLost,
       objectInference = None\<rparr>]"

text \<open>Two frames 200 ms apart: a focused one, then one with the face turned aside.\<close>

definition mixedSession :: "Frame list" where
  "mixedSession = [exampleFrame 100000 lookingAtScreen, exampleFrame 100200 lookingAway]"

text \<open>A raw prediction of the object detector with the given class and score.\<close>

definition examplePrediction :: "string \<Rightarrow> real \<Rightarrow> RawPrediction" where
  "examplePrediction c sc =
     \<lparr>pclass = c, pscore = JNumber (Num sc),
      pbbox = [JNumber (Num 10), JNumber (Num 20), JNumber (Num 100), JNumber (Num 50)]\<rparr>"

section \<open>Rounding to doubles\<close>

text \<open>The powers of two, and the binade of a number between two of them.\<close>

lemma pow2_powr: "pow2 e = 2 powr real_of_int e"
  by (simp add: pow2_def powr_int)

lemma pow2_pos: "0 < pow2 e"
  by (simp add: pow2_def)

lemma pow2_add: "pow2 (a + b) = pow2 a * pow2 b"
  by (simp add: pow2_powr powr_add)

lemma pow2_mono: "a \<le> b \<Longrightarrow> pow2 a \<le> pow2 b"
  by (simp add: pow2_powr)

lemma pow2_less: "pow2 a < pow2 b \<Longrightarrow> a < b"
  by (simp add: pow2_powr)

lemma pow2_numeral:
  "pow2 0 = 1" "pow2 (numeral n) = 2 ^ numeral n" "pow2 (- numeral n) = 1 / 2 ^ numeral n"
  "pow2 1 = 2" "pow2 (- 1) = 1 / 2"
  by (simp_all add: pow2_def)

lemma pow2_Suc: "pow2 (e + 1) = 2 * pow2 e"
  using pow2_add [of e 1] by (simp add: pow2_numeral)

lemma binadeUp_eq:
  "0 \<le> e \<Longrightarrow> nat e \<le> n \<Longrightarrow> pow2 e \<le> x \<Longrightarrow> x < pow2 (e + 1) \<Longrightarrow> binadeUp n x = e"
proof (induction n arbitrary: x e)
  case 0
  then show ?case by (simp add: pow2_numeral)
next
  case (Suc n)
  show ?case
  proof (cases "x < 2")
    case True
    with Suc.prems(3) have "pow2 e < pow2 1" by (simp add: pow2_numeral)
    from pow2_less [OF this] Suc.prems(1) True show ?thesis by (simp add: pow2_numeral)
  next
    case False
    with Suc.prems(4) have "pow2 1 < pow2 (e + 1)" by (simp add: pow2_numeral)
    from pow2_less [OF this] have e: "1 \<le> e" by (simp add: pow2_numeral)
    have "binadeUp n (x / 2) = e - 1"
    proof (rule Suc.IH)
      show "0 \<le> e - 1" using e by (simp add: pow2_numeral)
      show "nat (e - 1) \<le> n" using Suc.prems(2) e by (simp add: pow2_numeral)
      show "pow2 (e - 1) \<le> x / 2" using Suc.prems(3) pow2_Suc [of "e - 1"] by (simp add: pow2_numeral)
      show "x / 2 < pow2 (e - 1 + 1)" using Suc.prems(4) pow2_Suc [of e] by (simp add: pow2_numeral)
    qed
    with False show ?thesis by (simp add: pow2_numeral)
  qed
qed

lemma binadeDown_eq:
  "e \<le> 0 \<Longrightarrow> nat (- e) \<le> n \<Longrightarrow> pow2 e \<le> x \<Longrightarrow> x < pow2 (e + 1) \<Longrightarrow> binadeDown n x = e"
proof (induction n arbitrary: x e)
  case 0
  then show ?case by (simp add: pow2_numeral)
next
  case (Suc n)
  show ?case
  proof (cases "1 \<le> x")
    case True
    with Suc.prems(4) have "pow2 0 < pow2 (e + 1)" by (simp add: pow2_numeral)
    from pow2_less [OF this] Suc.prems(1) True show ?thesis by (simp add: pow2_numeral)
  next
    case False
    with Suc.prems(3) have "pow2 e < pow2 0" by (simp add: pow2_numeral)
    from pow2_less [OF this] have e: "e \<le> - 1" by (simp add: pow2_numeral)
    have "binadeDown n (x * 2) = e + 1"
    proof (rule Suc.IH)
      show "e + 1 \<le> 0" using e by (simp add: pow2_numeral)
      show "nat (- (e + 1)) \<le> n" using Suc.prems(2) e by (simp add: pow2_numeral)
      show "pow2 (e + 1) \<le> x * 2" using Suc.prems(3) pow2_Suc [of e] by (simp add: pow2_numeral)
      show "x * 2 < pow2 (e + 1 + 1)" using Suc.prems(4) pow2_Suc [of "e + 1"] by (simp add: pow2_numeral)
    qed
    with False show ?thesis by (simp add: pow2_numeral)
  qed
qed

lemma binadeDown_below:
  "x < pow2 (- int n) \<Longrightarrow> binadeDown n x = - int n"
proof (induction n arbitrary: x)
  case 0
  then show ?case by (simp add: pow2_numeral)
next
  case (Suc n)
  have p: "pow2 (- int n) = 2 * pow2 (- int (Suc n))"
    using pow2_Suc [of "- int (Suc n)"] by (simp add: pow2_numeral)
  have "pow2 (- int (Suc n)) \<le> pow2 0" by (rule pow2_mono) simp
  with Suc.prems have "x < 1" by (simp add: pow2_numeral)
  moreover have "binadeDown n (x * 2) = - int n"
    by (rule Suc.IH) (use Suc.prems p in \<open>simp add: pow2_numeral\<close>)
  ultimately show ?case by (simp add: pow2_numeral)
qed

lemma binade_eq:
  assumes "pow2 e \<le> \<bar>x\<bar>" "\<bar>x\<bar> < pow2 (e + 1)" "- 1022 \<le> e" "e \<le> 1023"
  shows "binade x = e"
proof (cases "1 \<le> \<bar>x\<bar>")
  case True
  with assms(2) have "pow2 0 < pow2 (e + 1)" by (simp add: pow2_numeral)
  from pow2_less [OF this] have "0 \<le> e" by (simp add: pow2_numeral)
  from binadeUp_eq [OF this _ assms(1,2), of 1023] assms(4) True show ?thesis
    by (simp add: pow2_numeral binade_def)
next
  case False
  with assms(1) have "pow2 e < pow2 0" by (simp add: pow2_numeral)
  from pow2_less [OF this] have "e \<le> 0" by (simp add: pow2_numeral)
  from binadeDown_eq [OF this _ assms(1,2), of 1022] assms(3) False show ?thesis
    by (simp add: pow2_numeral binade_def)
qed

lemma binade_log:
  assumes "x \<noteq> 0" "\<bar>x\<bar> < pow2 1024"
  shows "binade x = max \<lfloor>log 2 \<bar>x\<bar>\<rfloor> (- 1022)"
proof -
  let ?k = "\<lfloor>log 2 \<bar>x\<bar>\<rfloor>"
  have x0: "0 < \<bar>x\<bar>" using assms(1) by (simp add: pow2_numeral)
  have "\<lfloor>log 2 \<bar>x\<bar>\<rfloor> = ?k" by (simp add: pow2_numeral)
  then have k: "pow2 ?k \<le> \<bar>x\<bar>" "\<bar>x\<bar> < pow2 (?k + 1)"
    unfolding pow2_powr by (subst (asm) floor_log_eq_powr_iff [OF x0]; simp)+
  show ?thesis
  proof (cases "- 1022 \<le> ?k")
    case True
    from k(1) assms(2) have "pow2 ?k < pow2 1024" by linarith
    from pow2_less [OF this] have "?k \<le> 1023" by (simp add: pow2_numeral)
    from binade_eq [OF k True this] True show ?thesis by (simp add: pow2_numeral)
  next
    case False
    then have "?k + 1 \<le> - 1022" by linarith
    from pow2_mono [OF this] k(2) have lt: "\<bar>x\<bar> < pow2 (- int 1022)" by (simp add: pow2_numeral)
    then have "\<bar>x\<bar> < 1" by (simp add: pow2_numeral)
    with binadeDown_below [OF lt] False show ?thesis by (simp add: pow2_numeral binade_def)
  qed
qed

lemma fl_eval:
  assumes "pow2 e \<le> \<bar>x\<bar>" "\<bar>x\<bar> < pow2 (e + 1)" "- 1022 \<le> e" "e \<le> 1023"
  shows "fl x = real_of_int (roundEven (x / pow2 (e - 52))) * pow2 (e - 52)"
proof -
  have "x \<noteq> 0" using assms(1) pow2_pos [of e] by linarith
  then show ?thesis by (simp add: pow2_numeral fl_def binade_eq [OF assms])
qed

lemma roundEven_err: "\<bar>real_of_int (roundEven y) - y\<bar> \<le> 1 / 2"
  unfolding roundEven_def by (auto; linarith)

lemma roundEven_le: "y \<le> real_of_int n \<Longrightarrow> roundEven y \<le> n"
proof -
  assume a: "y \<le> real_of_int n"
  then have f: "\<lfloor>y\<rfloor> \<le> n" by linarith
  show ?thesis
  proof (cases "y = real_of_int \<lfloor>y\<rfloor>")
    case True
    then have "roundEven y = \<lfloor>y\<rfloor>" by (simp add: pow2_numeral roundEven_def)
    with f show ?thesis by (simp add: pow2_numeral)
  next
    case False
    then have "real_of_int \<lfloor>y\<rfloor> < y" by linarith
    with a have "\<lfloor>y\<rfloor> < n" by linarith
    moreover have "roundEven y \<le> \<lfloor>y\<rfloor> + 1" by (simp add: pow2_numeral roundEven_def)
    ultimately show ?thesis by linarith
  qed
qed

lemma roundEven_nonneg: "0 \<le> y \<Longrightarrow> 0 \<le> roundEven y"
proof -
  assume "0 \<le> y"
  then have "0 \<le> \<lfloor>y\<rfloor>" by (simp add: pow2_numeral)
  moreover have "\<lfloor>y\<rfloor> \<le> roundEven y" by (simp add: pow2_numeral roundEven_def)
  ultimately show ?thesis by linarith
qed

lemma fl_nonneg: "0 \<le> x \<Longrightarrow> 0 \<le> fl x"
  using pow2_pos [of "binade x - 52"]
  by (simp add: pow2_numeral fl_def roundEven_nonneg)

lemma binade_bounds:
  assumes "x \<noteq> 0" "\<bar>x\<bar> < pow2 1024"
  shows "\<bar>x\<bar> < pow2 (binade x + 1)"
proof -
  have "log 2 \<bar>x\<bar> < real_of_int (\<lfloor>log 2 \<bar>x\<bar>\<rfloor> + 1)" by linarith
  also have "\<dots> \<le> real_of_int (binade x + 1)" by (simp add: pow2_numeral binade_log [OF assms])
  finally have "log 2 \<bar>x\<bar> < real_of_int (binade x + 1)" .
  with assms(1) show ?thesis
    by (simp add: pow2_numeral pow2_powr log_less_iff)
qed

lemma binade_le:
  assumes "x \<noteq> 0" "\<bar>x\<bar> < pow2 (k + 1)" "- 1022 \<le> k" "k \<le> 1023"
  shows "binade x \<le> k"
proof -
  from assms(4) have "pow2 (k + 1) \<le> pow2 1024" by (intro pow2_mono) simp
  with assms(2) have b: "\<bar>x\<bar> < pow2 1024" by linarith
  from assms(1,2) have "log 2 \<bar>x\<bar> < real_of_int (k + 1)"
    by (simp add: pow2_numeral pow2_powr log_less_iff)
  then have "\<lfloor>log 2 \<bar>x\<bar>\<rfloor> \<le> k" by linarith
  with assms(3) show ?thesis by (simp add: pow2_numeral binade_log [OF assms(1) b])
qed

lemma fl_err:
  assumes "x \<noteq> 0"
  shows "\<bar>fl x - x\<bar> \<le> pow2 (binade x - 52) / 2"
proof -
  let ?u = "pow2 (binade x - 52)"
  have u: "0 < ?u" by (rule pow2_pos)
  have "fl x - x = (real_of_int (roundEven (x / ?u)) - x / ?u) * ?u"
    using assms u by (simp add: pow2_numeral fl_def algebra_simps)
  then have "\<bar>fl x - x\<bar> = \<bar>real_of_int (roundEven (x / ?u)) - x / ?u\<bar> * ?u"
    using u by (simp add: pow2_numeral abs_mult)
  also have "\<dots> \<le> 1 / 2 * ?u"
    using roundEven_err [of "x / ?u"] u by (intro mult_right_mono) simp_all
  finally show ?thesis by (simp add: pow2_numeral)
qed

lemma fl_err_bounded:
  assumes "\<bar>x\<bar> < pow2 (k + 1)" "- 1022 \<le> k" "k \<le> 1023"
  shows "\<bar>fl x - x\<bar> \<le> pow2 (k - 52) / 2"
proof (cases "x = 0")
  case True
  then show ?thesis using pow2_pos [of "k - 52"] by (simp add: pow2_numeral fl_def)
next
  case False
  from binade_le [OF False assms] have "pow2 (binade x - 52) \<le> pow2 (k - 52)"
    by (intro pow2_mono) simp
  with fl_err [OF False] show ?thesis by linarith
qed

lemma fl_le:
  assumes "0 \<le> x" "x \<le> c"
    and c: "pow2 k \<le> c" "c < pow2 (k + 1)" "- 1022 \<le> k" "k \<le> 1023"
    and n: "c / pow2 (k - 52) = real_of_int n"
  shows "fl x \<le> c"
proof (cases "x = 0")
  case True
  with assms(1,2) show ?thesis by (simp add: pow2_numeral fl_def)
next
  case False
  let ?e = "binade x"
  let ?u = "pow2 (?e - 52)"
  have u: "0 < ?u" by (rule pow2_pos)
  from assms(1,2) c(2) have xk: "\<bar>x\<bar> < pow2 (k + 1)" by (simp add: pow2_numeral)
  from binade_le [OF False this c(3,4)] have ek: "?e \<le> k" .
  from c(4) have "pow2 (k + 1) \<le> pow2 1024" by (intro pow2_mono) simp
  with xk have xb: "\<bar>x\<bar> < pow2 1024" by linarith
  have flx: "fl x = real_of_int (roundEven (x / ?u)) * ?u"
    using False by (simp add: pow2_numeral fl_def)
  show ?thesis
  proof (cases "?e = k")
    case True
    have "x / ?u \<le> c / ?u" using assms(2) u by (simp add: pow2_numeral divide_right_mono)
    then have "x / ?u \<le> real_of_int n" using n True by (simp add: pow2_numeral)
    then have "roundEven (x / ?u) \<le> n" by (rule roundEven_le)
    then have "real_of_int (roundEven (x / ?u)) \<le> real_of_int n" by (simp add: pow2_numeral)
    then have "fl x \<le> real_of_int n * ?u" unfolding flx using u by (simp add: pow2_numeral mult_right_mono)
    also have "\<dots> = c" using n [symmetric] True u by (simp add: pow2_numeral)
    finally show ?thesis .
  next
    case False
    with ek have lt: "?e + 1 \<le> k" by (simp add: pow2_numeral)
    have p: "pow2 (?e + 1) = real_of_int (2 ^ 53) * ?u"
      using pow2_add [of 53 "?e - 52"] by (simp add: pow2_numeral add.commute)
    from binade_bounds [OF \<open>x \<noteq> 0\<close> xb] assms(1) have "x < real_of_int (2 ^ 53) * ?u"
      unfolding p by (simp add: pow2_numeral)
    then have "x / ?u \<le> real_of_int (2 ^ 53)" using u by (simp add: pow2_numeral field_simps)
    then have "roundEven (x / ?u) \<le> 2 ^ 53" by (rule roundEven_le)
    then have "real_of_int (roundEven (x / ?u)) \<le> real_of_int (2 ^ 53)" by linarith
    then have "fl x \<le> real_of_int (2 ^ 53) * ?u" unfolding flx using u by (simp add: pow2_numeral mult_right_mono)
    also have "\<dots> = pow2 (?e + 1)" using p by (simp add: pow2_numeral)
    also have "\<dots> \<le> pow2 k" using lt by (rule pow2_mono)
    also have "\<dots> \<le> c" by (rule c(1))
    finally show ?thesis .
  qed
qed

lemma fl_1: "fl 1 = 1"
  by (subst fl_eval [of 0]) (simp_all add: pow2_numeral roundEven_def)

lemma fl_100: "fl 100 = 100"
  by (subst fl_eval [of 6]) (simp_all add: pow2_numeral roundEven_def)

lemma fl_le_1: "0 \<le> x \<Longrightarrow> x \<le> 1 \<Longrightarrow> fl x \<le> 1"
  by (rule fl_le [where k = 0 and n = "2 ^ 52"]) (simp_all add: pow2_numeral)

lemma fl_le_100: "0 \<le> x \<Longrightarrow> x \<le> 100 \<Longrightarrow> fl x \<le> 100"
  by (rule fl_le [where k = 6 and n = "100 * 2 ^ 46"]) (simp_all add: pow2_numeral)

lemma Math_round_err: "\<bar>real_of_int (Math_round p) - p\<bar> \<le> 1 / 2"
  unfolding Math_round_def by linarith

lemma percent_bounds:
  assumes "0 \<le> x" "x \<le> 1"
  defines "r \<equiv> real_of_int (Math_round (fl (fl x * 100))) / 100"
  shows "0 \<le> r" "r \<le> 1" "\<bar>r - x\<bar> \<le> 1 / 200 + 1 / 2 ^ 52"
proof -
  let ?q = "fl x"
  let ?p = "fl (?q * 100)"
  let ?m = "Math_round ?p"
  have q: "0 \<le> ?q" "?q \<le> 1" using assms(1,2) by (simp_all add: pow2_numeral fl_nonneg fl_le_1)
  have eq: "\<bar>?q - x\<bar> \<le> 1 / 2 ^ 53"
    using fl_err_bounded [of x 0] assms(1,2) by (simp add: pow2_numeral)
  have p: "0 \<le> ?p" "?p \<le> 100" using q by (simp_all add: pow2_numeral fl_nonneg fl_le_100)
  have ep: "\<bar>?p - ?q * 100\<bar> \<le> 1 / 2 ^ 47"
    using fl_err_bounded [of "?q * 100" 6] q by (simp add: pow2_numeral)
  have m: "0 \<le> ?m" "?m \<le> 100"
    using p unfolding Math_round_def by (simp_all add: pow2_numeral floor_le_iff) 
  have em: "\<bar>real_of_int ?m - ?p\<bar> \<le> 1 / 2" by (rule Math_round_err)
  show "0 \<le> r" "r \<le> 1" unfolding r_def using m by (simp_all add: pow2_numeral pow2_numeral)
  have "r - x = (real_of_int ?m - ?p) / 100 + (?p - ?q * 100) / 100 + (?q - x)"
    unfolding r_def by (simp add: pow2_numeral field_simps)
  also have "\<bar>\<dots>\<bar> \<le> \<bar>real_of_int ?m - ?p\<bar> / 100 + \<bar>?p - ?q * 100\<bar> / 100 + \<bar>?q - x\<bar>"
    by (intro order_trans [OF abs_triangle_ineq] add_mono order_refl) simp_all
  also have "\<dots> \<le> (1 / 2) / 100 + (1 / 2 ^ 47) / 100 + 1 / 2 ^ 53"
    by (intro add_mono divide_right_mono em ep eq) simp_all
  also have "\<dots> \<le> 1 / 200 + 1 / 2 ^ 52" by (simp add: pow2_numeral)
  finally show "\<bar>r - x\<bar> \<le> 1 / 200 + 1 / 2 ^ 52" .
qed

lemma roundEven_of_int: "roundEven (real_of_int n) = n"
  by (simp add: roundEven_def)

lemma fl_of_int:
  assumes "\<bar>n\<bar> < 2 ^ 53"
  shows "fl (real_of_int n) = real_of_int n"
proof (cases "n = 0")
  case True
  then show ?thesis by (simp add: fl_def)
next
  case False
  let ?x = "real_of_int n"
  let ?e = "binade ?x"
  have x0: "?x \<noteq> 0" using False by simp
  have "real_of_int \<bar>n\<bar> < real_of_int (2 ^ 53)" using assms by (simp only: of_int_less_iff)
  then have xb: "\<bar>?x\<bar> < pow2 (52 + 1)" by (simp add: pow2_numeral)
  from binade_le [OF x0 xb] have e: "?e \<le> 52" by simp
  have u: "pow2 (?e - 52) = 1 / 2 ^ nat (52 - ?e)"
  proof (cases "?e = 52")
    case True
    then show ?thesis by (simp add: pow2_numeral)
  next
    case False
    with e have "\<not> 0 \<le> ?e - 52" by simp
    then show ?thesis by (simp add: pow2_def)
  qed
  have "?x / pow2 (?e - 52) = real_of_int (n * 2 ^ nat (52 - ?e))"
    unfolding u by simp
  then have "roundEven (?x / pow2 (?e - 52)) = n * 2 ^ nat (52 - ?e)"
    by (simp only: roundEven_of_int)
  then show ?thesis
    using x0 unfolding fl_def u by simp
qed

lemma fl_numeral: "numeral k < (2 :: int) ^ 53 \<Longrightarrow> fl (numeral k) = numeral k"
  using fl_of_int [of "numeral k"] by simp

section \<open>The risk calculator is bounded, saturating and levelled\<close>

lemma score_calculateRiskScore:
  "score (calculateRiskScore i) =
     min 100 (max 0 (Math_round
       (min (gazeDeviationCount i) 5 * 8 + min (faceAbsenceCount i) 3 * 15
        + min (objectDetectionCount i) 3 * 20 + min (tabSwitchCount i) 5 * 6)))"
  unfolding calculateRiskScore_def Let_def RISK_WEIGHTS_gazeDeviation_def
    RISK_WEIGHTS_faceAbsence_def RISK_WEIGHTS_objectDetection_def RISK_WEIGHTS_tabSwitch_def
  by (simp only: RiskOutput.select_convs WeightCap.select_convs)

lemma level_calculateRiskScore:
  "level (calculateRiskScore i) =
     (if 70 \<le> score (calculateRiskScore i) then High
      else if 35 \<le> score (calculateRiskScore i) then Medium else Low)"
  unfolding calculateRiskScore_def Let_def RISK_THRESHOLDS_medium_def RISK_THRESHOLDS_high_def
  by (simp only: RiskOutput.select_convs)

text \<open>The output depends on the input only through the four capped counts.\<close>

lemma calculateRiskScore_cong:
  assumes "min (gazeDeviationCount i) 5 = min (gazeDeviationCount j) 5"
    and "min (faceAbsenceCount i) 3 = min (faceAbsenceCount j) 3"
    and "min (objectDetectionCount i) 3 = min (objectDetectionCount j) 3"
    and "min (tabSwitchCount i) 5 = min (tabSwitchCount j) 5"
  shows "calculateRiskScore i = calculateRiskScore j"
proof -
  have s: "score (calculateRiskScore i) = score (calculateRiskScore j)"
    by (simp only: score_calculateRiskScore assms)
  have "level (calculateRiskScore i) = level (calculateRiskScore j)"
    by (simp only: level_calculateRiskScore s)
  with s show ?thesis by simp
qed

text \<open>
  Claim C3. For every risk input (any four counts, so in particular non-negative
  integers, and any duration) the score of \<open>calculateRiskScore\<close> is an integer between
  0 and 100; the level is High exactly when the score is at least 70, Medium exactly when
  it is at least 35 and below 70, and Low otherwise. The result is a function of the four
  counts alone: the duration does not change it.
\<close>

theorem calculateRiskScore_bounded_levelled:
  "0 \<le> score (calculateRiskScore i) \<and> score (calculateRiskScore i) \<le> 100 \<and>
   (level (calculateRiskScore i) = High \<longleftrightarrow> 70 \<le> score (calculateRiskScore i)) \<and>
   (level (calculateRiskScore i) = Medium \<longleftrightarrow>
      35 \<le> score (calculateRiskScore i) \<and> score (calculateRiskScore i) < 70) \<and>
   (level (calculateRiskScore i) = Low \<longleftrightarrow> score (calculateRiskScore i) < 35) \<and>
   calculateRiskScore (i\<lparr>sessionDurationMs := d\<rparr>) = calculateRiskScore i"
proof -
  have b: "0 \<le> score (calculateRiskScore i) \<and> score (calculateRiskScore i) \<le> 100"
    unfolding score_calculateRiskScore by simp
  have d: "calculateRiskScore (i\<lparr>sessionDurationMs := d\<rparr>) = calculateRiskScore i"
    by (rule calculateRiskScore_cong) simp_all
  show ?thesis
    using b d by (simp add: level_calculateRiskScore)
qed

theorem calculateRiskScore_bounded_levelled_witness:
  "score (calculateRiskScore \<lparr>gazeDeviationCount = 5, faceAbsenceCount = 2,
      objectDetectionCount = 0, tabSwitchCount = 0, sessionDurationMs = 60000\<rparr>) = 70 \<and>
   level (calculateRiskScore \<lparr>gazeDeviationCount = 5, faceAbsenceCount = 2,
      objectDetectionCount = 0, tabSwitchCount = 0, sessionDurationMs = 60000\<rparr>) = High"
  using calculateRiskScore_bounded_levelled
    [of "\<lparr>gazeDeviationCount = 5, faceAbsenceCount = 2, objectDetectionCount = 0,
          tabSwitchCount = 0, sessionDurationMs = 60000\<rparr>" 0]
  by (simp add: score_calculateRiskScore Math_round_def)

text \<open>
  Claim C4. Each category contributes \<open>min count cap * weight\<close> with the pairs
  (8, 5), (15, 3), (20, 3) and (6, 5); a gaze count of 100 scores as a gaze count of 5
  whatever the other counts are, and raising any count beyond its cap changes nothing;
  the input with all four counts 100 scores exactly 100 although its capped sum is 175.
\<close>

theorem calculateRiskScore_cap_saturation:
  "score (calculateRiskScore i) =
     min 100 (max 0 (Math_round
       (min (gazeDeviationCount i) 5 * 8 + min (faceAbsenceCount i) 3 * 15
        + min (objectDetectionCount i) 3 * 20 + min (tabSwitchCount i) 5 * 6))) \<and>
   calculateRiskScore (i\<lparr>gazeDeviationCount := 100\<rparr>)
     = calculateRiskScore (i\<lparr>gazeDeviationCount := 5\<rparr>) \<and>
   (5 \<le> g \<longrightarrow> calculateRiskScore (i\<lparr>gazeDeviationCount := g\<rparr>)
     = calculateRiskScore (i\<lparr>gazeDeviationCount := 5\<rparr>)) \<and>
   (3 \<le> a \<longrightarrow> calculateRiskScore (i\<lparr>faceAbsenceCount := a\<rparr>)
     = calculateRiskScore (i\<lparr>faceAbsenceCount := 3\<rparr>)) \<and>
   (3 \<le> ob \<longrightarrow> calculateRiskScore (i\<lparr>objectDetectionCount := ob\<rparr>)
     = calculateRiskScore (i\<lparr>objectDetectionCount := 3\<rparr>)) \<and>
   (5 \<le> t \<longrightarrow> calculateRiskScore (i\<lparr>tabSwitchCount := t\<rparr>)
     = calculateRiskScore (i\<lparr>tabSwitchCount := 5\<rparr>)) \<and>
   score (calculateRiskScore \<lparr>gazeDeviationCount = 100, faceAbsenceCount = 100,
      objectDetectionCount = 100, tabSwitchCount = 100, sessionDurationMs = d\<rparr>) = 100 \<and>
   min 100 (cap RISK_WEIGHTS_gazeDeviation) * weight RISK_WEIGHTS_gazeDeviation
     + min 100 (cap RISK_WEIGHTS_faceAbsence) * weight RISK_WEIGHTS_faceAbsence
     + min 100 (cap RISK_WEIGHTS_objectDetection) * weight RISK_WEIGHTS_objectDetection
     + min 100 (cap RISK_WEIGHTS_tabSwitch) * weight RISK_WEIGHTS_tabSwitch = 175"
proof -
  have 1: "calculateRiskScore (i\<lparr>gazeDeviationCount := g\<rparr>)
     = calculateRiskScore (i\<lparr>gazeDeviationCount := 5\<rparr>)" if "5 \<le> g" for g
    using that by (intro calculateRiskScore_cong) simp_all
  have 2: "calculateRiskScore (i\<lparr>faceAbsenceCount := a\<rparr>)
     = calculateRiskScore (i\<lparr>faceAbsenceCount := 3\<rparr>)" if "3 \<le> a"
    using that by (intro calculateRiskScore_cong) simp_all
  have 3: "calculateRiskScore (i\<lparr>objectDetectionCount := ob\<rparr>)
     = calculateRiskScore (i\<lparr>objectDetectionCount := 3\<rparr>)" if "3 \<le> ob"
    using that by (intro calculateRiskScore_cong) simp_all
  have 4: "calculateRiskScore (i\<lparr>tabSwitchCount := t\<rparr>)
     = calculateRiskScore (i\<lparr>tabSwitchCount := 5\<rparr>)" if "5 \<le> t"
    using that by (intro calculateRiskScore_cong) simp_all
  have 5: "score (calculateRiskScore \<lparr>gazeDeviationCount = 100, faceAbsenceCount = 100,
      objectDetectionCount = 100, tabSwitchCount = 100, sessionDurationMs = d\<rparr>) = 100"
    by (simp add: score_calculateRiskScore Math_round_def)
  have 6: "min 100 (cap RISK_WEIGHTS_gazeDeviation) * weight RISK_WEIGHTS_gazeDeviation
     + min 100 (cap RISK_WEIGHTS_faceAbsence) * weight RISK_WEIGHTS_faceAbsence
     + min 100 (cap RISK_WEIGHTS_objectDetection) * weight RISK_WEIGHTS_objectDetection
     + min 100 (cap RISK_WEIGHTS_tabSwitch) * weight RISK_WEIGHTS_tabSwitch = 175"
    by (simp add: RISK_WEIGHTS_gazeDeviation_def RISK_WEIGHTS_faceAbsence_def
        RISK_WEIGHTS_objectDetection_def RISK_WEIGHTS_tabSwitch_def)
  have 7: "calculateRiskScore (i\<lparr>gazeDeviationCount := 100\<rparr>)
     = calculateRiskScore (i\<lparr>gazeDeviationCount := 5\<rparr>)"
    by (rule 1) simp
  show ?thesis
    by (intro conjI impI) (rule score_calculateRiskScore 1 2 3 4 5 6 7 | assumption)+
qed

theorem calculateRiskScore_cap_saturation_witness:
  "calculateRiskScore \<lparr>gazeDeviationCount = 7, faceAbsenceCount = 4,
      objectDetectionCount = 0, tabSwitchCount = 9, sessionDurationMs = 60000\<rparr>
   = calculateRiskScore \<lparr>gazeDeviationCount = 5, faceAbsenceCount = 4,
      objectDetectionCount = 0, tabSwitchCount = 9, sessionDurationMs = 60000\<rparr> \<and>
   calculateRiskScore \<lparr>gazeDeviationCount = 1, faceAbsenceCount = 4,
      objectDetectionCount = 0, tabSwitchCount = 9, sessionDurationMs = 60000\<rparr>
   = calculateRiskScore \<lparr>gazeDeviationCount = 1, faceAbsenceCount = 3,
      objectDetectionCount = 0, tabSwitchCount = 9, sessionDurationMs = 60000\<rparr> \<and>
   calculateRiskScore \<lparr>gazeDeviationCount = 1, faceAbsenceCount = 1,
      objectDetectionCount = 10, tabSwitchCount = 9, sessionDurationMs = 60000\<rparr>
   = calculateRiskScore \<lparr>gazeDeviationCount = 1, faceAbsenceCount = 1,
      objectDetectionCount = 3, tabSwitchCount = 9, sessionDurationMs = 60000\<rparr> \<and>
   calculateRiskScore \<lparr>gazeDeviationCount = 1, faceAbsenceCount = 1,
      objectDetectionCount = 0, tabSwitchCount = 20, sessionDurationMs = 60000\<rparr>
   = calculateRiskScore \<lparr>gazeDeviationCount = 1, faceAbsenceCount = 1,
      objectDetectionCount = 0, tabSwitchCount = 5, sessionDurationMs = 60000\<rparr>"
  using
    calculateRiskScore_cap_saturation
      [of "\<lparr>gazeDeviationCount = 0, faceAbsenceCount = 4, objectDetectionCount = 0,
            tabSwitchCount = 9, sessionDurationMs = 60000\<rparr>" 7 3 3 5 0]
    calculateRiskScore_cap_saturation
      [of "\<lparr>gazeDeviationCount = 1, faceAbsenceCount = 0, objectDetectionCount = 0,
            tabSwitchCount = 9, sessionDurationMs = 60000\<rparr>" 5 4 3 5 0]
    calculateRiskScore_cap_saturation
      [of "\<lparr>gazeDeviationCount = 1, faceAbsenceCount = 1, objectDetectionCount = 0,
            tabSwitchCount = 9, sessionDurationMs = 60000\<rparr>" 5 3 10 5 0]
    calculateRiskScore_cap_saturation
      [of "\<lparr>gazeDeviationCount = 1, faceAbsenceCount = 1, objectDetectionCount = 0,
            tabSwitchCount = 0, sessionDurationMs = 60000\<rparr>" 5 3 3 20 0]
  by simp

section \<open>The worked aggregation example\<close>

text \<open>The double written 0.88 (that is, 22 / 25), and its product with 100 in doubles,
  which is 88.\<close>

lemma fl_percent_example:
  "fl (22 / 25) = 7926335344172073 / 2 ^ 53" "fl (fl (22 / 25) * 100) = 88"
proof -
  show a: "fl (22 / 25) = 7926335344172073 / 2 ^ 53"
    by (subst fl_eval [of "- 1"]) (simp_all add: roundEven_def pow2_numeral)
  show "fl (fl (22 / 25) * 100) = 88"
    unfolding a by (subst fl_eval [of 6]) (simp_all add: roundEven_def pow2_numeral)
qed

text \<open>
  Claim C9. For the event log of a GazeAway event of 3000 ms, a FaceAbsent event of
  2500 ms and a TabSwitch event (whatever their timestamps), a session of 120000 ms and
  a focus ratio of 0.88, the compressed payload is exactly: 120 s, focus ratio 0.88, one
  gaze incident, longest gaze-away 3 s, one face absence, no object incident, one tab
  switch, risk score 29. The three categories contribute 8, 15 and 6, and the level is
  Low.
\<close>

theorem buildGeminiPayload_example:
  "buildGeminiPayload
     [\<lparr>etype = ''GAZE_AWAY'', SessionEvent.timestamp = t1, severity = warning,
        metadata = Some [(''durationMs'', JNumber (Num 3000))]\<rparr>,
      \<lparr>etype = ''FACE_ABSENT'', SessionEvent.timestamp = t2, severity = suspicious,
        metadata = Some [(''durationMs'', JNumber (Num 2500))]\<rparr>,
      \<lparr>etype = ''TAB_SWITCH'', SessionEvent.timestamp = t3, severity = warning,
        metadata = None\<rparr>]
     120000 0.88
   = \<lparr>sessionDurationSec = 120, GeminiPayload.focusRatio = 0.88, gazeIncidents = 1,
      longestGazeAwaySec = Num 3, faceAbsenceEvents = 1, objectIncidents = 0,
      tabSwitches = 1, riskScore = 29\<rparr> \<and>
   calculateRiskScore (buildRiskInput
     [\<lparr>etype = ''GAZE_AWAY'', SessionEvent.timestamp = t1, severity = warning,
        metadata = Some [(''durationMs'', JNumber (Num 3000))]\<rparr>,
      \<lparr>etype = ''FACE_ABSENT'', SessionEvent.timestamp = t2, severity = suspicious,
        metadata = Some [(''durationMs'', JNumber (Num 2500))]\<rparr>,
      \<lparr>etype = ''TAB_SWITCH'', SessionEvent.timestamp = t3, severity = warning,
        metadata = None\<rparr>]
     120000) = \<lparr>score = 29, level = Low\<rparr> \<and>
   score (calculateRiskScore \<lparr>gazeDeviationCount = 1, faceAbsenceCount = 0,
     objectDetectionCount = 0, tabSwitchCount = 0, sessionDurationMs = 120000\<rparr>) = 8 \<and>
   score (calculateRiskScore \<lparr>gazeDeviationCount = 0, faceAbsenceCount = 1,
     objectDetectionCount = 0, tabSwitchCount = 0, sessionDurationMs = 120000\<rparr>) = 15 \<and>
   score (calculateRiskScore \<lparr>gazeDeviationCount = 0, faceAbsenceCount = 0,
     objectDetectionCount = 0, tabSwitchCount = 1, sessionDurationMs = 120000\<rparr>) = 6"
proof -
  let ?log = "[\<lparr>etype = ''GAZE_AWAY'', SessionEvent.timestamp = t1, severity = warning,
        metadata = Some [(''durationMs'', JNumber (Num 3000))]\<rparr>,
      \<lparr>etype = ''FACE_ABSENT'', SessionEvent.timestamp = t2, severity = suspicious,
        metadata = Some [(''durationMs'', JNumber (Num 2500))]\<rparr>,
      \<lparr>etype = ''TAB_SWITCH'', SessionEvent.timestamp = t3, severity = warning,
        metadata = None\<rparr>]"
  have s: "score (calculateRiskScore (buildRiskInput ?log 120000)) = 29"
    by (simp add: countEventsByType_def buildRiskInput_def score_calculateRiskScore
        Math_round_def)
  have l: "level (calculateRiskScore (buildRiskInput ?log 120000)) = Low"
    by (simp only: level_calculateRiskScore s) simp
  have r: "calculateRiskScore (buildRiskInput ?log 120000) = \<lparr>score = 29, level = Low\<rparr>"
    using s l by (cases "calculateRiskScore (buildRiskInput ?log 120000)") simp
  have p: "buildGeminiPayload ?log 120000 0.88
    = \<lparr>sessionDurationSec = 120, GeminiPayload.focusRatio = 0.88, gazeIncidents = 1,
       longestGazeAwaySec = Num 3, faceAbsenceEvents = 1, objectIncidents = 0,
       tabSwitches = 1, riskScore = 29\<rparr>"
    unfolding buildGeminiPayload_def s
    by (simp add: countEventsByType_def longestDuration_def metadata_get_def Math_round_def
        fl_numeral fl_percent_example(2))
  have g: "score (calculateRiskScore \<lparr>gazeDeviationCount = 1, faceAbsenceCount = 0,
     objectDetectionCount = 0, tabSwitchCount = 0, sessionDurationMs = 120000\<rparr>) = 8"
    by (simp add: score_calculateRiskScore Math_round_def)
  have a: "score (calculateRiskScore \<lparr>gazeDeviationCount = 0, faceAbsenceCount = 1,
     objectDetectionCount = 0, tabSwitchCount = 0, sessionDurationMs = 120000\<rparr>) = 15"
    by (simp add: score_calculateRiskScore Math_round_def)
  have t: "score (calculateRiskScore \<lparr>gazeDeviationCount = 0, faceAbsenceCount = 0,
     objectDetectionCount = 0, tabSwitchCount = 1, sessionDurationMs = 120000\<rparr>) = 6"
    by (simp add: score_calculateRiskScore Math_round_def)
  show ?thesis
    by (intro conjI) (rule p r g a t)+
qed

theorem buildGeminiPayload_example_witness:
  "riskScore (buildGeminiPayload
     [\<lparr>etype = ''GAZE_AWAY'', SessionEvent.timestamp = 1000, severity = warning,
        metadata = Some [(''durationMs'', JNumber (Num 3000))]\<rparr>,
      \<lparr>etype = ''FACE_ABSENT'', SessionEvent.timestamp = 2000, severity = suspicious,
        metadata = Some [(''durationMs'', JNumber (Num 2500))]\<rparr>,
      \<lparr>etype = ''TAB_SWITCH'', SessionEvent.timestamp = 3000, severity = warning,
        metadata = None\<rparr>]
     120000 0.88) = 29"
  using buildGeminiPayload_example [of 1000 2000 3000] by simp

section \<open>The gaze state machine and the face-absence tracker\<close>

subsection \<open>One measurement\<close>



lemma strongDeviationGate_other:
  "gazeStateRef s = ALERT_ACTIVE \<or> gazeStateRef s = ABSENT \<Longrightarrow>
   strongDeviationGate s now d r = (s\<lparr>tqDeviationRef := tqDeviationRef s + d\<rparr>, [])"
  by (auto simp add: strongDeviationGate_def Let_def)

lemma tick_strong:
  "strongDeviationTick t \<Longrightarrow>
   tick s t = strongDeviationGate (s\<lparr>absenceStartRef := None, isFaceAbsentLoggedRef := False\<rparr>)
                (tickNow t) (tickDelta t) (tickResult t)"
  by (simp add: tick_def gazeTick_def presentBranch_def strongDeviationTick_def Let_def)

lemma tick_absent:
  "absentTick t \<Longrightarrow> tick s t = absenceBranch s (tickNow t) (tickDelta t)"
  by (simp add: tick_def gazeTick_def absentTick_def)

lemma tick_reset:
  "resetTick t \<Longrightarrow>
   gazeStateRef (fst (tick s t)) = NORMAL \<and> deviationStartRef (fst (tick s t)) = None \<and>
   snd (tick s t) = [] \<and>
   lastGazeAlertTimeRef (fst (tick s t)) = lastGazeAlertTimeRef s \<and>
   absenceStartRef (fst (tick s t)) = None \<and> \<not> isFaceAbsentLoggedRef (fst (tick s t)) \<and>
   lastFaceAbsentTimeRef (fst (tick s t)) = lastFaceAbsentTimeRef s"
  by (auto simp add: tick_def gazeTick_def presentBranch_def resetTick_def Let_def)




lemma tick_strong_other:
  assumes "strongDeviationTick t" "gazeStateRef s = ALERT_ACTIVE \<or> gazeStateRef s = ABSENT"
  shows "gazeStateRef (fst (tick s t)) = gazeStateRef s"
    and "deviationStartRef (fst (tick s t)) = deviationStartRef s"
    and "lastGazeAlertTimeRef (fst (tick s t)) = lastGazeAlertTimeRef s"
    and "snd (tick s t) = []"
  using assms by (auto simp add: tick_strong strongDeviationGate_other)

lemma absenceBranch_start:
  "absenceStartRef s = None \<or> absenceStartRef s = Some 0 \<Longrightarrow>
   absenceBranch s now d =
     (s\<lparr>absenceStartRef := Some now, tqAbsenceRef := tqAbsenceRef s + d,
        gazeStateRef := ABSENT\<rparr>, [])"
  by (auto simp add: absenceBranch_def Let_def FACE_ABSENCE_SUSTAIN_MS_def)

lemma absenceBranch_continue:
  "absenceStartRef s = Some a \<Longrightarrow> a \<noteq> 0 \<Longrightarrow>
   absenceBranch s now d =
     (if now - a \<ge> FACE_ABSENCE_SUSTAIN_MS \<and> \<not> isFaceAbsentLoggedRef s \<and>
         now - lastFaceAbsentTimeRef s \<ge> FACE_ABSENCE_COOLDOWN_MS
      then (s\<lparr>isFaceAbsentLoggedRef := True, lastFaceAbsentTimeRef := now,
              tqAbsenceRef := tqAbsenceRef s + d, gazeStateRef := ABSENT\<rparr>,
            [FACE_ABSENT_event now (now - a)])
      else (s\<lparr>tqAbsenceRef := tqAbsenceRef s + d, gazeStateRef := ABSENT\<rparr>, []))"
  by (simp add: absenceBranch_def Let_def)

lemma tick_absent_start:
  assumes "absentTick t" "absenceStartRef s = None"
  shows "absenceStartRef (fst (tick s t)) = Some (tickNow t)"
    and "isFaceAbsentLoggedRef (fst (tick s t)) = isFaceAbsentLoggedRef s"
    and "lastFaceAbsentTimeRef (fst (tick s t)) = lastFaceAbsentTimeRef s"
    and "snd (tick s t) = []"
  using assms by (simp_all add: tick_absent absenceBranch_start)

lemma tick_absent_continue:
  assumes "absentTick t" "absenceStartRef s = Some a" "a \<noteq> 0" "\<not> isFaceAbsentLoggedRef s"
  shows "absenceStartRef (fst (tick s t)) = Some a"
    and "isFaceAbsentLoggedRef (fst (tick s t)) = faceAbsentDue a (lastFaceAbsentTimeRef s) t"
    and "lastFaceAbsentTimeRef (fst (tick s t)) =
          (if faceAbsentDue a (lastFaceAbsentTimeRef s) t then tickNow t
           else lastFaceAbsentTimeRef s)"
    and "snd (tick s t) =
          (if faceAbsentDue a (lastFaceAbsentTimeRef s) t
           then [FACE_ABSENT_event (tickNow t) (tickNow t - a)] else [])"
  using assms by (simp_all add: tick_absent absenceBranch_continue faceAbsentDue_def)

lemma tick_absent_logged:
  assumes "absentTick t" "isFaceAbsentLoggedRef s"
  shows "isFaceAbsentLoggedRef (fst (tick s t))" and "snd (tick s t) = []"
  using assms by (simp_all add: tick_absent absenceBranch_def Let_def)

lemma tick_absent_gaze:
  assumes "absentTick t"
  shows "gazeStateRef (fst (tick s t)) = ABSENT"
    and "deviationStartRef (fst (tick s t)) = deviationStartRef s"
    and "lastGazeAlertTimeRef (fst (tick s t)) = lastGazeAlertTimeRef s"
    and "countEventsByType (snd (tick s t)) ''GAZE_AWAY'' = 0"
  using assms
  by (simp_all add: tick_absent absenceBranch_def Let_def countEventsByType_def
      FACE_ABSENT_event_def)

lemma tick_absent_length:
  assumes "absentTick t"
  shows "length (snd (tick s t)) \<le> 1"
    and "snd (tick s t) \<noteq> [] \<Longrightarrow> isFaceAbsentLoggedRef (fst (tick s t))"
proof -
  show "length (snd (tick s t)) \<le> 1"
  proof (cases "absenceStartRef s = None \<or> absenceStartRef s = Some 0")
    case True
    then show ?thesis using assms by (simp add: tick_absent absenceBranch_start)
  next
    case False
    then obtain a where "absenceStartRef s = Some a" "a \<noteq> 0" by auto
    then show ?thesis using assms by (simp add: tick_absent absenceBranch_continue)
  qed
  show "isFaceAbsentLoggedRef (fst (tick s t))" if "snd (tick s t) \<noteq> []"
  proof (cases "absenceStartRef s = None \<or> absenceStartRef s = Some 0")
    case True
    then show ?thesis using assms that by (simp add: tick_absent absenceBranch_start)
  next
    case False
    then obtain a where "absenceStartRef s = Some a" "a \<noteq> 0" by auto
    then show ?thesis using assms that
      by (simp add: tick_absent absenceBranch_continue split: if_splits)
  qed
qed

lemma gazeTick_present_rearms:
  "\<not> faceAbsent r \<Longrightarrow>
   absenceStartRef (fst (gazeTick a now d r)) = None \<and>
   \<not> isFaceAbsentLoggedRef (fst (gazeTick a now d r)) \<and>
   lastFaceAbsentTimeRef (fst (gazeTick a now d r)) = lastFaceAbsentTimeRef a \<and>
   countEventsByType (snd (gazeTick a now d r)) ''FACE_ABSENT'' = 0"
  by (auto simp add: gazeTick_def presentBranch_def strongDeviationGate_def Let_def
      countEventsByType_def GAZE_AWAY_event_def)

subsection \<open>Runs of strong deviations\<close>





lemma find_None_Bex: "(find P xs = None) = (\<not> (\<exists>x\<in>set xs. P x))"
  by (auto simp add: find_None_iff)






subsection \<open>Runs of absences\<close>

lemma logged_run:
  "isFaceAbsentLoggedRef s \<Longrightarrow> \<forall>t\<in>set ts. absentTick t \<Longrightarrow>
   concat (ticksEvents s ts) = []"
proof (induction ts arbitrary: s)
  case Nil
  then show ?case by simp
next
  case (Cons t ts)
  from Cons.prems have st: "absentTick t" and rest: "\<forall>t\<in>set ts. absentTick t"
    by simp_all
  from tick_absent_logged [OF st Cons.prems(1)] Cons.IH [OF _ rest] show ?case by simp
qed

lemma logged_run_nth:
  assumes "isFaceAbsentLoggedRef s" "\<forall>t\<in>set ts. absentTick t" "i < length ts"
  shows "ticksEvents s ts ! i = []"
  using assms
proof (induction ts arbitrary: s i)
  case Nil
  then show ?case by simp
next
  case (Cons t ts)
  from Cons.prems have st: "absentTick t" and rest: "\<forall>t\<in>set ts. absentTick t"
    by simp_all
  note step = tick_absent_logged [OF st Cons.prems(1)]
  show ?case
  proof (cases i)
    case 0
    with step(2) show ?thesis by simp
  next
    case (Suc k)
    with Cons.prems(3) have "k < length ts" by simp
    from Cons.IH [OF step(1) rest this] Suc show ?thesis by simp
  qed
qed

lemma absence_run_total:
  "\<forall>t\<in>set ts. absentTick t \<Longrightarrow> length (concat (ticksEvents s ts)) \<le> 1"
proof (induction ts arbitrary: s)
  case Nil
  then show ?case by simp
next
  case (Cons t ts)
  from Cons.prems have st: "absentTick t" and rest: "\<forall>t\<in>set ts. absentTick t"
    by simp_all
  show ?case
  proof (cases "snd (tick s t) = []")
    case True
    with Cons.IH [OF rest, of "fst (tick s t)"] show ?thesis by simp
  next
    case False
    from tick_absent_length(2) [OF st False] have lg: "isFaceAbsentLoggedRef (fst (tick s t))" .
    have c: "concat (ticksEvents (fst (tick s t)) ts) = []"
      by (rule logged_run [OF lg rest])
    have "concat (ticksEvents s (t # ts)) = snd (tick s t)"
      by (simp only: ticksEvents.simps concat.simps c append_Nil2)
    with tick_absent_length(1) [OF st, of s] show ?thesis by (simp only:)
  qed
qed

lemma absence_run_nth:
  assumes "absenceStartRef s = Some a" "a \<noteq> 0" "\<not> isFaceAbsentLoggedRef s"
    "\<forall>t\<in>set ts. absentTick t" "i < length ts"
  shows "ticksEvents s ts ! i =
          (if faceAbsentDue a (lastFaceAbsentTimeRef s) (ts ! i) \<and>
              (\<forall>u\<in>set (take i ts). \<not> faceAbsentDue a (lastFaceAbsentTimeRef s) u)
           then [FACE_ABSENT_event (tickNow (ts ! i)) (tickNow (ts ! i) - a)]
           else [])"
  using assms
proof (induction ts arbitrary: s i)
  case Nil
  then show ?case by simp
next
  case (Cons t ts)
  from Cons.prems have st: "absentTick t" and rest: "\<forall>t\<in>set ts. absentTick t"
    by simp_all
  note step = tick_absent_continue [OF st Cons.prems(1) Cons.prems(2) Cons.prems(3)]
  show ?case
  proof (cases i)
    case 0
    with step(4) show ?thesis by simp
  next
    case (Suc k)
    with Cons.prems(5) have k: "k < length ts" by simp
    show ?thesis
    proof (cases "faceAbsentDue a (lastFaceAbsentTimeRef s) t")
      case True
      with step(2) have "isFaceAbsentLoggedRef (fst (tick s t))" by simp
      from logged_run_nth [OF this rest k] True Suc show ?thesis by simp
    next
      case False
      with step have n: "\<not> isFaceAbsentLoggedRef (fst (tick s t))"
        and l: "lastFaceAbsentTimeRef (fst (tick s t)) = lastFaceAbsentTimeRef s"
        by simp_all
      from Cons.IH [OF step(1) Cons.prems(2) n rest k] l False Suc show ?thesis by simp
    qed
  qed
qed

lemma tick_absent_logged_last:
  assumes "absentTick t" "isFaceAbsentLoggedRef s"
  shows "lastFaceAbsentTimeRef (fst (tick s t)) = lastFaceAbsentTimeRef s"
  using assms by (simp add: tick_absent absenceBranch_def Let_def)

lemma logged_run_refs:
  "isFaceAbsentLoggedRef s \<Longrightarrow> \<forall>t\<in>set ts. absentTick t \<Longrightarrow>
   lastFaceAbsentTimeRef (ticksRefs s ts) = lastFaceAbsentTimeRef s \<and>
   isFaceAbsentLoggedRef (ticksRefs s ts)"
proof (induction ts arbitrary: s)
  case Nil
  then show ?case by simp
next
  case (Cons t ts)
  from Cons.prems have st: "absentTick t" and rest: "\<forall>t\<in>set ts. absentTick t"
    by simp_all
  from Cons.IH [OF tick_absent_logged(1) [OF st Cons.prems(1)] rest]
    tick_absent_logged_last [OF st Cons.prems(1)]
  show ?case by simp
qed

lemma absence_run_summary:
  assumes "absenceStartRef s = Some a" "a \<noteq> 0" "\<not> isFaceAbsentLoggedRef s"
    "\<forall>t\<in>set ts. absentTick t"
  shows "concat (ticksEvents s ts) =
          (case find (faceAbsentDue a (lastFaceAbsentTimeRef s)) ts of
             None \<Rightarrow> []
           | Some t \<Rightarrow> [FACE_ABSENT_event (tickNow t) (tickNow t - a)]) \<and>
         lastFaceAbsentTimeRef (ticksRefs s ts) =
          (case find (faceAbsentDue a (lastFaceAbsentTimeRef s)) ts of
             None \<Rightarrow> lastFaceAbsentTimeRef s
           | Some t \<Rightarrow> tickNow t) \<and>
         isFaceAbsentLoggedRef (ticksRefs s ts) =
          (case find (faceAbsentDue a (lastFaceAbsentTimeRef s)) ts of
             None \<Rightarrow> False
           | Some t \<Rightarrow> True)"
  using assms
proof (induction ts arbitrary: s)
  case Nil
  then show ?case by simp
next
  case (Cons t ts)
  from Cons.prems have st: "absentTick t" and rest: "\<forall>t\<in>set ts. absentTick t"
    by simp_all
  note step = tick_absent_continue [OF st Cons.prems(1) Cons.prems(2) Cons.prems(3)]
  show ?case
  proof (cases "faceAbsentDue a (lastFaceAbsentTimeRef s) t")
    case True
    with step have lg: "isFaceAbsentLoggedRef (fst (tick s t))"
      and l: "lastFaceAbsentTimeRef (fst (tick s t)) = tickNow t"
      and e: "snd (tick s t) = [FACE_ABSENT_event (tickNow t) (tickNow t - a)]"
      by simp_all
    from logged_run [OF lg rest] logged_run_refs [OF lg rest] l e True show ?thesis by simp
  next
    case False
    with step have n: "\<not> isFaceAbsentLoggedRef (fst (tick s t))"
      and l: "lastFaceAbsentTimeRef (fst (tick s t)) = lastFaceAbsentTimeRef s"
      and e: "snd (tick s t) = []"
      by simp_all
    from Cons.IH [OF step(1) Cons.prems(2) n rest, unfolded l] e False show ?thesis by simp
  qed
qed

text \<open>An absence from cells with no absence start recorded and the logged flag clear.\<close>

lemma absence_episode_nth:
  assumes "absenceStartRef s = None" "\<not> isFaceAbsentLoggedRef s"
    "\<forall>t\<in>set ts. absentTick t" "i < length ts" "tickNow (ts ! 0) \<noteq> 0"
  shows "ticksEvents s ts ! i =
      (if faceAbsentDue (tickNow (ts ! 0)) (lastFaceAbsentTimeRef s) (ts ! i) \<and>
          (\<forall>u\<in>set (take i ts). \<not> faceAbsentDue (tickNow (ts ! 0)) (lastFaceAbsentTimeRef s) u)
       then [FACE_ABSENT_event (tickNow (ts ! i)) (tickNow (ts ! i) - tickNow (ts ! 0))]
       else [])"
proof -
  from assms(4) obtain t0 rest where ts: "ts = t0 # rest" by (cases ts) auto
  with assms(3) have st: "absentTick t0" and sr: "\<forall>t\<in>set rest. absentTick t"
    by simp_all
  from assms(5) ts have nz: "tickNow t0 \<noteq> 0" by simp
  note first = tick_absent_start [OF st assms(1)]
  from first(2) assms(2) have nl: "\<not> isFaceAbsentLoggedRef (fst (tick s t0))" by simp
  have nd: "\<not> faceAbsentDue (tickNow (ts ! 0)) (lastFaceAbsentTimeRef s) t0"
    by (simp add: ts faceAbsentDue_def FACE_ABSENCE_SUSTAIN_MS_def)
  show ?thesis
  proof (cases i)
    case 0
    with first(4) nd show ?thesis by (simp add: ts)
  next
    case (Suc k)
    with assms(4) ts have k: "k < length rest" by simp
    from absence_run_nth [OF first(1) nz nl sr k] first(3) nd Suc
    show ?thesis by (simp add: ts)
  qed
qed

lemma absence_episode_summary:
  assumes "absenceStartRef s = None" "\<not> isFaceAbsentLoggedRef s"
    "\<forall>t\<in>set ts. absentTick t" "ts \<noteq> []" "tickNow (ts ! 0) \<noteq> 0"
  shows "concat (ticksEvents s ts) =
          (case find (faceAbsentDue (tickNow (ts ! 0)) (lastFaceAbsentTimeRef s)) ts of
             None \<Rightarrow> []
           | Some t \<Rightarrow> [FACE_ABSENT_event (tickNow t) (tickNow t - tickNow (ts ! 0))])"
    and "lastFaceAbsentTimeRef (ticksRefs s ts) =
          (case find (faceAbsentDue (tickNow (ts ! 0)) (lastFaceAbsentTimeRef s)) ts of
             None \<Rightarrow> lastFaceAbsentTimeRef s
           | Some t \<Rightarrow> tickNow t)"
    and "isFaceAbsentLoggedRef (ticksRefs s ts) =
          (case find (faceAbsentDue (tickNow (ts ! 0)) (lastFaceAbsentTimeRef s)) ts of
             None \<Rightarrow> False
           | Some t \<Rightarrow> True)"
proof -
  from assms(4) obtain t0 rest where ts: "ts = t0 # rest" by (cases ts) auto
  with assms(3) have st: "absentTick t0" and sr: "\<forall>t\<in>set rest. absentTick t"
    by simp_all
  from assms(5) ts have nz: "tickNow t0 \<noteq> 0" by simp
  note first = tick_absent_start [OF st assms(1)]
  from first(2) assms(2) have nl: "\<not> isFaceAbsentLoggedRef (fst (tick s t0))" by simp
  have nd: "\<not> faceAbsentDue (tickNow t0) (lastFaceAbsentTimeRef s) t0"
    by (simp add: faceAbsentDue_def FACE_ABSENCE_SUSTAIN_MS_def)
  note sm = absence_run_summary [OF first(1) nz nl sr, unfolded first(3)]
  have z: "ts ! 0 = t0" by (simp add: ts)
  from sm first(4) nd
  show "concat (ticksEvents s ts) =
          (case find (faceAbsentDue (tickNow (ts ! 0)) (lastFaceAbsentTimeRef s)) ts of
             None \<Rightarrow> []
           | Some t \<Rightarrow> [FACE_ABSENT_event (tickNow t) (tickNow t - tickNow (ts ! 0))])"
    unfolding z by (simp add: ts)
  from sm nd
  show "lastFaceAbsentTimeRef (ticksRefs s ts) =
          (case find (faceAbsentDue (tickNow (ts ! 0)) (lastFaceAbsentTimeRef s)) ts of
             None \<Rightarrow> lastFaceAbsentTimeRef s
           | Some t \<Rightarrow> tickNow t)"
    unfolding z by (simp add: ts)
  from sm nd
  show "isFaceAbsentLoggedRef (ticksRefs s ts) =
          (case find (faceAbsentDue (tickNow (ts ! 0)) (lastFaceAbsentTimeRef s)) ts of
             None \<Rightarrow> False
           | Some t \<Rightarrow> True)"
    unfolding z by (simp add: ts)
qed

lemma FACE_ABSENT_event_fields:
  "etype (FACE_ABSENT_event n dur) = ''FACE_ABSENT''"
  "SessionEvent.timestamp (FACE_ABSENT_event n dur) = n"
  "severity (FACE_ABSENT_event n dur) = suspicious"
  "metadata_get (FACE_ABSENT_event n dur) ''durationMs'' = JNumber (Num (real_of_int dur))"
  by (simp_all add: FACE_ABSENT_event_def metadata_get_def)

lemma tick_present_rearms:
  "\<not> absentTick p \<Longrightarrow>
   absenceStartRef (fst (tick s p)) = None \<and> \<not> isFaceAbsentLoggedRef (fst (tick s p)) \<and>
   lastFaceAbsentTimeRef (fst (tick s p)) = lastFaceAbsentTimeRef s \<and>
   countEventsByType (snd (tick s p)) ''FACE_ABSENT'' = 0"
  unfolding absentTick_def tick_def by (rule gazeTick_present_rearms)

lemma absent_lockout_run:
  "gazeStateRef s = ABSENT \<Longrightarrow> \<forall>t\<in>set ts. absentTick t \<or> strongDeviationTick t \<Longrightarrow>
   gazeStateRef (ticksRefs s ts) = ABSENT \<and>
   countEventsByType (concat (ticksEvents s ts)) ''GAZE_AWAY'' = 0"
proof (induction ts arbitrary: s)
  case Nil
  then show ?case by (simp add: countEventsByType_def)
next
  case (Cons t ts)
  from Cons.prems have st: "absentTick t \<or> strongDeviationTick t"
    and rest: "\<forall>t\<in>set ts. absentTick t \<or> strongDeviationTick t"
    by simp_all
  have a: "gazeStateRef (fst (tick s t)) = ABSENT"
    and e: "countEventsByType (snd (tick s t)) ''GAZE_AWAY'' = 0"
    using st tick_absent_gaze [of t s] tick_strong_other [of t s] Cons.prems(1)
    by (auto simp add: countEventsByType_def)
  from Cons.IH [OF a rest] e show ?case by (simp add: countEventsByType_def)
qed

subsection \<open>The example episodes\<close>

lemma tick_example:
  "tickNow (exampleTick now best) = now"
  "tickResult (exampleTick now best) = runGazeInference best now"
  by (simp_all add: exampleTick_def)


lemma lookingAtScreen_reset: "resetTick (exampleTick now lookingAtScreen)"
  by (simp add: resetTick_def exampleTick_def lookingAtScreen_def exampleFace_def
      runGazeInference_def faceAbsent_def MIN_FACE_CONFIDENCE_def isInSafeZone_def
      MAX_YAW_NORMAL_def MAX_PITCH_NORMAL_def)


lemma faceLost_absent: "absentTick (exampleTick now faceLost)"
  by (simp add: absentTick_def exampleTick_def faceLost_def runGazeInference_def
      NO_FACE_RESULT_def faceAbsent_def)


lemma faceLost_due:
  "faceAbsentDue start lastEmitted (exampleTick now faceLost) \<longleftrightarrow>
     2500 \<le> now - start \<and> 5000 \<le> now - lastEmitted"
  by (simp add: faceAbsentDue_def tick_example FACE_ABSENCE_SUSTAIN_MS_def
      FACE_ABSENCE_COOLDOWN_MS_def)

lemma lookingAtScreen_present: "\<not> absentTick (exampleTick now lookingAtScreen)"
  using lookingAtScreen_reset [of now] by (simp add: resetTick_def absentTick_def)

subsection \<open>The emission discipline\<close>




text \<open>
  Claim C2. Take any episode of consecutive face-absent measurements that begins with no
  absence start recorded and the logged flag clear (as at session start and after every
  face-present measurement), at a clock other than 0. The measurement number \<open>i\<close>
  emits exactly one FACE_ABSENT event (of type FACE_ABSENT and severity suspicious,
  stamped with the clock of the measurement and carrying the duration of the absence)
  when it is the first of the episode at which the absence has lasted at least 2500 ms
  and at least 5000 ms have passed since the last FACE_ABSENT emission; otherwise it
  emits nothing. The episode emits one event if an emission falls due in it and none
  otherwise, and an absence episode emits at most one event from whatever cells it
  starts. The emission records its clock as the time of the last emission and sets the
  logged flag. A face-present measurement clears the absence start and the logged flag,
  keeps the time of the last emission and emits no FACE_ABSENT event; the absence that
  follows it obeys the same rule against that time, so it emits nothing within 5000 ms
  of the emission before. Measurement by measurement: with an absence start recorded, a
  face-absent measurement emits the event exactly when the absence has lasted 2500 ms,
  the logged flag is clear and 5000 ms have passed since the last emission; it then sets
  the flag and records its clock.
\<close>

theorem face_absence_emission_discipline:
  assumes "absenceStartRef s = None" and "\<not> isFaceAbsentLoggedRef s"
    and "\<forall>t\<in>set ts. absentTick t"
    and "i < length ts"
    and "tickNow (ts ! 0) \<noteq> 0"
  shows
   "ticksEvents s ts ! i =
      (if faceAbsentDue (tickNow (ts ! 0)) (lastFaceAbsentTimeRef s) (ts ! i) \<and>
          (\<forall>u\<in>set (take i ts). \<not> faceAbsentDue (tickNow (ts ! 0)) (lastFaceAbsentTimeRef s) u)
       then [FACE_ABSENT_event (tickNow (ts ! i)) (tickNow (ts ! i) - tickNow (ts ! 0))]
       else []) \<and>
    (faceAbsentDue (tickNow (ts ! 0)) (lastFaceAbsentTimeRef s) (ts ! i) \<longleftrightarrow>
       tickNow (ts ! i) - tickNow (ts ! 0) \<ge> 2500 \<and>
       tickNow (ts ! i) - lastFaceAbsentTimeRef s \<ge> 5000) \<and>
    concat (ticksEvents s ts) =
      (case find (faceAbsentDue (tickNow (ts ! 0)) (lastFaceAbsentTimeRef s)) ts of
         None \<Rightarrow> []
       | Some t \<Rightarrow> [FACE_ABSENT_event (tickNow t) (tickNow t - tickNow (ts ! 0))]) \<and>
    countEventsByType (concat (ticksEvents s ts)) ''FACE_ABSENT'' =
      (if \<exists>t\<in>set ts. faceAbsentDue (tickNow (ts ! 0)) (lastFaceAbsentTimeRef s) t
       then 1 else 0) \<and>
    etype (FACE_ABSENT_event n dur) = ''FACE_ABSENT'' \<and>
    SessionEvent.timestamp (FACE_ABSENT_event n dur) = n \<and>
    severity (FACE_ABSENT_event n dur) = suspicious \<and>
    metadata_get (FACE_ABSENT_event n dur) ''durationMs'' = JNumber (Num (real_of_int dur)) \<and>
    lastFaceAbsentTimeRef (ticksRefs s ts) =
      (case find (faceAbsentDue (tickNow (ts ! 0)) (lastFaceAbsentTimeRef s)) ts of
         None \<Rightarrow> lastFaceAbsentTimeRef s
       | Some t \<Rightarrow> tickNow t) \<and>
    isFaceAbsentLoggedRef (ticksRefs s ts) =
      (case find (faceAbsentDue (tickNow (ts ! 0)) (lastFaceAbsentTimeRef s)) ts of
         None \<Rightarrow> False
       | Some t \<Rightarrow> True) \<and>
    (\<not> absentTick p \<and> (\<forall>u\<in>set us. absentTick u) \<and> j < length us \<and> tickNow (us ! 0) \<noteq> 0 \<longrightarrow>
       ticksEvents (fst (tick (ticksRefs s ts) p)) us ! j =
         (if faceAbsentDue (tickNow (us ! 0)) (lastFaceAbsentTimeRef (ticksRefs s ts)) (us ! j) \<and>
             (\<forall>u\<in>set (take j us).
                \<not> faceAbsentDue (tickNow (us ! 0)) (lastFaceAbsentTimeRef (ticksRefs s ts)) u)
          then [FACE_ABSENT_event (tickNow (us ! j)) (tickNow (us ! j) - tickNow (us ! 0))]
          else [])) \<and>
    (\<not> absentTick p \<and> (\<forall>u\<in>set us. absentTick u) \<and> j < length us \<and> tickNow (us ! 0) \<noteq> 0 \<and>
     find (faceAbsentDue (tickNow (ts ! 0)) (lastFaceAbsentTimeRef s)) ts = Some t \<and>
     tickNow (us ! j) - tickNow t < FACE_ABSENCE_COOLDOWN_MS \<longrightarrow>
       ticksEvents (fst (tick (ticksRefs s ts) p)) us ! j = []) \<and>
    FACE_ABSENCE_SUSTAIN_MS = 2500 \<and> FACE_ABSENCE_COOLDOWN_MS = 5000 \<and>
    ((\<forall>u\<in>set vs. absentTick u)
       \<longrightarrow> countEventsByType (concat (ticksEvents a vs)) ''FACE_ABSENT'' \<le> 1) \<and>
    (absentTick t \<and> absenceStartRef a = Some b \<and> b \<noteq> 0 \<longrightarrow>
       snd (tick a t) =
         (if tickNow t - b \<ge> 2500 \<and> \<not> isFaceAbsentLoggedRef a \<and>
             tickNow t - lastFaceAbsentTimeRef a \<ge> 5000
          then [FACE_ABSENT_event (tickNow t) (tickNow t - b)] else []) \<and>
       isFaceAbsentLoggedRef (fst (tick a t)) =
         (isFaceAbsentLoggedRef a \<or>
          tickNow t - b \<ge> 2500 \<and> tickNow t - lastFaceAbsentTimeRef a \<ge> 5000) \<and>
       lastFaceAbsentTimeRef (fst (tick a t)) =
         (if tickNow t - b \<ge> 2500 \<and> \<not> isFaceAbsentLoggedRef a \<and>
             tickNow t - lastFaceAbsentTimeRef a \<ge> 5000
          then tickNow t else lastFaceAbsentTimeRef a)) \<and>
    (\<not> faceAbsent r \<longrightarrow>
       absenceStartRef (fst (gazeTick a now d r)) = None \<and>
       \<not> isFaceAbsentLoggedRef (fst (gazeTick a now d r)) \<and>
       lastFaceAbsentTimeRef (fst (gazeTick a now d r)) = lastFaceAbsentTimeRef a \<and>
       countEventsByType (snd (gazeTick a now d r)) ''FACE_ABSENT'' = 0)"
proof -
  let ?due = "faceAbsentDue (tickNow (ts ! 0)) (lastFaceAbsentTimeRef s)"
  let ?L = "lastFaceAbsentTimeRef (ticksRefs s ts)"
  from assms(4) have ne: "ts \<noteq> []" by auto
  note main = absence_episode_nth [OF assms]
  note sm = absence_episode_summary [OF assms(1,2,3) ne assms(5)]
  have count: "countEventsByType (concat (ticksEvents s ts)) ''FACE_ABSENT'' =
      (if \<exists>t\<in>set ts. ?due t then 1 else 0)"
  proof (cases "find ?due ts")
    case None
    with find_None_Bex [of ?due ts] have nex: "\<not> (\<exists>t\<in>set ts. ?due t)" by blast
    have c: "concat (ticksEvents s ts) = []"
      unfolding sm(1) None by (simp only: option.case)
    show ?thesis
      unfolding c using nex by (simp add: countEventsByType_def)
  next
    case (Some t)
    then have "find ?due ts \<noteq> None" by simp
    with find_None_Bex [of ?due ts] have ex: "\<exists>t\<in>set ts. ?due t" by blast
    have c: "concat (ticksEvents s ts) =
        [FACE_ABSENT_event (tickNow t) (tickNow t - tickNow (ts ! 0))]"
      unfolding sm(1) Some by (simp only: option.case)
    show ?thesis
      unfolding c using ex by (simp add: countEventsByType_def FACE_ABSENT_event_fields)
  qed
  have second: "ticksEvents (fst (tick (ticksRefs s ts) p)) us ! j =
         (if faceAbsentDue (tickNow (us ! 0)) ?L (us ! j) \<and>
             (\<forall>u\<in>set (take j us). \<not> faceAbsentDue (tickNow (us ! 0)) ?L u)
          then [FACE_ABSENT_event (tickNow (us ! j)) (tickNow (us ! j) - tickNow (us ! 0))]
          else [])"
    if h: "\<not> absentTick p \<and> (\<forall>u\<in>set us. absentTick u) \<and> j < length us \<and>
      tickNow (us ! 0) \<noteq> 0"
  proof -
    from h have p: "\<not> absentTick p" and u: "\<forall>u\<in>set us. absentTick u"
      and j: "j < length us" and z: "tickNow (us ! 0) \<noteq> 0" by blast+
    note t = tick_present_rearms [OF p, of "ticksRefs s ts"]
    from t have n: "absenceStartRef (fst (tick (ticksRefs s ts) p)) = None"
      and f: "\<not> isFaceAbsentLoggedRef (fst (tick (ticksRefs s ts) p))"
      and l: "lastFaceAbsentTimeRef (fst (tick (ticksRefs s ts) p)) = ?L" by blast+
    from absence_episode_nth [OF n f u j z] show ?thesis by (simp only: l)
  qed
  have within: "ticksEvents (fst (tick (ticksRefs s ts) p)) us ! j = []"
    if h: "\<not> absentTick p \<and> (\<forall>u\<in>set us. absentTick u) \<and> j < length us \<and>
      tickNow (us ! 0) \<noteq> 0 \<and> find ?due ts = Some t \<and>
      tickNow (us ! j) - tickNow t < FACE_ABSENCE_COOLDOWN_MS"
  proof -
    from h have f: "find ?due ts = Some t"
      and c: "tickNow (us ! j) - tickNow t < FACE_ABSENCE_COOLDOWN_MS" by blast+
    from sm(2) f have "?L = tickNow t" by simp
    with c have "\<not> faceAbsentDue (tickNow (us ! 0)) ?L (us ! j)"
      by (simp add: faceAbsentDue_def)
    with second h show ?thesis by simp
  qed
  have bound: "countEventsByType (concat (ticksEvents a vs)) ''FACE_ABSENT'' \<le> 1"
    if "\<forall>u\<in>set vs. absentTick u"
  proof -
    have "countEventsByType (concat (ticksEvents a vs)) ''FACE_ABSENT''
        \<le> length (concat (ticksEvents a vs))"
      unfolding countEventsByType_def by (rule length_filter_le)
    with absence_run_total [OF that, of a] show ?thesis by linarith
  qed
  have due: "?due (ts ! i) \<longleftrightarrow>
       tickNow (ts ! i) - tickNow (ts ! 0) \<ge> 2500 \<and>
       tickNow (ts ! i) - lastFaceAbsentTimeRef s \<ge> 5000"
    by (simp add: faceAbsentDue_def FACE_ABSENCE_SUSTAIN_MS_def FACE_ABSENCE_COOLDOWN_MS_def)
  have cs: "FACE_ABSENCE_SUSTAIN_MS = 2500" "FACE_ABSENCE_COOLDOWN_MS = 5000"
    by (simp_all add: FACE_ABSENCE_SUSTAIN_MS_def FACE_ABSENCE_COOLDOWN_MS_def)
  have rearm: "absenceStartRef (fst (gazeTick a now d r)) = None \<and>
       \<not> isFaceAbsentLoggedRef (fst (gazeTick a now d r)) \<and>
       lastFaceAbsentTimeRef (fst (gazeTick a now d r)) = lastFaceAbsentTimeRef a \<and>
       countEventsByType (snd (gazeTick a now d r)) ''FACE_ABSENT'' = 0" if "\<not> faceAbsent r"
    using gazeTick_present_rearms [OF that, of a now d] by blast
  have one: "snd (tick a t) =
         (if tickNow t - b \<ge> 2500 \<and> \<not> isFaceAbsentLoggedRef a \<and>
             tickNow t - lastFaceAbsentTimeRef a \<ge> 5000
          then [FACE_ABSENT_event (tickNow t) (tickNow t - b)] else []) \<and>
       isFaceAbsentLoggedRef (fst (tick a t)) =
         (isFaceAbsentLoggedRef a \<or>
          tickNow t - b \<ge> 2500 \<and> tickNow t - lastFaceAbsentTimeRef a \<ge> 5000) \<and>
       lastFaceAbsentTimeRef (fst (tick a t)) =
         (if tickNow t - b \<ge> 2500 \<and> \<not> isFaceAbsentLoggedRef a \<and>
             tickNow t - lastFaceAbsentTimeRef a \<ge> 5000
          then tickNow t else lastFaceAbsentTimeRef a)"
    if "absentTick t \<and> absenceStartRef a = Some b \<and> b \<noteq> 0"
    using that
    by (auto simp add: tick_absent absenceBranch_continue FACE_ABSENCE_SUSTAIN_MS_def
        FACE_ABSENCE_COOLDOWN_MS_def)
  show ?thesis
    using main due sm(1) count FACE_ABSENT_event_fields [of n dur] sm(2) sm(3) second within
      cs bound one rearm
    by blast
qed

theorem face_absence_emission_discipline_witness:
  "ticksEvents (initialRefs 90000) firstAbsence ! 1 = [] \<and>
   ticksEvents (initialRefs 90000) firstAbsence ! 2 = [FACE_ABSENT_event 102500 2500] \<and>
   ticksEvents (initialRefs 90000) firstAbsence ! 3 = [] \<and>
   countEventsByType (concat (ticksEvents (initialRefs 90000) firstAbsence)) ''FACE_ABSENT'' = 1 \<and>
   lastFaceAbsentTimeRef (ticksRefs (initialRefs 90000) firstAbsence) = 102500 \<and>
   ticksEvents (fst (tick (ticksRefs (initialRefs 90000) firstAbsence)
       (exampleTick 102700 lookingAtScreen))) secondAbsence ! 1 = [] \<and>
   ticksEvents (fst (tick (ticksRefs (initialRefs 90000) firstAbsence)
       (exampleTick 102700 lookingAtScreen))) secondAbsence ! 2 = [] \<and>
   ticksEvents (fst (tick (ticksRefs (initialRefs 90000) firstAbsence)
       (exampleTick 102700 lookingAtScreen))) secondAbsence ! 3
     = [FACE_ABSENT_event 107500 4500]"
proof -
  let ?s = "initialRefs 90000"
  let ?p = "exampleTick 102700 lookingAtScreen"
  have n: "absenceStartRef ?s = None" "\<not> isFaceAbsentLoggedRef ?s"
    by (simp_all add: initialRefs_def)
  have l: "lastFaceAbsentTimeRef ?s = 0"
    by (simp add: initialRefs_def)
  have a: "\<forall>t\<in>set firstAbsence. absentTick t" "\<forall>t\<in>set secondAbsence. absentTick t"
    by (simp_all add: firstAbsence_def secondAbsence_def faceLost_absent)
  have z: "tickNow (firstAbsence ! 0) \<noteq> 0" "tickNow (secondAbsence ! 0) \<noteq> 0"
    by (simp_all add: firstAbsence_def secondAbsence_def tick_example)
  have f: "find (faceAbsentDue (tickNow (firstAbsence ! 0)) 0) firstAbsence
      = Some (exampleTick 102500 faceLost)"
    by (simp add: firstAbsence_def faceLost_due tick_example)
  have ex: "\<exists>t\<in>set firstAbsence. faceAbsentDue (tickNow (firstAbsence ! 0)) 0 t"
    by (simp add: firstAbsence_def faceLost_due tick_example)
  note th = face_absence_emission_discipline
    [OF n a(1) _ z(1), where p = ?p and us = secondAbsence and n = 102500 and dur = 2500
      and t = "exampleTick 102500 faceLost" and a = ?s and vs = "[]" and b = 1
      and r = "runGazeInference lookingAtScreen 102700" and now = 102700 and d = 100]
  let ?due = "faceAbsentDue (tickNow (firstAbsence ! 0)) (lastFaceAbsentTimeRef ?s)"
  have nth: "ticksEvents ?s firstAbsence ! i =
      (if ?due (firstAbsence ! i) \<and> (\<forall>u\<in>set (take i firstAbsence). \<not> ?due u)
       then [FACE_ABSENT_event (tickNow (firstAbsence ! i))
               (tickNow (firstAbsence ! i) - tickNow (firstAbsence ! 0))]
       else [])" if "i < length firstAbsence" for i
    using th [where i = i and j = 0, OF that] by blast
  have 1: "ticksEvents ?s firstAbsence ! 1 = []"
    using nth [of 1] by (simp add: l firstAbsence_def faceLost_due tick_example)
  have 2: "ticksEvents ?s firstAbsence ! 2 = [FACE_ABSENT_event 102500 2500]"
    using nth [of 2] by (simp add: l firstAbsence_def faceLost_due tick_example)
  have 3: "ticksEvents ?s firstAbsence ! 3 = []"
    using nth [of 3] by (simp add: l firstAbsence_def faceLost_due tick_example)
  have len: "0 < length firstAbsence" by (simp add: firstAbsence_def)
  have "countEventsByType (concat (ticksEvents ?s firstAbsence)) ''FACE_ABSENT'' =
      (if \<exists>t\<in>set firstAbsence. ?due t then 1 else 0)"
    using th [where i = 0 and j = 0, OF len] by blast
  with ex have 4: "countEventsByType (concat (ticksEvents ?s firstAbsence)) ''FACE_ABSENT'' = 1"
    by (simp only: l if_True)
  have "lastFaceAbsentTimeRef (ticksRefs ?s firstAbsence) =
      (case find ?due firstAbsence of None \<Rightarrow> lastFaceAbsentTimeRef ?s | Some t \<Rightarrow> tickNow t)"
    using th [where i = 0 and j = 0, OF len] by blast
  then have 5: "lastFaceAbsentTimeRef (ticksRefs ?s firstAbsence) = 102500"
    unfolding l f by (simp add: tick_example)
  have sec: "ticksEvents (fst (tick (ticksRefs ?s firstAbsence) ?p)) secondAbsence ! j =
         (if faceAbsentDue (tickNow (secondAbsence ! 0)) 102500 (secondAbsence ! j) \<and>
             (\<forall>u\<in>set (take j secondAbsence).
                \<not> faceAbsentDue (tickNow (secondAbsence ! 0)) 102500 u)
          then [FACE_ABSENT_event (tickNow (secondAbsence ! j))
                  (tickNow (secondAbsence ! j) - tickNow (secondAbsence ! 0))]
          else [])" if "j < length secondAbsence" for j
    using th [where i = 0 and j = j, OF len] lookingAtScreen_present [of 102700] a(2) z(2) that
    unfolding 5 by blast
  have 6: "ticksEvents (fst (tick (ticksRefs ?s firstAbsence) ?p)) secondAbsence ! 1 = []"
    using sec [of 1] by (simp add: secondAbsence_def faceLost_due tick_example)
  have 7: "ticksEvents (fst (tick (ticksRefs ?s firstAbsence) ?p)) secondAbsence ! 2 = []"
    using sec [of 2] by (simp add: secondAbsence_def faceLost_due tick_example)
  have 8: "ticksEvents (fst (tick (ticksRefs ?s firstAbsence) ?p)) secondAbsence ! 3
      = [FACE_ABSENT_event 107500 4500]"
    using sec [of 3] by (simp add: secondAbsence_def faceLost_due tick_example)
  show ?thesis
    by (intro conjI) (rule 1 2 3 4 5 6 7 8)+
qed

text \<open>
  Claim C10. A face-present strong-deviation measurement that finds the state ABSENT
  leaves it ABSENT, records no deviation start and emits nothing. Hence from the state
  ABSENT no sequence of face-absent and strong-deviation measurements emits a GAZE_AWAY
  event or leaves the state ABSENT: only a safe-zone or minor-movement measurement, which
  sets the state to NORMAL, re-arms the gaze alert. A face-absent measurement sets the
  state to ABSENT.
\<close>

theorem absent_lockout:
  "(gazeStateRef s = ABSENT \<and> strongDeviationTick t \<longrightarrow>
      gazeStateRef (fst (tick s t)) = ABSENT \<and>
      deviationStartRef (fst (tick s t)) = deviationStartRef s \<and>
      snd (tick s t) = []) \<and>
   (gazeStateRef s = ABSENT \<and> (\<forall>u\<in>set ts. absentTick u \<or> strongDeviationTick u) \<longrightarrow>
      gazeStateRef (ticksRefs s ts) = ABSENT \<and>
      countEventsByType (concat (ticksEvents s ts)) ''GAZE_AWAY'' = 0) \<and>
   (absentTick t \<longrightarrow> gazeStateRef (fst (tick a t)) = ABSENT) \<and>
   (resetTick t \<longrightarrow> gazeStateRef (fst (tick a t)) = NORMAL)"
proof -
  have 1: "gazeStateRef (fst (tick s t)) = ABSENT \<and>
      deviationStartRef (fst (tick s t)) = deviationStartRef s \<and>
      snd (tick s t) = []" if "gazeStateRef s = ABSENT \<and> strongDeviationTick t"
    using that tick_strong_other [of t s] by simp
  have 2: "gazeStateRef (ticksRefs s ts) = ABSENT \<and>
      countEventsByType (concat (ticksEvents s ts)) ''GAZE_AWAY'' = 0"
    if "gazeStateRef s = ABSENT \<and> (\<forall>u\<in>set ts. absentTick u \<or> strongDeviationTick u)"
    using that absent_lockout_run [of s ts] by blast
  have 3: "gazeStateRef (fst (tick a t)) = ABSENT" if "absentTick t"
    using that by (rule tick_absent_gaze(1))
  have 4: "gazeStateRef (fst (tick a t)) = NORMAL" if "resetTick t"
    using tick_reset [OF that, of a] by blast
  show ?thesis
    using 1 2 3 4 by blast
qed

theorem absent_lockout_witness:
  "gazeStateRef (ticksRefs (initialRefs 90000)
     [exampleTick 100000 faceLost, exampleTick 100100 lookingAway,
      exampleTick 103000 lookingAway, exampleTick 110000 lookingAway]) = ABSENT \<and>
   countEventsByType (concat (ticksEvents (initialRefs 90000)
     [exampleTick 100000 faceLost, exampleTick 100100 lookingAway,
      exampleTick 103000 lookingAway, exampleTick 110000 lookingAway])) ''GAZE_AWAY'' = 0"
proof -
  let ?s = "fst (tick (initialRefs 90000) (exampleTick 100000 faceLost))"
  let ?ts = "[exampleTick 100100 lookingAway, exampleTick 103000 lookingAway,
      exampleTick 110000 lookingAway]"
  have f: "absentTick (exampleTick now faceLost)" for now
    by (simp add: absentTick_def exampleTick_def faceLost_def runGazeInference_def
        NO_FACE_RESULT_def faceAbsent_def)
  have s: "strongDeviationTick (exampleTick now lookingAway)" for now
    by (simp add: strongDeviationTick_def exampleTick_def lookingAway_def exampleFace_def
        runGazeInference_def faceAbsent_def MIN_FACE_CONFIDENCE_def isInSafeZone_def
        isStrongDeviationCheck_def MAX_YAW_NORMAL_def STRONG_YAW_DEG_def)
  have e: "snd (tick (initialRefs 90000) (exampleTick 100000 faceLost)) = []"
    using tick_absent_start(4) [OF f, of "initialRefs 90000" 100000]
    by (simp add: initialRefs_def)
  have a: "gazeStateRef ?s = ABSENT"
    using absent_lockout [of _ "exampleTick 100000 faceLost" _ "initialRefs 90000"] f by blast
  have u: "\<forall>u\<in>set ?ts. absentTick u \<or> strongDeviationTick u"
    using s by simp
  show ?thesis
    using absent_lockout [of ?s _ ?ts] a u e by (simp add: countEventsByType_def)
qed

section \<open>The gaze classifier and the face-presence test\<close>

lemma isInSafeZone_iff:
  "isInSafeZone yaw pitch \<longleftrightarrow>
     (\<exists>y p. yaw = Num y \<and> pitch = Num p \<and> \<bar>y\<bar> \<le> 18 \<and> \<bar>p\<bar> \<le> 22)"
  by (cases yaw; cases pitch) (simp_all add: isInSafeZone_def MAX_YAW_NORMAL_def MAX_PITCH_NORMAL_def)

lemma isStrongDeviationCheck_iff:
  "isStrongDeviationCheck yaw pitch \<longleftrightarrow>
     (\<exists>y. yaw = Num y \<and> \<bar>y\<bar> > 25) \<or> (\<exists>p. pitch = Num p \<and> (p < - 30 \<or> p > 35))"
  by (cases yaw; cases pitch)
    (auto simp add: isStrongDeviationCheck_def STRONG_YAW_DEG_def STRONG_PITCH_UP_DEG_def
      STRONG_PITCH_DOWN_DEG_def)

lemma runGazeInference_confident:
  "\<not> js_lt (confidence m) (Num MIN_FACE_CONFIDENCE) \<Longrightarrow>
   faceDetected (runGazeInference (Some m) now) \<and>
   faceDetectionConfidence (runGazeInference (Some m) now) = confidence m \<and>
   inSafeZone (runGazeInference (Some m) now) = isInSafeZone (measuredYaw m) (measuredPitch m) \<and>
   isStrongDeviation (runGazeInference (Some m) now)
     = isStrongDeviationCheck (measuredYaw m) (measuredPitch m) \<and>
   isCentered (runGazeInference (Some m) now) = centered m"
  by (simp add: runGazeInference_def)

lemma gazeTick_minor:
  "\<not> faceAbsent r \<Longrightarrow> \<not> inSafeZone r \<Longrightarrow> \<not> isStrongDeviation r \<Longrightarrow>
   gazeTick s now d r =
     (s\<lparr>absenceStartRef := None, isFaceAbsentLoggedRef := False, gazeStateRef := NORMAL,
        deviationStartRef := None, tqMinorRef := tqMinorRef s + d\<rparr>, [])"
  by (simp add: gazeTick_def presentBranch_def Let_def)

text \<open>
  Claim C6. The classifier reports the safe zone exactly when yaw and pitch are numbers
  with \<open>|yaw| \<le> 18\<close> and \<open>|pitch| \<le> 22\<close>, and a strong deviation exactly when
  \<open>|yaw| > 25\<close> or \<open>pitch < -30\<close> or \<open>pitch > 35\<close> (a \<open>NaN\<close> angle satisfies no
  comparison). These are the flags of the result of \<open>runGazeInference\<close> for a confident
  face. A measurement with neither flag is a minor movement: the loop sets the state to
  NORMAL, clears the deviation start, emits nothing and charges the minor-movement
  bucket, whatever the state was.
\<close>

theorem gaze_classifier_thresholds:
  "(isInSafeZone yaw pitch \<longleftrightarrow>
      (\<exists>y p. yaw = Num y \<and> pitch = Num p \<and> \<bar>y\<bar> \<le> 18 \<and> \<bar>p\<bar> \<le> 22)) \<and>
   (isStrongDeviationCheck yaw pitch \<longleftrightarrow>
      (\<exists>y. yaw = Num y \<and> \<bar>y\<bar> > 25) \<or> (\<exists>p. pitch = Num p \<and> (p < - 30 \<or> p > 35))) \<and>
   (isInSafeZone (Num y) (Num p) \<longleftrightarrow> \<bar>y\<bar> \<le> 18 \<and> \<bar>p\<bar> \<le> 22) \<and>
   (isStrongDeviationCheck (Num y) (Num p) \<longleftrightarrow> \<bar>y\<bar> > 25 \<or> p < - 30 \<or> p > 35) \<and>
   (\<not> js_lt (confidence m) (Num MIN_FACE_CONFIDENCE) \<longrightarrow>
      inSafeZone (runGazeInference (Some m) now)
        = isInSafeZone (measuredYaw m) (measuredPitch m) \<and>
      isStrongDeviation (runGazeInference (Some m) now)
        = isStrongDeviationCheck (measuredYaw m) (measuredPitch m)) \<and>
   (\<not> js_lt (confidence m) (Num MIN_FACE_CONFIDENCE) \<and>
    \<not> isInSafeZone (measuredYaw m) (measuredPitch m) \<and>
    \<not> isStrongDeviationCheck (measuredYaw m) (measuredPitch m) \<longrightarrow>
      gazeTick s now d (runGazeInference (Some m) now) =
        (s\<lparr>absenceStartRef := None, isFaceAbsentLoggedRef := False, gazeStateRef := NORMAL,
           deviationStartRef := None, tqMinorRef := tqMinorRef s + d\<rparr>, []))"
proof -
  have 1: "isInSafeZone (Num y) (Num p) \<longleftrightarrow> \<bar>y\<bar> \<le> 18 \<and> \<bar>p\<bar> \<le> 22"
    by (simp add: isInSafeZone_iff)
  have 2: "isStrongDeviationCheck (Num y) (Num p) \<longleftrightarrow> \<bar>y\<bar> > 25 \<or> p < - 30 \<or> p > 35"
    by (simp add: isStrongDeviationCheck_iff)
  have 3: "inSafeZone (runGazeInference (Some m) now)
        = isInSafeZone (measuredYaw m) (measuredPitch m) \<and>
      isStrongDeviation (runGazeInference (Some m) now)
        = isStrongDeviationCheck (measuredYaw m) (measuredPitch m)"
    if "\<not> js_lt (confidence m) (Num MIN_FACE_CONFIDENCE)"
    using runGazeInference_confident [OF that, of now] by blast
  have 4: "gazeTick s now d (runGazeInference (Some m) now) =
        (s\<lparr>absenceStartRef := None, isFaceAbsentLoggedRef := False, gazeStateRef := NORMAL,
           deviationStartRef := None, tqMinorRef := tqMinorRef s + d\<rparr>, [])"
    if h: "\<not> js_lt (confidence m) (Num MIN_FACE_CONFIDENCE) \<and>
      \<not> isInSafeZone (measuredYaw m) (measuredPitch m) \<and>
      \<not> isStrongDeviationCheck (measuredYaw m) (measuredPitch m)"
  proof (rule gazeTick_minor)
    from h have c: "\<not> js_lt (confidence m) (Num MIN_FACE_CONFIDENCE)" by blast
    note r = runGazeInference_confident [OF c, of now]
    from r c show "\<not> faceAbsent (runGazeInference (Some m) now)"
      by (simp add: faceAbsent_def)
    from r h show "\<not> inSafeZone (runGazeInference (Some m) now)" by simp
    from r h show "\<not> isStrongDeviation (runGazeInference (Some m) now)" by simp
  qed
  show ?thesis
    using isInSafeZone_iff [of yaw pitch] isStrongDeviationCheck_iff [of yaw pitch] 1 2 3 4
    by blast
qed

theorem gaze_classifier_thresholds_witness:
  "gazeTick (initialRefs 90000) 100000 100
     (runGazeInference (Some (exampleFace (Num 0.9) 20 (- 25) False)) 100000) =
     ((initialRefs 90000)\<lparr>absenceStartRef := None, isFaceAbsentLoggedRef := False,
        gazeStateRef := NORMAL, deviationStartRef := None,
        tqMinorRef := tqMinorRef (initialRefs 90000) + 100\<rparr>, []) \<and>
   \<not> isInSafeZone (Num 20) (Num (- 25)) \<and> \<not> isStrongDeviationCheck (Num 20) (Num (- 25)) \<and>
   isInSafeZone (Num (- 18)) (Num 22) \<and> isStrongDeviationCheck (Num 0) (Num (- 31)) \<and>
   \<not> isStrongDeviationCheck (Num 0) (Num 31) \<and> isStrongDeviationCheck (Num 0) (Num 36)"
  using gaze_classifier_thresholds
      [of "Num 20" "Num (- 25)" 20 "- 25" "exampleFace (Num 0.9) 20 (- 25) False" 100000
          "initialRefs 90000" 100]
    gaze_classifier_thresholds [of "Num 0" "Num 0" "- 18" 22]
    gaze_classifier_thresholds [of "Num 0" "Num 0" 0 "- 31"]
    gaze_classifier_thresholds [of "Num 0" "Num 0" 0 31]
    gaze_classifier_thresholds [of "Num 0" "Num 0" 0 36]
  by (simp add: exampleFace_def MIN_FACE_CONFIDENCE_def)

lemma faceAbsent_iff:
  "faceAbsent r \<longleftrightarrow>
     \<not> faceDetected r \<or> (\<exists>c. faceDetectionConfidence r = Num c \<and> c < 0.6)"
  by (cases "faceDetectionConfidence r") (simp_all add: faceAbsent_def MIN_FACE_CONFIDENCE_def)

text \<open>
  Claim C8, as stated, fails. A detected face whose confidence is \<open>NaN\<close> passes the
  test of \<open>runGazeInference\<close> (\<open>NaN < 0.6\<close> is false), the result says
  \<open>faceDetected\<close>, and the loop's own test \<open>confidence < 0.6\<close> is false again: the
  measurement takes the face-present path. Here it is in the safe zone: the state becomes
  NORMAL, not ABSENT, no absence starts, and the focused bucket is charged instead of the
  absence bucket.
\<close>

theorem nan_confidence_counterexample:
  "faceDetected (runGazeInference (Some (exampleFace NaN 5 10 True)) 100000) \<and>
   faceDetectionConfidence (runGazeInference (Some (exampleFace NaN 5 10 True)) 100000) = NaN \<and>
   gazeTick (initialRefs 90000) 100000 100
       (runGazeInference (Some (exampleFace NaN 5 10 True)) 100000)
     \<noteq> absenceBranch (initialRefs 90000) 100000 100 \<and>
   gazeStateRef (fst (gazeTick (initialRefs 90000) 100000 100
       (runGazeInference (Some (exampleFace NaN 5 10 True)) 100000))) = NORMAL \<and>
   absenceStartRef (fst (gazeTick (initialRefs 90000) 100000 100
       (runGazeInference (Some (exampleFace NaN 5 10 True)) 100000))) = None \<and>
   tqAbsenceRef (fst (gazeTick (initialRefs 90000) 100000 100
       (runGazeInference (Some (exampleFace NaN 5 10 True)) 100000))) = 0 \<and>
   tqFocusedRef (fst (gazeTick (initialRefs 90000) 100000 100
       (runGazeInference (Some (exampleFace NaN 5 10 True)) 100000))) = 100"
proof -
  let ?r = "runGazeInference (Some (exampleFace NaN 5 10 True)) 100000"
  have r: "faceDetected ?r" "faceDetectionConfidence ?r = NaN" "inSafeZone ?r"
    by (simp_all add: runGazeInference_def exampleFace_def isInSafeZone_def
        MAX_YAW_NORMAL_def MAX_PITCH_NORMAL_def)
  then have p: "\<not> faceAbsent ?r" by (simp add: faceAbsent_def)
  have g: "gazeTick (initialRefs 90000) 100000 100 ?r =
     ((initialRefs 90000)\<lparr>absenceStartRef := None, isFaceAbsentLoggedRef := False,
        gazeStateRef := NORMAL, deviationStartRef := None,
        tqFocusedRef := tqFocusedRef (initialRefs 90000) + 100\<rparr>, [])"
    using p r(3) by (simp add: gazeTick_def presentBranch_def Let_def)
  have a: "gazeStateRef (fst (absenceBranch (initialRefs 90000) 100000 100)) = ABSENT"
    by (simp add: absenceBranch_def Let_def)
  have n: "gazeTick (initialRefs 90000) 100000 100 ?r \<noteq> absenceBranch (initialRefs 90000) 100000 100"
  proof
    assume "gazeTick (initialRefs 90000) 100000 100 ?r = absenceBranch (initialRefs 90000) 100000 100"
    with a have "gazeStateRef (fst (gazeTick (initialRefs 90000) 100000 100 ?r)) = ABSENT" by simp
    then show False by (simp add: g)
  qed
  have v: "gazeStateRef (fst (gazeTick (initialRefs 90000) 100000 100 ?r)) = NORMAL"
    "absenceStartRef (fst (gazeTick (initialRefs 90000) 100000 100 ?r)) = None"
    "tqAbsenceRef (fst (gazeTick (initialRefs 90000) 100000 100 ?r)) = 0"
    "tqFocusedRef (fst (gazeTick (initialRefs 90000) 100000 100 ?r)) = 100"
    unfolding g by (simp_all add: initialRefs_def)
  show ?thesis
    by (intro conjI) (rule r n v)+
qed

text \<open>
  Claim C8, amended. The loop treats a measurement as face-absent exactly when no face
  was detected or the confidence is a number below 0.6. So a detected face with a
  confidence that is \<open>NaN\<close>, or a number of at least 0.6 (also one above 1), takes the
  face-present path: the absence start and the logged flag are cleared, the absence
  bucket is not charged and no FACE_ABSENT event is emitted; a detected face with a
  confidence below 0.6 (also a negative one) takes the absence path: the state becomes
  ABSENT and the absence bucket is charged. Every measurement has a result.
\<close>

theorem face_presence_test:
  "(faceAbsent r \<longleftrightarrow>
      \<not> faceDetected r \<or> (\<exists>c. faceDetectionConfidence r = Num c \<and> c < 0.6)) \<and>
   (faceDetected r \<and>
    (faceDetectionConfidence r = NaN \<or> (\<exists>c. faceDetectionConfidence r = Num c \<and> 0.6 \<le> c)) \<longrightarrow>
      gazeTick s now d r = presentBranch s now d r \<and>
      absenceStartRef (fst (gazeTick s now d r)) = None \<and>
      \<not> isFaceAbsentLoggedRef (fst (gazeTick s now d r)) \<and>
      tqAbsenceRef (fst (gazeTick s now d r)) = tqAbsenceRef s \<and>
      countEventsByType (snd (gazeTick s now d r)) ''FACE_ABSENT'' = 0) \<and>
   (faceDetected r \<and> (\<exists>c. faceDetectionConfidence r = Num c \<and> c < 0.6) \<longrightarrow>
      gazeTick s now d r = absenceBranch s now d \<and>
      gazeStateRef (fst (gazeTick s now d r)) = ABSENT \<and>
      tqAbsenceRef (fst (gazeTick s now d r)) = tqAbsenceRef s + d \<and>
      countEventsByType (snd (gazeTick s now d r)) ''GAZE_AWAY'' = 0)"
proof -
  have 1: "gazeTick s now d r = presentBranch s now d r \<and>
      absenceStartRef (fst (gazeTick s now d r)) = None \<and>
      \<not> isFaceAbsentLoggedRef (fst (gazeTick s now d r)) \<and>
      tqAbsenceRef (fst (gazeTick s now d r)) = tqAbsenceRef s \<and>
      countEventsByType (snd (gazeTick s now d r)) ''FACE_ABSENT'' = 0"
    if "faceDetected r \<and>
      (faceDetectionConfidence r = NaN \<or> (\<exists>c. faceDetectionConfidence r = Num c \<and> 0.6 \<le> c))"
  proof -
    from that have p: "\<not> faceAbsent r" by (auto simp add: faceAbsent_iff)
    then have "gazeTick s now d r = presentBranch s now d r" by (simp add: gazeTick_def)
    moreover have "tqAbsenceRef (fst (presentBranch s now d r)) = tqAbsenceRef s"
      by (simp add: presentBranch_def strongDeviationGate_def Let_def)
    ultimately show ?thesis
      using gazeTick_present_rearms [OF p, of s now d] by simp
  qed
  have 2: "gazeTick s now d r = absenceBranch s now d \<and>
      gazeStateRef (fst (gazeTick s now d r)) = ABSENT \<and>
      tqAbsenceRef (fst (gazeTick s now d r)) = tqAbsenceRef s + d \<and>
      countEventsByType (snd (gazeTick s now d r)) ''GAZE_AWAY'' = 0"
    if "faceDetected r \<and> (\<exists>c. faceDetectionConfidence r = Num c \<and> c < 0.6)"
  proof -
    from that have p: "faceAbsent r" by (auto simp add: faceAbsent_iff)
    then have "gazeTick s now d r = absenceBranch s now d" by (simp add: gazeTick_def)
    then show ?thesis
      by (simp add: absenceBranch_def Let_def countEventsByType_def FACE_ABSENT_event_def)
  qed
  show ?thesis
    using faceAbsent_iff [of r] 1 2 by blast
qed

theorem face_presence_test_witness:
  "tqAbsenceRef (fst (gazeTick (initialRefs 90000) 100000 100
       (runGazeInference (Some (exampleFace NaN 5 10 True)) 100000))) = 0 \<and>
   tqAbsenceRef (fst (gazeTick (initialRefs 90000) 100000 100
       (runGazeInference (Some (exampleFace (Num 1.5) 5 10 True)) 100000))) = 0 \<and>
   gazeStateRef (fst (gazeTick (initialRefs 90000) 100000 100
       ((runGazeInference (Some (exampleFace (Num 0.9) 5 10 True)) 100000)
          \<lparr>faceDetectionConfidence := Num (- 0.5)\<rparr>))) = ABSENT"
proof -
  let ?s = "initialRefs 90000"
  let ?nan = "runGazeInference (Some (exampleFace NaN 5 10 True)) 100000"
  let ?big = "runGazeInference (Some (exampleFace (Num 1.5) 5 10 True)) 100000"
  let ?neg = "(runGazeInference (Some (exampleFace (Num 0.9) 5 10 True)) 100000)
          \<lparr>faceDetectionConfidence := Num (- 0.5)\<rparr>"
  have z: "tqAbsenceRef ?s = 0" by (simp add: initialRefs_def)
  have n: "faceDetected ?nan \<and> faceDetectionConfidence ?nan = NaN"
    by (simp add: runGazeInference_def exampleFace_def)
  have b0: "faceDetected ?big" "faceDetectionConfidence ?big = Num 1.5"
    by (simp_all add: runGazeInference_def exampleFace_def MIN_FACE_CONFIDENCE_def)
  have b: "faceDetected ?big \<and> (\<exists>c. faceDetectionConfidence ?big = Num c \<and> 0.6 \<le> c)"
    using b0 by (intro conjI exI [of _ "1.5"]) simp_all
  have m0: "faceDetected ?neg" "faceDetectionConfidence ?neg = Num (- 0.5)"
    by (simp_all add: runGazeInference_def exampleFace_def MIN_FACE_CONFIDENCE_def)
  have m: "faceDetected ?neg \<and> (\<exists>c. faceDetectionConfidence ?neg = Num c \<and> c < 0.6)"
    using m0 by (intro conjI exI [of _ "- 0.5"]) simp_all
  have 1: "tqAbsenceRef (fst (gazeTick ?s 100000 100 ?nan)) = tqAbsenceRef ?s"
    using face_presence_test [of ?nan ?s 100000 100] n by blast
  have 2: "tqAbsenceRef (fst (gazeTick ?s 100000 100 ?big)) = tqAbsenceRef ?s"
    using face_presence_test [of ?big ?s 100000 100] b by blast
  have 3: "gazeStateRef (fst (gazeTick ?s 100000 100 ?neg)) = ABSENT"
    using face_presence_test [of ?neg ?s 100000 100] m by blast
  show ?thesis
    unfolding 1 2 3 z by simp
qed

section \<open>The object cooldown tracker\<close>

lemma surfaced_iff:
  "surfaced p \<longleftrightarrow>
     (\<exists>n. pscore p = JNumber (Num n) \<and> 0.65 \<le> n) \<and> pclass p \<in> PROHIBITED_LABELS"
proof (cases "pscore p")
  case (JNumber x)
  then show ?thesis
    by (cases x) (simp_all add: surfaced_def CONFIDENCE_THRESHOLD_def)
qed (simp_all add: surfaced_def)

lemma objectCooldownLoop_events:
  "e \<in> set (snd (objectCooldownLoop m now dets)) \<Longrightarrow>
   \<exists>det\<in>set dets. e = OBJECT_DETECTED_event now det"
  by (induction dets arbitrary: m) (auto split: if_splits)

lemma objectEventsFor_event:
  "objectEventsFor l (OBJECT_DETECTED_event now det # evs) =
     (if label det = l then OBJECT_DETECTED_event now det # objectEventsFor l evs
      else objectEventsFor l evs)"
  by (simp add: objectEventsFor_def OBJECT_DETECTED_event_def metadata_get_def)

lemma lastFor_upd: "lastFor (m(k \<mapsto> t)) l = (if l = k then t else lastFor m l)"
  by (simp add: lastFor_def)

lemma objectCooldownLoop_label:
  "length (objectEventsFor l (snd (objectCooldownLoop m now dets))) =
     (if l \<in> label ` set dets \<and> now - lastFor m l \<ge> OBJECT_DETECTION_COOLDOWN_MS
      then 1 else 0) \<and>
   fst (objectCooldownLoop m now dets) l =
     (if l \<in> label ` set dets \<and> now - lastFor m l \<ge> OBJECT_DETECTION_COOLDOWN_MS
      then Some now else m l)"
proof (induction dets arbitrary: m)
  case Nil
  show ?case by (simp add: objectEventsFor_def)
next
  case (Cons det dets)
  show ?case
  proof (cases "now - lastFor m (label det) \<ge> OBJECT_DETECTION_COOLDOWN_MS")
    case True
    define m' where "m' = m(label det \<mapsto> now)"
    have m'l: "m' l = (if l = label det then Some now else m l)"
      and lf: "lastFor m' l = (if l = label det then now else lastFor m l)"
      by (simp_all add: m'_def lastFor_def)
    note ih = Cons.IH [of m']
    from True have step:
      "objectCooldownLoop m now (det # dets) =
         (fst (objectCooldownLoop m' now dets),
          OBJECT_DETECTED_event now det # snd (objectCooldownLoop m' now dets))"
      by (simp add: m'_def)
    show ?thesis
    proof (cases "label det = l")
      case same: True
      have "\<not> now - now \<ge> OBJECT_DETECTION_COOLDOWN_MS"
        by (simp add: OBJECT_DETECTION_COOLDOWN_MS_def)
      with ih same lf m'l
      have "length (objectEventsFor l (snd (objectCooldownLoop m' now dets))) = 0"
        and "fst (objectCooldownLoop m' now dets) l = Some now"
        by simp_all
      with True same show ?thesis
        unfolding step by (simp add: objectEventsFor_event)
    next
      case False
      with ih lf m'l
      have "length (objectEventsFor l (snd (objectCooldownLoop m' now dets))) =
          (if l \<in> label ` set dets \<and> now - lastFor m l \<ge> OBJECT_DETECTION_COOLDOWN_MS
           then 1 else 0)"
        and "fst (objectCooldownLoop m' now dets) l =
          (if l \<in> label ` set dets \<and> now - lastFor m l \<ge> OBJECT_DETECTION_COOLDOWN_MS
           then Some now else m l)"
        by auto
      with False show ?thesis
        unfolding step by (auto simp add: objectEventsFor_event)
    qed
  next
    case False
    with Cons.IH [of m] show ?thesis by auto
  qed
qed

lemma gazeTick_event_types:
  "e \<in> set (snd (gazeTick s now d r)) \<Longrightarrow> etype e = ''FACE_ABSENT'' \<or> etype e = ''GAZE_AWAY''"
  by (auto simp add: gazeTick_def absenceBranch_def presentBranch_def strongDeviationGate_def
      Let_def FACE_ABSENT_event_def GAZE_AWAY_event_def split: if_splits)

lemma gazePhase_event_types:
  "e \<in> set (snd (gazePhase s f d)) \<Longrightarrow> etype e = ''FACE_ABSENT'' \<or> etype e = ''GAZE_AWAY''"
  by (auto simp add: gazePhase_def Let_def split: if_splits option.splits
      dest: gazeTick_event_types)

lemma objectPhase_events:
  "e \<in> set (snd (objectPhase s f)) \<Longrightarrow>
   \<exists>raw m. objectInference f = Some raw \<and>
     e \<in> set (snd (objectCooldownLoop m (dateNow f) (runObjectDetection raw)))"
  by (auto simp add: objectPhase_def Let_def split: if_splits option.splits)

lemma aiLoop_object_events:
  assumes "e \<in> set (snd (aiLoop s f))" "etype e = ''OBJECT_DETECTED''"
  shows "\<exists>raw m. objectInference f = Some raw \<and>
     e \<in> set (snd (objectCooldownLoop m (dateNow f) (runObjectDetection raw)))"
proof -
  from assms(1) have "e \<in> set (snd (gazePhase (s\<lparr>lastFrameTimeRef := dateNow f\<rparr>) f
        (dateNow f - lastFrameTimeRef s))) \<or>
      e \<in> set (snd (objectPhase (fst (gazePhase (s\<lparr>lastFrameTimeRef := dateNow f\<rparr>) f
        (dateNow f - lastFrameTimeRef s))) f))"
    by (simp add: aiLoop_def Let_def)
  then show ?thesis
  proof
    assume "e \<in> set (snd (gazePhase (s\<lparr>lastFrameTimeRef := dateNow f\<rparr>) f
        (dateNow f - lastFrameTimeRef s)))"
    from gazePhase_event_types [OF this] assms(2) show ?thesis by simp
  next
    assume "e \<in> set (snd (objectPhase (fst (gazePhase (s\<lparr>lastFrameTimeRef := dateNow f\<rparr>) f
        (dateNow f - lastFrameTimeRef s))) f))"
    then show ?thesis by (rule objectPhase_events)
  qed
qed

text \<open>
  Claim C5. Every event of the object loop on the detections of \<open>runObjectDetection\<close>,
  and so every OBJECT_DETECTED event of a frame of \<open>aiLoop\<close>, comes from a raw
  prediction with a numeric score of at least 0.65 and a prohibited label. In one pass of the loop a label emits exactly one event if it is among the
  detections and at least 5000 ms have passed since it last emitted (never, counted from
  0), and none otherwise; on emission its last-emitted time becomes the current clock.
  Hence two passes less than 5000 ms apart that both detect a label emit exactly one
  event for it, and two different labels detected in one pass, both off cooldown, emit
  one event each.
\<close>

theorem object_cooldown_tracker:
  "(e \<in> set (snd (objectCooldownLoop m now (runObjectDetection raw))) \<longrightarrow>
      (\<exists>p\<in>set raw. (\<exists>n. pscore p = JNumber (Num n) \<and> 0.65 \<le> n) \<and>
         pclass p \<in> PROHIBITED_LABELS \<and>
         e = OBJECT_DETECTED_event now (toDetectedObject p))) \<and>
   (e \<in> set (snd (aiLoop s f)) \<and> etype e = ''OBJECT_DETECTED'' \<longrightarrow>
      (\<exists>raw'. objectInference f = Some raw' \<and>
         (\<exists>p\<in>set raw'. (\<exists>n. pscore p = JNumber (Num n) \<and> 0.65 \<le> n) \<and>
            pclass p \<in> PROHIBITED_LABELS \<and>
            e = OBJECT_DETECTED_event (dateNow f) (toDetectedObject p)))) \<and>
   length (objectEventsFor l (snd (objectCooldownLoop m now dets))) =
     (if l \<in> label ` set dets \<and> now - lastFor m l \<ge> 5000 then 1 else 0) \<and>
   fst (objectCooldownLoop m now dets) l =
     (if l \<in> label ` set dets \<and> now - lastFor m l \<ge> 5000 then Some now else m l) \<and>
   (l \<in> label ` set dets \<and> l \<in> label ` set dets' \<and> now - lastFor m l \<ge> 5000 \<and>
    now' - now < 5000 \<longrightarrow>
      length (objectEventsFor l
        (snd (objectCooldownLoop m now dets)
         @ snd (objectCooldownLoop (fst (objectCooldownLoop m now dets)) now' dets'))) = 1) \<and>
   (l \<noteq> k \<and> l \<in> label ` set dets \<and> k \<in> label ` set dets \<and>
    now - lastFor m l \<ge> 5000 \<and> now - lastFor m k \<ge> 5000 \<longrightarrow>
      length (objectEventsFor l (snd (objectCooldownLoop m now dets))) = 1 \<and>
      length (objectEventsFor k (snd (objectCooldownLoop m now dets))) = 1 \<and>
      fst (objectCooldownLoop m now dets) l = Some now \<and>
      fst (objectCooldownLoop m now dets) k = Some now)"
proof -
  have a: "\<exists>p\<in>set raw. (\<exists>n. pscore p = JNumber (Num n) \<and> 0.65 \<le> n) \<and>
         pclass p \<in> PROHIBITED_LABELS \<and> e = OBJECT_DETECTED_event now (toDetectedObject p)"
    if "e \<in> set (snd (objectCooldownLoop m now (runObjectDetection raw)))" for m now raw
  proof -
    from objectCooldownLoop_events [OF that]
    obtain p where "p \<in> set raw" "surfaced p" "e = OBJECT_DETECTED_event now (toDetectedObject p)"
      by (auto simp add: runObjectDetection_def)
    then show ?thesis by (auto simp add: surfaced_iff)
  qed
  have a': "\<exists>raw'. objectInference f = Some raw' \<and>
         (\<exists>p\<in>set raw'. (\<exists>n. pscore p = JNumber (Num n) \<and> 0.65 \<le> n) \<and>
            pclass p \<in> PROHIBITED_LABELS \<and>
            e = OBJECT_DETECTED_event (dateNow f) (toDetectedObject p))"
    if h: "e \<in> set (snd (aiLoop s f)) \<and> etype e = ''OBJECT_DETECTED''"
  proof -
    from h aiLoop_object_events [of e s f]
    obtain raw' m' where "objectInference f = Some raw'"
      "e \<in> set (snd (objectCooldownLoop m' (dateNow f) (runObjectDetection raw')))"
      by blast
    with a [of m' "dateNow f" raw'] show ?thesis by blast
  qed
  note g = objectCooldownLoop_label [unfolded OBJECT_DETECTION_COOLDOWN_MS_def]
  have b: "length (objectEventsFor l
        (snd (objectCooldownLoop m now dets)
         @ snd (objectCooldownLoop (fst (objectCooldownLoop m now dets)) now' dets'))) = 1"
    if h: "l \<in> label ` set dets \<and> l \<in> label ` set dets' \<and> now - lastFor m l \<ge> 5000 \<and>
      now' - now < 5000"
  proof -
    from h g [of l m now dets]
    have 1: "length (objectEventsFor l (snd (objectCooldownLoop m now dets))) = 1"
      and 2: "fst (objectCooldownLoop m now dets) l = Some now" by simp_all
    from 2 have "lastFor (fst (objectCooldownLoop m now dets)) l = now"
      by (simp add: lastFor_def)
    with h g [of l "fst (objectCooldownLoop m now dets)" now' dets']
    have "length (objectEventsFor l
        (snd (objectCooldownLoop (fst (objectCooldownLoop m now dets)) now' dets'))) = 0"
      by simp
    with 1 show ?thesis by (simp add: objectEventsFor_def)
  qed
  have c: "length (objectEventsFor l (snd (objectCooldownLoop m now dets))) = 1 \<and>
      length (objectEventsFor k (snd (objectCooldownLoop m now dets))) = 1 \<and>
      fst (objectCooldownLoop m now dets) l = Some now \<and>
      fst (objectCooldownLoop m now dets) k = Some now"
    if "l \<noteq> k \<and> l \<in> label ` set dets \<and> k \<in> label ` set dets \<and>
      now - lastFor m l \<ge> 5000 \<and> now - lastFor m k \<ge> 5000"
    using that g [of l m now dets] g [of k m now dets] by simp
  show ?thesis
    using a [of m now raw] a' g [of l m now dets] b c by blast
qed

theorem object_cooldown_tracker_witness:
  "length (objectEventsFor ''cell phone''
     (snd (objectCooldownLoop Map.empty 100000
        (runObjectDetection [examplePrediction ''cell phone'' 0.9, examplePrediction ''book'' 0.7]))
      @ snd (objectCooldownLoop
          (fst (objectCooldownLoop Map.empty 100000
             (runObjectDetection
                [examplePrediction ''cell phone'' 0.9, examplePrediction ''book'' 0.7])))
          103000 (runObjectDetection [examplePrediction ''cell phone'' 0.8])))) = 1 \<and>
   length (objectEventsFor ''book''
     (snd (objectCooldownLoop Map.empty 100000
        (runObjectDetection
           [examplePrediction ''cell phone'' 0.9, examplePrediction ''book'' 0.7])))) = 1 \<and>
   fst (objectCooldownLoop Map.empty 100000
        (runObjectDetection [examplePrediction ''cell phone'' 0.9, examplePrediction ''book'' 0.7]))
     ''book'' = Some 100000"
proof -
  let ?d1 = "runObjectDetection [examplePrediction ''cell phone'' 0.9, examplePrediction ''book'' 0.7]"
  let ?d2 = "runObjectDetection [examplePrediction ''cell phone'' 0.8]"
  have l1: "label ` set ?d1 = {''cell phone'', ''book''}"
    by (simp add: runObjectDetection_def surfaced_def examplePrediction_def toDetectedObject_def
        CONFIDENCE_THRESHOLD_def PROHIBITED_LABELS_def)
  have l2: "label ` set ?d2 = {''cell phone''}"
    by (simp add: runObjectDetection_def surfaced_def examplePrediction_def toDetectedObject_def
        CONFIDENCE_THRESHOLD_def PROHIBITED_LABELS_def)
  have z: "lastFor Map.empty l = 0" for l
    by (simp add: lastFor_def)
  note t = object_cooldown_tracker
      [of "FACE_ABSENT_event 0 0" Map.empty 100000 "[]" "initialRefs 0"
          "exampleFrame 0 faceLost" "''cell phone''" ?d1 ?d2 103000 "''book''"]
  have p: "''cell phone'' \<in> label ` set ?d1 \<and> ''cell phone'' \<in> label ` set ?d2 \<and>
      100000 - lastFor Map.empty ''cell phone'' \<ge> 5000 \<and> (103000::int) - 100000 < 5000"
    unfolding l1 l2 z by simp
  have q: "''cell phone'' \<noteq> ''book'' \<and> ''cell phone'' \<in> label ` set ?d1 \<and>
      ''book'' \<in> label ` set ?d1 \<and> 100000 - lastFor Map.empty ''cell phone'' \<ge> 5000 \<and>
      100000 - lastFor Map.empty ''book'' \<ge> 5000"
    unfolding l1 z by simp
  from t p q show ?thesis by blast
qed

section \<open>The time-quality accumulator\<close>

subsection \<open>One measurement, one frame\<close>

text \<open>A frame that processes a measurement runs the gaze tick on it; any other frame
  leaves the gaze and absence cells alone and emits no gaze event.\<close>

lemma gazePhase_processed:
  "processedResult s f = Some r \<Longrightarrow>
   gazePhase s f d = gazeTick (s\<lparr>lastGazeInferenceRef := rafNow f\<rparr>) (dateNow f) d r"
  by (auto simp add: processedResult_def gazePhase_def Let_def split: if_splits option.splits)

lemma gazePhase_skipped:
  "processedResult s f = None \<Longrightarrow>
   snd (gazePhase s f d) = [] \<and>
   gazeStateRef (fst (gazePhase s f d)) = gazeStateRef s \<and>
   deviationStartRef (fst (gazePhase s f d)) = deviationStartRef s \<and>
   lastGazeAlertTimeRef (fst (gazePhase s f d)) = lastGazeAlertTimeRef s \<and>
   absenceStartRef (fst (gazePhase s f d)) = absenceStartRef s \<and>
   isFaceAbsentLoggedRef (fst (gazePhase s f d)) = isFaceAbsentLoggedRef s \<and>
   lastFaceAbsentTimeRef (fst (gazePhase s f d)) = lastFaceAbsentTimeRef s"
  by (auto simp add: processedResult_def gazePhase_def Let_def split: if_splits option.splits)

lemma gazeTick_buckets:
  "bucketsOf (fst (gazeTick s now d r)) = addTo (measuredBucket r) d (bucketsOf s)"
  by (simp add: gazeTick_def absenceBranch_def presentBranch_def strongDeviationGate_def
      measuredBucket_def bucketsOf_def Let_def)

lemma gazeTick_frame_cells:
  "lastFrameTimeRef (fst (gazeTick s now d r)) = lastFrameTimeRef s \<and>
   timeQuality (fst (gazeTick s now d r)) = timeQuality s \<and>
   lastGazeInferenceRef (fst (gazeTick s now d r)) = lastGazeInferenceRef s \<and>
   lastObjInferenceRef (fst (gazeTick s now d r)) = lastObjInferenceRef s"
  by (simp add: gazeTick_def absenceBranch_def presentBranch_def strongDeviationGate_def
      Let_def)

lemma gazeTick_specBucket:
  "\<not> lockedOut s r \<Longrightarrow> specBucket (gazeStateRef (fst (gazeTick s now d r))) r = measuredBucket r"
  by (cases "gazeStateRef s")
    (auto simp add: gazeTick_def absenceBranch_def presentBranch_def strongDeviationGate_def
      measuredBucket_def specBucket_def lockedOut_def Let_def)

lemma gazeTick_lockedOut:
  "lockedOut s r \<Longrightarrow>
   gazeStateRef (fst (gazeTick s now d r)) = ABSENT \<and> measuredBucket r = DeviationBucket \<and>
   specBucket (gazeStateRef (fst (gazeTick s now d r))) r = AbsenceBucket"
  by (simp add: gazeTick_def presentBranch_def strongDeviationGate_def
      measuredBucket_def specBucket_def lockedOut_def Let_def)

lemma gazePhase_cells:
  "bucketsOf (fst (gazePhase s f d)) =
     (case processedResult s f of
        None \<Rightarrow> bucketsOf s
      | Some r \<Rightarrow> addTo (measuredBucket r) d (bucketsOf s))"
  "lastFrameTimeRef (fst (gazePhase s f d)) = lastFrameTimeRef s"
  "timeQuality (fst (gazePhase s f d)) = timeQuality s"
proof -
  have b: "bucketsOf (s\<lparr>lastGazeInferenceRef := x\<rparr>) = bucketsOf s" for x
    by (simp add: bucketsOf_def)
  show "bucketsOf (fst (gazePhase s f d)) =
     (case processedResult s f of
        None \<Rightarrow> bucketsOf s
      | Some r \<Rightarrow> addTo (measuredBucket r) d (bucketsOf s))"
    by (simp add: gazePhase_def processedResult_def Let_def gazeTick_buckets b
        split: option.split)
  show "lastFrameTimeRef (fst (gazePhase s f d)) = lastFrameTimeRef s"
    by (simp add: gazePhase_def Let_def gazeTick_frame_cells split: option.split)
  show "timeQuality (fst (gazePhase s f d)) = timeQuality s"
    by (simp add: gazePhase_def Let_def gazeTick_frame_cells split: option.split)
qed

lemma objectPhase_cells:
  "bucketsOf (fst (objectPhase s f)) = bucketsOf s"
  "lastFrameTimeRef (fst (objectPhase s f)) = lastFrameTimeRef s"
  "timeQuality (fst (objectPhase s f)) = timeQuality s"
  by (simp_all add: objectPhase_def Let_def bucketsOf_def split: option.split)

lemma publishTimeQuality_cells:
  "bucketsOf (publishTimeQuality s now) = bucketsOf s"
  "lastFrameTimeRef (publishTimeQuality s now) = lastFrameTimeRef s"
  by (simp_all add: publishTimeQuality_def Let_def bucketsOf_def)

lemma publishTimeQuality_timeQuality:
  "bucketsOf s = (f, m, dv, a) \<Longrightarrow>
   timeQuality (publishTimeQuality s now) =
     (if f + m + dv + a > 0 \<and> js_rem now 4 < 1
      then \<lparr>focusedTimeMs = f, minorMovementTimeMs = m, deviationTimeMs = dv,
            absenceTimeMs = a, totalSessionTimeMs = f + m + dv + a,
            focusRatio = real_of_int (Math_round
              (fl (fl (real_of_int (f + m) / real_of_int (f + m + dv + a)) * 100))) / 100\<rparr>
      else timeQuality s)"
  by (simp add: publishTimeQuality_def Let_def bucketsOf_def)

lemma aiLoop_cells:
  "lastFrameTimeRef (fst (aiLoop s f)) = dateNow f"
  "bucketsOf (fst (aiLoop s f)) =
     (case processedResult s f of
        None \<Rightarrow> bucketsOf s
      | Some r \<Rightarrow> addTo (measuredBucket r) (dateNow f - lastFrameTimeRef s) (bucketsOf s))"
proof -
  let ?s1 = "s\<lparr>lastFrameTimeRef := dateNow f\<rparr>"
  have p: "processedResult ?s1 f = processedResult s f"
    by (simp add: processedResult_def)
  have b: "bucketsOf ?s1 = bucketsOf s"
    by (simp add: bucketsOf_def)
  show "lastFrameTimeRef (fst (aiLoop s f)) = dateNow f"
    by (simp add: aiLoop_def Let_def publishTimeQuality_cells objectPhase_cells gazePhase_cells)
  show "bucketsOf (fst (aiLoop s f)) =
     (case processedResult s f of
        None \<Rightarrow> bucketsOf s
      | Some r \<Rightarrow> addTo (measuredBucket r) (dateNow f - lastFrameTimeRef s) (bucketsOf s))"
    by (simp add: aiLoop_def Let_def publishTimeQuality_cells objectPhase_cells gazePhase_cells
        p b split: option.split)
qed

lemma aiLoop_lastGazeInferenceRef:
  "lastGazeInferenceRef (fst (aiLoop s f)) =
     (if rafNow f - lastGazeInferenceRef s \<ge> INFERENCE_INTERVAL_MS then rafNow f
      else lastGazeInferenceRef s)"
  by (simp add: aiLoop_def Let_def gazePhase_def objectPhase_def publishTimeQuality_def
      gazeTick_frame_cells split: option.split)

lemma aiLoop_timeQuality:
  "bucketsOf (fst (aiLoop s f)) = (fo, m, dv, a) \<Longrightarrow>
   timeQuality (fst (aiLoop s f)) =
     (if fo + m + dv + a > 0 \<and> js_rem (rafNow f) 4 < 1
      then \<lparr>focusedTimeMs = fo, minorMovementTimeMs = m, deviationTimeMs = dv,
            absenceTimeMs = a, totalSessionTimeMs = fo + m + dv + a,
            focusRatio = real_of_int (Math_round
              (fl (fl (real_of_int (fo + m) / real_of_int (fo + m + dv + a)) * 100))) / 100\<rparr>
      else timeQuality s)"
proof -
  let ?s3 = "fst (objectPhase (fst (gazePhase (s\<lparr>lastFrameTimeRef := dateNow f\<rparr>) f
                (dateNow f - lastFrameTimeRef s))) f)"
  assume "bucketsOf (fst (aiLoop s f)) = (fo, m, dv, a)"
  then have "bucketsOf ?s3 = (fo, m, dv, a)"
    by (simp add: aiLoop_def Let_def publishTimeQuality_cells)
  from publishTimeQuality_timeQuality [OF this, of "rafNow f"]
  show ?thesis
    by (simp add: aiLoop_def Let_def objectPhase_cells gazePhase_cells)
qed

subsection \<open>Invariants of a session\<close>

lemma aiLoop_consistentMetrics:
  assumes "consistentMetrics (timeQuality s)"
  shows "consistentMetrics (timeQuality (fst (aiLoop s f)))"
proof -
  obtain fo m dv a where b: "bucketsOf (fst (aiLoop s f)) = (fo, m, dv, a)"
    by (cases "bucketsOf (fst (aiLoop s f))") auto
  show ?thesis
  proof (cases "fo + m + dv + a > 0 \<and> js_rem (rafNow f) 4 < 1")
    case True
    then show ?thesis
      unfolding aiLoop_timeQuality [OF b]
      by (simp add: consistentMetrics_def derivedFocusRatio_def focusShare_def)
  next
    case False
    then have "timeQuality (fst (aiLoop s f)) = timeQuality s"
      unfolding aiLoop_timeQuality [OF b] by auto
    with assms show ?thesis by simp
  qed
qed

lemma aiLoop_nonNegativeBuckets:
  assumes "nonNegativeBuckets s" "lastFrameTimeRef s \<le> dateNow f"
  shows "nonNegativeBuckets (fst (aiLoop s f))"
proof -
  have "nonNegativeBuckets t" if "bucketsOf t = addTo b d (bucketsOf s)" "0 \<le> d" for t b d
    using that assms(1) by (cases b) (simp_all add: bucketsOf_def nonNegativeBuckets_def)
  moreover have "nonNegativeBuckets t" if "bucketsOf t = bucketsOf s" for t
    using that assms(1) by (simp add: bucketsOf_def nonNegativeBuckets_def)
  ultimately show ?thesis
    using aiLoop_cells(2) [of s f] assms(2)
    by (cases "processedResult s f") simp_all
qed

lemma aiLoop_focusRatio_bounded:
  assumes "nonNegativeBuckets (fst (aiLoop s f))"
    and "0 \<le> focusRatio (timeQuality s) \<and> focusRatio (timeQuality s) \<le> 1"
  shows "0 \<le> focusRatio (timeQuality (fst (aiLoop s f))) \<and>
         focusRatio (timeQuality (fst (aiLoop s f))) \<le> 1"
proof -
  obtain fo m dv a where b: "bucketsOf (fst (aiLoop s f)) = (fo, m, dv, a)"
    by (cases "bucketsOf (fst (aiLoop s f))") auto
  with assms(1) have n: "0 \<le> fo" "0 \<le> m" "0 \<le> dv" "0 \<le> a"
    by (simp_all add: bucketsOf_def nonNegativeBuckets_def)
  show ?thesis
  proof (cases "fo + m + dv + a > 0 \<and> js_rem (rafNow f) 4 < 1")
    case True
    let ?x = "real_of_int (fo + m) / real_of_int (fo + m + dv + a)"
    from True n have "0 \<le> ?x" "?x \<le> 1" by simp_all
    from percent_bounds(1,2) [OF this] True show ?thesis
      unfolding aiLoop_timeQuality [OF b] by simp
  next
    case False
    with assms(2) show ?thesis
      unfolding aiLoop_timeQuality [OF b] by auto
  qed
qed

lemma aiLoop_nonNegativeMetrics:
  assumes "nonNegativeBuckets (fst (aiLoop s f))" "nonNegativeMetrics (timeQuality s)"
  shows "nonNegativeMetrics (timeQuality (fst (aiLoop s f)))"
proof -
  obtain fo m dv a where b: "bucketsOf (fst (aiLoop s f)) = (fo, m, dv, a)"
    by (cases "bucketsOf (fst (aiLoop s f))") auto
  with assms(1) have n: "0 \<le> fo" "0 \<le> m" "0 \<le> dv" "0 \<le> a"
    by (simp_all add: bucketsOf_def nonNegativeBuckets_def)
  show ?thesis
    unfolding aiLoop_timeQuality [OF b] using n assms(2)
    by (simp add: nonNegativeMetrics_def)
qed

lemma derivedFocusRatio_close:
  assumes "nonNegativeMetrics q" "0 < totalSessionTimeMs q"
    and "totalSessionTimeMs q =
      focusedTimeMs q + minorMovementTimeMs q + deviationTimeMs q + absenceTimeMs q"
  shows "\<bar>derivedFocusRatio q - focusShare q\<bar> \<le> 1 / 200 + 1 / 2 ^ 52"
proof -
  from assms have "0 \<le> focusShare q" "focusShare q \<le> 1"
    by (simp_all add: focusShare_def nonNegativeMetrics_def)
  from percent_bounds(3) [OF this] show ?thesis
    by (simp only: derivedFocusRatio_def)
qed

lemma processedResult_focused:
  "focusedFrame f \<Longrightarrow> processedResult s f = Some r \<Longrightarrow> measuredBucket r = FocusedBucket"
  by (auto simp add: focusedFrame_def processedResult_def split: if_splits option.splits)

lemma aiLoop_onlyFocused:
  assumes "onlyFocused s" "focusRatio (timeQuality s) = 1" "focusedFrame f"
  shows "onlyFocused (fst (aiLoop s f)) \<and> focusRatio (timeQuality (fst (aiLoop s f))) = 1"
proof -
  obtain fo m dv a where b: "bucketsOf (fst (aiLoop s f)) = (fo, m, dv, a)"
    by (cases "bucketsOf (fst (aiLoop s f))") auto
  have z: "m = 0 \<and> dv = 0 \<and> a = 0"
  proof (cases "processedResult s f")
    case None
    with aiLoop_cells(2) [of s f] b assms(1) show ?thesis
      by (simp add: bucketsOf_def onlyFocused_def)
  next
    case (Some r)
    with processedResult_focused [OF assms(3) Some] aiLoop_cells(2) [of s f] b assms(1)
    show ?thesis
      by (simp add: bucketsOf_def onlyFocused_def)
  qed
  with b have o: "onlyFocused (fst (aiLoop s f))"
    by (simp add: bucketsOf_def onlyFocused_def)
  have "focusRatio (timeQuality (fst (aiLoop s f))) = 1"
    unfolding aiLoop_timeQuality [OF b] using z assms(2)
    by (simp add: Math_round_def fl_1 fl_100)
  with o show ?thesis by simp
qed

lemma framesRefs_consistentMetrics:
  "consistentMetrics (timeQuality s) \<Longrightarrow> consistentMetrics (timeQuality (framesRefs s fs))"
  by (induction fs arbitrary: s) (simp_all add: aiLoop_consistentMetrics)

lemma framesRefs_focusRatio_bounded:
  "nonNegativeBuckets s \<Longrightarrow>
   0 \<le> focusRatio (timeQuality s) \<and> focusRatio (timeQuality s) \<le> 1 \<Longrightarrow>
   sorted (lastFrameTimeRef s # map dateNow fs) \<Longrightarrow>
   0 \<le> focusRatio (timeQuality (framesRefs s fs)) \<and>
   focusRatio (timeQuality (framesRefs s fs)) \<le> 1"
proof (induction fs arbitrary: s)
  case Nil
  then show ?case by simp
next
  case (Cons f fs)
  from Cons.prems(3) have le: "lastFrameTimeRef s \<le> dateNow f"
    and so: "sorted (dateNow f # map dateNow fs)" by simp_all
  note n = aiLoop_nonNegativeBuckets [OF Cons.prems(1) le]
  note r = aiLoop_focusRatio_bounded [OF n Cons.prems(2)]
  from so have "sorted (lastFrameTimeRef (fst (aiLoop s f)) # map dateNow fs)"
    by (simp only: aiLoop_cells(1))
  from Cons.IH [OF n r this] show ?case by simp
qed

lemma framesRefs_nonNegativeMetrics:
  "nonNegativeBuckets s \<Longrightarrow> nonNegativeMetrics (timeQuality s) \<Longrightarrow>
   sorted (lastFrameTimeRef s # map dateNow fs) \<Longrightarrow>
   nonNegativeMetrics (timeQuality (framesRefs s fs))"
proof (induction fs arbitrary: s)
  case Nil
  then show ?case by simp
next
  case (Cons f fs)
  from Cons.prems(3) have le: "lastFrameTimeRef s \<le> dateNow f"
    and so: "sorted (dateNow f # map dateNow fs)" by simp_all
  note n = aiLoop_nonNegativeBuckets [OF Cons.prems(1) le]
  note r = aiLoop_nonNegativeMetrics [OF n Cons.prems(2)]
  from so have "sorted (lastFrameTimeRef (fst (aiLoop s f)) # map dateNow fs)"
    by (simp only: aiLoop_cells(1))
  from Cons.IH [OF n r this] show ?case by simp
qed

lemma framesRefs_lastFrameTimeRef:
  "lastFrameTimeRef (framesRefs s fs) = last (lastFrameTimeRef s # map dateNow fs)"
proof (induction fs arbitrary: s)
  case Nil
  then show ?case by simp
next
  case (Cons f fs)
  have "lastFrameTimeRef (framesRefs s (f # fs))
      = last (lastFrameTimeRef (fst (aiLoop s f)) # map dateNow fs)"
    by (simp only: framesRefs.simps Cons.IH)
  also have "\<dots> = last (dateNow f # map dateNow fs)"
    by (simp only: aiLoop_cells(1))
  finally show ?case by simp
qed

lemma framesRefs_onlyFocused:
  "onlyFocused s \<Longrightarrow> focusRatio (timeQuality s) = 1 \<Longrightarrow> \<forall>f\<in>set fs. focusedFrame f \<Longrightarrow>
   focusRatio (timeQuality (framesRefs s fs)) = 1"
proof (induction fs arbitrary: s)
  case Nil
  then show ?case by simp
next
  case (Cons f fs)
  from Cons.prems(3) have ff: "focusedFrame f" and rest: "\<forall>f\<in>set fs. focusedFrame f"
    by simp_all
  from aiLoop_onlyFocused [OF Cons.prems(1) Cons.prems(2) ff]
  have "onlyFocused (fst (aiLoop s f))" "focusRatio (timeQuality (fst (aiLoop s f))) = 1"
    by simp_all
  from Cons.IH [OF this rest] show ?case by simp
qed

lemma initialRefs_cells:
  "consistentMetrics (timeQuality (initialRefs t0))"
  "nonNegativeBuckets (initialRefs t0)"
  "onlyFocused (initialRefs t0)"
  "focusRatio (timeQuality (initialRefs t0)) = 1"
  "lastFrameTimeRef (initialRefs t0) = t0"
  "nonNegativeMetrics (timeQuality (initialRefs t0))"
  by (simp_all add: initialRefs_def consistentMetrics_def nonNegativeBuckets_def
      onlyFocused_def INITIAL_TIME_QUALITY_def nonNegativeMetrics_def)

subsection \<open>The accounting\<close>

text \<open>
  The rounding of the published focus ratio is the one of the doubles: with 23 ms focused
  and 17 ms absent, the quotient \<open>23 / 40\<close> rounds to a double just below 0.575 and its
  product with 100 to one just below 57.5, so that 0.57 is published, where the exact
  quotient would give 0.58.
\<close>

lemma publishTimeQuality_rounding_example:
  "focusRatio (timeQuality (publishTimeQuality
     ((initialRefs 0)\<lparr>tqFocusedRef := 23, tqAbsenceRef := 17\<rparr>) 0)) = 57 / 100"
  "real_of_int (Math_round (23 / 40 * 100)) / 100 = 58 / 100"
proof -
  have b: "bucketsOf ((initialRefs 0)\<lparr>tqFocusedRef := 23, tqAbsenceRef := 17\<rparr>) = (23, 0, 0, 17)"
    by (simp add: bucketsOf_def initialRefs_def)
  have r: "Math_round (fl (fl (23 / 40) * 100)) = 57"
    by code_simp
  show "focusRatio (timeQuality (publishTimeQuality
     ((initialRefs 0)\<lparr>tqFocusedRef := 23, tqAbsenceRef := 17\<rparr>) 0)) = 57 / 100"
    unfolding publishTimeQuality_timeQuality [OF b] using r by (simp add: js_rem_def)
  show "real_of_int (Math_round (23 / 40 * 100)) / 100 = 58 / 100"
    by (simp add: Math_round_def)
qed

lemma mixed_session_example:
  "timeQuality (framesRefs (initialRefs 90000) mixedSession) =
     \<lparr>focusedTimeMs = 10000, minorMovementTimeMs = 0, deviationTimeMs = 200, absenceTimeMs = 0,
      totalSessionTimeMs = 10200, focusRatio = 98 / 100\<rparr>"
proof -
  let ?f1 = "\<lparr>rafNow = 100000, dateNow = 100000, faceInference = Some lookingAtScreen,
       objectInference = None\<rparr>"
  let ?f2 = "\<lparr>rafNow = 100200, dateNow = 100200, faceInference = Some lookingAway,
       objectInference = None\<rparr>"
  let ?s0 = "initialRefs 90000"
  let ?s1 = "fst (aiLoop ?s0 ?f1)"
  let ?s2 = "fst (aiLoop ?s1 ?f2)"
  have g0: "lastGazeInferenceRef ?s0 = 0" "lastFrameTimeRef ?s0 = 90000"
    "bucketsOf ?s0 = (0, 0, 0, 0)"
    by (simp_all add: initialRefs_def bucketsOf_def)
  have m1: "measuredBucket (runGazeInference lookingAtScreen 100000) = FocusedBucket"
    by (simp add: lookingAtScreen_def exampleFace_def
        runGazeInference_def measuredBucket_def faceAbsent_def MIN_FACE_CONFIDENCE_def
        isInSafeZone_def MAX_YAW_NORMAL_def MAX_PITCH_NORMAL_def)
  have m2: "measuredBucket (runGazeInference lookingAway 100200) = DeviationBucket"
    by (simp add: lookingAway_def exampleFace_def
        runGazeInference_def measuredBucket_def faceAbsent_def MIN_FACE_CONFIDENCE_def
        isInSafeZone_def isStrongDeviationCheck_def MAX_YAW_NORMAL_def STRONG_YAW_DEG_def)
  have p1: "processedResult ?s0 ?f1 = Some (runGazeInference lookingAtScreen 100000)"
    by (simp add: processedResult_def g0 INFERENCE_INTERVAL_MS_def INFERENCE_FPS_def)
  have b1: "bucketsOf ?s1 = (10000, 0, 0, 0)"
    unfolding aiLoop_cells(2) p1 by (simp add: m1 g0)
  have g1: "lastGazeInferenceRef ?s1 = 100000"
    by (simp add: aiLoop_def Let_def gazePhase_def objectPhase_def publishTimeQuality_def g0
        INFERENCE_INTERVAL_MS_def INFERENCE_FPS_def gazeTick_frame_cells)
  have p2: "processedResult ?s1 ?f2 = Some (runGazeInference lookingAway 100200)"
    by (simp add: processedResult_def g1 INFERENCE_INTERVAL_MS_def INFERENCE_FPS_def)
  have b2: "bucketsOf ?s2 = (10000, 0, 200, 0)"
    unfolding aiLoop_cells(2) [of ?s1] p2 by (simp add: m2 b1 aiLoop_cells(1))
  have r: "js_rem (rafNow ?f2) 4 < 1"
    by (simp add: js_rem_def)
  have c: "Math_round (fl (fl (10000 / 10200) * 100)) = 98"
    by code_simp
  have "timeQuality ?s2 =
     \<lparr>focusedTimeMs = 10000, minorMovementTimeMs = 0, deviationTimeMs = 200, absenceTimeMs = 0,
      totalSessionTimeMs = 10200, focusRatio = 98 / 100\<rparr>"
    unfolding aiLoop_timeQuality [OF b2] using r c by simp
  then show ?thesis by (simp add: mixedSession_def exampleFrame_def)
qed

lemma absent_state_bucket_example:
  "gazeStateRef (fst (gazeTick (initialRefs 90000) 100000 100
      (runGazeInference faceLost 100000))) = ABSENT \<and>
   gazeStateRef (fst (gazeTick
      (fst (gazeTick (initialRefs 90000) 100000 100 (runGazeInference faceLost 100000)))
      100100 100 (runGazeInference lookingAway 100100))) = ABSENT \<and>
   specBucket ABSENT (runGazeInference lookingAway 100100) = AbsenceBucket \<and>
   bucketsOf (fst (gazeTick (initialRefs 90000) 100000 100
      (runGazeInference faceLost 100000))) = (0, 0, 0, 100) \<and>
   bucketsOf (fst (gazeTick
      (fst (gazeTick (initialRefs 90000) 100000 100 (runGazeInference faceLost 100000)))
      100100 100 (runGazeInference lookingAway 100100))) = (0, 0, 100, 100) \<and>
   bucketsOf (fst (gazeTick
      (fst (gazeTick (initialRefs 90000) 100000 100 (runGazeInference faceLost 100000)))
      100100 100 (runGazeInference lookingAway 100100)))
     \<noteq> addTo (specBucket
          (gazeStateRef (fst (gazeTick
             (fst (gazeTick (initialRefs 90000) 100000 100 (runGazeInference faceLost 100000)))
             100100 100 (runGazeInference lookingAway 100100))))
          (runGazeInference lookingAway 100100))
        100
        (bucketsOf (fst (gazeTick (initialRefs 90000) 100000 100
           (runGazeInference faceLost 100000))))"
proof -
  let ?a = "runGazeInference faceLost 100000"
  let ?r = "runGazeInference lookingAway 100100"
  let ?s0 = "fst (gazeTick (initialRefs 90000) 100000 100 ?a)"
  let ?s1 = "fst (gazeTick ?s0 100100 100 ?r)"
  have fa: "faceAbsent ?a"
    by (simp add: faceLost_def runGazeInference_def NO_FACE_RESULT_def faceAbsent_def)
  have mr: "\<not> faceAbsent ?r" "\<not> inSafeZone ?r" "isStrongDeviation ?r"
    by (simp_all add: lookingAway_def exampleFace_def runGazeInference_def faceAbsent_def
        MIN_FACE_CONFIDENCE_def isInSafeZone_def isStrongDeviationCheck_def
        MAX_YAW_NORMAL_def STRONG_YAW_DEG_def)
  have ba: "measuredBucket ?a = AbsenceBucket"
    using fa by (simp add: measuredBucket_def)
  have s0: "gazeStateRef ?s0 = ABSENT"
    using fa by (simp add: gazeTick_def absenceBranch_def Let_def)
  have b0: "bucketsOf ?s0 = (0, 0, 0, 100)"
    unfolding gazeTick_buckets ba by (simp add: bucketsOf_def initialRefs_def)
  have lo: "lockedOut ?s0 ?r"
    using s0 mr by (simp add: lockedOut_def)
  note l = gazeTick_lockedOut [OF lo, of 100100 100]
  from l have s1: "gazeStateRef ?s1 = ABSENT" by blast
  have sb: "specBucket ABSENT ?r = AbsenceBucket"
    by (simp add: specBucket_def)
  have b1: "bucketsOf ?s1 = (0, 0, 100, 100)"
    unfolding gazeTick_buckets [of ?s0] b0 using l by simp
  have ne: "bucketsOf ?s1 \<noteq> addTo (specBucket (gazeStateRef ?s1) ?r) 100 (bucketsOf ?s0)"
    unfolding b1 s1 sb b0 by simp
  show ?thesis
    by (intro conjI) (rule s0 s1 sb b0 b1 ne)+
qed

lemma clock_back_example:
  "focusRatio (timeQuality (framesRefs (initialRefs 90000) clockStepsBack)) = 2"
proof -
  let ?f1 = "\<lparr>rafNow = 100000, dateNow = 100000, faceInference = Some lookingAtScreen,
       objectInference = None\<rparr>"
  let ?f2 = "\<lparr>rafNow = 100200, dateNow = 95000, faceInference = Some faceLost,
       objectInference = None\<rparr>"
  let ?s0 = "initialRefs 90000"
  let ?s1 = "fst (aiLoop ?s0 ?f1)"
  let ?s2 = "fst (aiLoop ?s1 ?f2)"
  have g0: "lastGazeInferenceRef ?s0 = 0" "lastFrameTimeRef ?s0 = 90000"
    "bucketsOf ?s0 = (0, 0, 0, 0)"
    by (simp_all add: initialRefs_def bucketsOf_def)
  have m1: "measuredBucket (runGazeInference lookingAtScreen 100000) = FocusedBucket"
    by (simp add: lookingAtScreen_def exampleFace_def
        runGazeInference_def measuredBucket_def faceAbsent_def MIN_FACE_CONFIDENCE_def
        isInSafeZone_def MAX_YAW_NORMAL_def MAX_PITCH_NORMAL_def)
  have m2: "measuredBucket (runGazeInference faceLost 95000) = AbsenceBucket"
    by (simp add: faceLost_def runGazeInference_def NO_FACE_RESULT_def measuredBucket_def
        faceAbsent_def)
  have p1: "processedResult ?s0 ?f1 = Some (runGazeInference lookingAtScreen 100000)"
    by (simp add: processedResult_def g0 INFERENCE_INTERVAL_MS_def INFERENCE_FPS_def)
  have b1: "bucketsOf ?s1 = (10000, 0, 0, 0)"
    unfolding aiLoop_cells(2) p1 by (simp add: m1 g0)
  have g1: "lastGazeInferenceRef ?s1 = 100000"
    by (simp add: aiLoop_def Let_def gazePhase_def objectPhase_def publishTimeQuality_def g0
        INFERENCE_INTERVAL_MS_def INFERENCE_FPS_def gazeTick_frame_cells lookingAtScreen_def)
  have p2: "processedResult ?s1 ?f2 = Some (runGazeInference faceLost 95000)"
    by (simp add: processedResult_def g1 INFERENCE_INTERVAL_MS_def INFERENCE_FPS_def)
  have b2: "bucketsOf ?s2 = (10000, 0, 0, - 5000)"
    unfolding aiLoop_cells(2) [of ?s1] p2 by (simp add: m2 b1 aiLoop_cells(1))
  have r: "js_rem 100200 4 < 1"
    by (simp add: js_rem_def)
  have "focusRatio (timeQuality ?s2) = 2"
    unfolding aiLoop_timeQuality [OF b2] using r by (simp add: Math_round_def fl_numeral)
  then show ?thesis by (simp add: clockStepsBack_def)
qed

text \<open>
  Claim C7, as stated, fails. The focus ratio is not always within \<open>[0, 1]\<close>: the
  frame delta is a difference of wall-clock readings and nothing clamps it, so when the
  clock steps back a bucket goes negative; in the example the focused bucket holds 10000,
  the absence bucket -5000, and the published focus ratio is 2. Nor is the bucket always
  the one of the state of the tick: after an absence, a strong deviation measured on a
  present face leaves the state ABSENT (neither ALERT_ACTIVE nor MONITORING_DEVIATION),
  where the specification's priority names the absence bucket, yet the loop charges the
  deviation bucket.
\<close>

theorem time_quality_counterexample:
  "focusRatio (timeQuality (framesRefs (initialRefs 90000) clockStepsBack)) = 2 \<and>
   gazeStateRef (fst (gazeTick (initialRefs 90000) 100000 100
      (runGazeInference faceLost 100000))) = ABSENT \<and>
   gazeStateRef (fst (gazeTick
      (fst (gazeTick (initialRefs 90000) 100000 100 (runGazeInference faceLost 100000)))
      100100 100 (runGazeInference lookingAway 100100))) = ABSENT \<and>
   specBucket ABSENT (runGazeInference lookingAway 100100) = AbsenceBucket \<and>
   bucketsOf (fst (gazeTick (initialRefs 90000) 100000 100
      (runGazeInference faceLost 100000))) = (0, 0, 0, 100) \<and>
   bucketsOf (fst (gazeTick
      (fst (gazeTick (initialRefs 90000) 100000 100 (runGazeInference faceLost 100000)))
      100100 100 (runGazeInference lookingAway 100100))) = (0, 0, 100, 100) \<and>
   bucketsOf (fst (gazeTick
      (fst (gazeTick (initialRefs 90000) 100000 100 (runGazeInference faceLost 100000)))
      100100 100 (runGazeInference lookingAway 100100)))
     \<noteq> addTo (specBucket
          (gazeStateRef (fst (gazeTick
             (fst (gazeTick (initialRefs 90000) 100000 100 (runGazeInference faceLost 100000)))
             100100 100 (runGazeInference lookingAway 100100))))
          (runGazeInference lookingAway 100100))
        100
        (bucketsOf (fst (gazeTick (initialRefs 90000) 100000 100
           (runGazeInference faceLost 100000))))"
  by (rule conjI [OF clock_back_example absent_state_bucket_example])

text \<open>
  Claim C7, amended. A processed measurement adds the frame delta to exactly one of the
  four buckets, chosen by what was measured: face absent, the absence bucket; else safe
  zone, the focused bucket; else minor movement, the minor-movement bucket; else (a strong
  deviation) the deviation bucket. This is the bucket the specification's priority names
  for the state after the tick, except for a strong deviation measured while the state is
  ABSENT, which is charged to the deviation bucket although the state stays ABSENT. A
  frame of \<open>aiLoop\<close> charges its delta, the clock of the frame minus the clock of the
  frame before (which it records for the next frame), so when it processes a measurement,
  which it does when 100 ms of frame time have passed since it last asked for one (it
  then records the frame time) and the inference answers, and charges nothing otherwise;
  when the cells sum to more than 0 and the frame time
  falls in the first quarter of its 4 ms, it publishes the four cells, their sum and the
  focus ratio, and else leaves the published metrics as they are. In every session from the initial cells the published
  total is the sum of the four published buckets, and the published focus ratio is the
  initial 1 or \<open>(focused + minor) / total\<close> rounded to two decimals as the loop does
  it, in doubles; provided the clock never steps back, it lies within \<open>[0, 1]\<close> and
  within half a hundredth (and the rounding error of the doubles) of the exact share.
  It is 1 for an all-focused session.
\<close>

theorem time_quality_accounting:
  "bucketsOf (fst (gazeTick s now d r)) = addTo (measuredBucket r) d (bucketsOf s) \<and>
   (\<not> lockedOut s r \<longrightarrow>
      measuredBucket r = specBucket (gazeStateRef (fst (gazeTick s now d r))) r) \<and>
   (lockedOut s r \<longrightarrow>
      measuredBucket r = DeviationBucket \<and> gazeStateRef (fst (gazeTick s now d r)) = ABSENT) \<and>
   bucketsOf (fst (aiLoop s f)) =
     (case processedResult s f of
        None \<Rightarrow> bucketsOf s
      | Some r \<Rightarrow> addTo (measuredBucket r) (dateNow f - lastFrameTimeRef s) (bucketsOf s)) \<and>
   lastFrameTimeRef (fst (aiLoop s f)) = dateNow f \<and>
   processedResult s f =
     (if rafNow f - lastGazeInferenceRef s \<ge> INFERENCE_INTERVAL_MS
      then map_option (\<lambda>best. runGazeInference best (dateNow f)) (faceInference f)
      else None) \<and>
   INFERENCE_INTERVAL_MS = 100 \<and>
   lastGazeInferenceRef (fst (aiLoop s f)) =
     (if rafNow f - lastGazeInferenceRef s \<ge> INFERENCE_INTERVAL_MS then rafNow f
      else lastGazeInferenceRef s) \<and>
   (bucketsOf (fst (aiLoop s f)) = (fo, mi, dv, ab) \<longrightarrow>
      timeQuality (fst (aiLoop s f)) =
        (if fo + mi + dv + ab > 0 \<and> js_rem (rafNow f) 4 < 1
         then \<lparr>focusedTimeMs = fo, minorMovementTimeMs = mi, deviationTimeMs = dv,
               absenceTimeMs = ab, totalSessionTimeMs = fo + mi + dv + ab,
               focusRatio = real_of_int (Math_round
                 (fl (fl (real_of_int (fo + mi) / real_of_int (fo + mi + dv + ab)) * 100)))
                 / 100\<rparr>
         else timeQuality s)) \<and>
   lastFrameTimeRef (framesRefs (initialRefs t0) fs) = last (t0 # map dateNow fs) \<and>
   totalSessionTimeMs (timeQuality (framesRefs (initialRefs t0) fs)) =
     focusedTimeMs (timeQuality (framesRefs (initialRefs t0) fs))
     + minorMovementTimeMs (timeQuality (framesRefs (initialRefs t0) fs))
     + deviationTimeMs (timeQuality (framesRefs (initialRefs t0) fs))
     + absenceTimeMs (timeQuality (framesRefs (initialRefs t0) fs)) \<and>
   (timeQuality (framesRefs (initialRefs t0) fs) = INITIAL_TIME_QUALITY \<or>
    0 < totalSessionTimeMs (timeQuality (framesRefs (initialRefs t0) fs)) \<and>
    focusRatio (timeQuality (framesRefs (initialRefs t0) fs))
      = derivedFocusRatio (timeQuality (framesRefs (initialRefs t0) fs))) \<and>
   (sorted (t0 # map dateNow fs) \<longrightarrow>
      0 \<le> focusRatio (timeQuality (framesRefs (initialRefs t0) fs)) \<and>
      focusRatio (timeQuality (framesRefs (initialRefs t0) fs)) \<le> 1 \<and>
      (0 < totalSessionTimeMs (timeQuality (framesRefs (initialRefs t0) fs)) \<longrightarrow>
         \<bar>focusRatio (timeQuality (framesRefs (initialRefs t0) fs))
            - focusShare (timeQuality (framesRefs (initialRefs t0) fs))\<bar>
           \<le> 1 / 200 + 1 / 2 ^ 52)) \<and>
   ((\<forall>f\<in>set fs. focusedFrame f) \<longrightarrow>
      focusRatio (timeQuality (framesRefs (initialRefs t0) fs)) = 1)"
proof -
  let ?q = "timeQuality (framesRefs (initialRefs t0) fs)"
  have 1: "measuredBucket r = specBucket (gazeStateRef (fst (gazeTick s now d r))) r"
    if "\<not> lockedOut s r"
    using gazeTick_specBucket [OF that, of now d] by simp
  have 2: "measuredBucket r = DeviationBucket \<and> gazeStateRef (fst (gazeTick s now d r)) = ABSENT"
    if "lockedOut s r"
    using gazeTick_lockedOut [OF that, of now d] by simp
  have "consistentMetrics ?q"
    by (rule framesRefs_consistentMetrics) (rule initialRefs_cells)
  then have 3: "totalSessionTimeMs ?q =
      focusedTimeMs ?q + minorMovementTimeMs ?q + deviationTimeMs ?q + absenceTimeMs ?q"
    and 4: "?q = INITIAL_TIME_QUALITY \<or>
      0 < totalSessionTimeMs ?q \<and> focusRatio ?q = derivedFocusRatio ?q"
    unfolding consistentMetrics_def by blast+
  have 5: "0 \<le> focusRatio ?q \<and> focusRatio ?q \<le> 1 \<and>
      (0 < totalSessionTimeMs ?q \<longrightarrow>
         \<bar>focusRatio ?q - focusShare ?q\<bar> \<le> 1 / 200 + 1 / 2 ^ 52)"
    if so: "sorted (t0 # map dateNow fs)"
  proof -
    have s0: "sorted (lastFrameTimeRef (initialRefs t0) # map dateNow fs)"
      using so by (simp only: initialRefs_cells)
    have b: "0 \<le> focusRatio ?q \<and> focusRatio ?q \<le> 1"
    proof (rule framesRefs_focusRatio_bounded)
      show "nonNegativeBuckets (initialRefs t0)" by (rule initialRefs_cells)
      show "0 \<le> focusRatio (timeQuality (initialRefs t0)) \<and>
        focusRatio (timeQuality (initialRefs t0)) \<le> 1"
        by (simp add: initialRefs_cells)
      show "sorted (lastFrameTimeRef (initialRefs t0) # map dateNow fs)" by (rule s0)
    qed
    have nn: "nonNegativeMetrics ?q"
      by (rule framesRefs_nonNegativeMetrics [OF initialRefs_cells(2) initialRefs_cells(6) s0])
    have c: "\<bar>focusRatio ?q - focusShare ?q\<bar> \<le> 1 / 200 + 1 / 2 ^ 52"
      if pos: "0 < totalSessionTimeMs ?q"
    proof -
      from pos have "?q \<noteq> INITIAL_TIME_QUALITY"
        by (auto simp add: INITIAL_TIME_QUALITY_def)
      with 4 have "focusRatio ?q = derivedFocusRatio ?q" by blast
      with derivedFocusRatio_close [OF nn pos 3] show ?thesis by simp
    qed
    from b c show ?thesis by blast
  qed
  have 7: "lastFrameTimeRef (framesRefs (initialRefs t0) fs) = last (t0 # map dateNow fs)"
    by (simp only: framesRefs_lastFrameTimeRef initialRefs_cells)
  have 6: "focusRatio ?q = 1" if "\<forall>f\<in>set fs. focusedFrame f"
    using that by (intro framesRefs_onlyFocused initialRefs_cells)
  have 8: "timeQuality (fst (aiLoop s f)) =
        (if fo + mi + dv + ab > 0 \<and> js_rem (rafNow f) 4 < 1
         then \<lparr>focusedTimeMs = fo, minorMovementTimeMs = mi, deviationTimeMs = dv,
               absenceTimeMs = ab, totalSessionTimeMs = fo + mi + dv + ab,
               focusRatio = real_of_int (Math_round
                 (fl (fl (real_of_int (fo + mi) / real_of_int (fo + mi + dv + ab)) * 100)))
                 / 100\<rparr>
         else timeQuality s)"
    if "bucketsOf (fst (aiLoop s f)) = (fo, mi, dv, ab)"
    using that by (rule aiLoop_timeQuality)
  have 9: "INFERENCE_INTERVAL_MS = 100"
    by (simp add: INFERENCE_INTERVAL_MS_def INFERENCE_FPS_def)
  show ?thesis
    using gazeTick_buckets [of s now d r] 1 2 aiLoop_cells(2) [of s f] aiLoop_cells(1) [of s f]
      processedResult_def [of s f] 9 aiLoop_lastGazeInferenceRef [of s f] 3 4 5 6 7 8
    by blast
qed

theorem time_quality_accounting_witness:
  "focusRatio (timeQuality (framesRefs (initialRefs 90000)
      [exampleFrame 100000 lookingAtScreen, exampleFrame 100200 lookingAtScreen])) = 1 \<and>
   bucketsOf (fst (gazeTick (initialRefs 90000) 100000 100
      (runGazeInference lookingAway 100000))) = (0, 0, 100, 0) \<and>
   gazeStateRef (fst (gazeTick ((initialRefs 90000)\<lparr>gazeStateRef := ABSENT\<rparr>) 100000 100
      (runGazeInference lookingAway 100000))) = ABSENT \<and>
   lastFrameTimeRef (framesRefs (initialRefs 90000) mixedSession) = 100200 \<and>
   timeQuality (fst (aiLoop (initialRefs 90000)
      \<lparr>rafNow = 100000, dateNow = 100000, faceInference = Some lookingAtScreen,
       objectInference = None\<rparr>))
     = \<lparr>focusedTimeMs = 10000, minorMovementTimeMs = 0, deviationTimeMs = 0,
        absenceTimeMs = 0, totalSessionTimeMs = 10000, focusRatio = 1\<rparr> \<and>
   0 \<le> focusRatio (timeQuality (framesRefs (initialRefs 90000) mixedSession)) \<and>
   focusRatio (timeQuality (framesRefs (initialRefs 90000) mixedSession)) \<le> 1 \<and>
   \<bar>focusRatio (timeQuality (framesRefs (initialRefs 90000) mixedSession))
      - focusShare (timeQuality (framesRefs (initialRefs 90000) mixedSession))\<bar>
     \<le> 1 / 200 + 1 / 2 ^ 52"
proof -
  let ?fs = "[exampleFrame 100000 lookingAtScreen, exampleFrame 100200 lookingAtScreen]"
  let ?r = "runGazeInference lookingAway 100000"
  let ?q = "timeQuality (framesRefs (initialRefs 90000) mixedSession)"
  have mr: "\<not> faceAbsent ?r" "\<not> inSafeZone ?r" "isStrongDeviation ?r"
    by (simp_all add: lookingAway_def exampleFace_def runGazeInference_def faceAbsent_def
        MIN_FACE_CONFIDENCE_def isInSafeZone_def isStrongDeviationCheck_def
        MAX_YAW_NORMAL_def STRONG_YAW_DEG_def)
  have ff: "focusedFrame (exampleFrame now lookingAtScreen)" for now
    by (simp add: focusedFrame_def exampleFrame_def lookingAtScreen_def exampleFace_def
        runGazeInference_def measuredBucket_def faceAbsent_def MIN_FACE_CONFIDENCE_def
        isInSafeZone_def MAX_YAW_NORMAL_def MAX_PITCH_NORMAL_def)
  have all: "\<forall>f\<in>set ?fs. focusedFrame f"
    using ff by simp
  have so: "sorted (90000 # map dateNow ?fs)"
    by (simp add: exampleFrame_def)
  have mb: "measuredBucket ?r = DeviationBucket"
    using mr by (simp add: measuredBucket_def)
  have b0: "bucketsOf (initialRefs 90000) = (0, 0, 0, 0)"
    by (simp add: bucketsOf_def initialRefs_def)
  have lo: "lockedOut ((initialRefs 90000)\<lparr>gazeStateRef := ABSENT\<rparr>) ?r"
    using mr by (simp add: lockedOut_def)
  have sm: "sorted (90000 # map dateNow mixedSession)"
    by (simp add: mixedSession_def exampleFrame_def)
  have la: "last (90000 # map dateNow mixedSession) = 100200"
    by (simp add: mixedSession_def exampleFrame_def)
  have pos: "0 < totalSessionTimeMs ?q"
    by (simp add: mixed_session_example)
  have 1: "focusRatio (timeQuality (framesRefs (initialRefs 90000) ?fs)) = 1"
    using time_quality_accounting [where r = ?r and ?t0.0 = 90000 and fs = ?fs] all so by blast
  have 2: "bucketsOf (fst (gazeTick (initialRefs 90000) 100000 100 ?r)) = (0, 0, 100, 0)"
    using time_quality_accounting [where s = "initialRefs 90000" and now = 100000 and d = 100
        and r = ?r] mb b0 by simp
  have 3: "gazeStateRef (fst (gazeTick ((initialRefs 90000)\<lparr>gazeStateRef := ABSENT\<rparr>)
      100000 100 ?r)) = ABSENT"
    using time_quality_accounting
      [where s = "(initialRefs 90000)\<lparr>gazeStateRef := ABSENT\<rparr>" and now = 100000 and d = 100
        and r = ?r] lo
    by blast
  have 4: "lastFrameTimeRef (framesRefs (initialRefs 90000) mixedSession) = 100200"
    using time_quality_accounting [where r = ?r and ?t0.0 = 90000 and fs = mixedSession] la
    by simp
  have 5: "0 \<le> focusRatio ?q \<and> focusRatio ?q \<le> 1 \<and>
      \<bar>focusRatio ?q - focusShare ?q\<bar> \<le> 1 / 200 + 1 / 2 ^ 52"
    using time_quality_accounting [where r = ?r and ?t0.0 = 90000 and fs = mixedSession] sm pos
    by blast
  from 5 have 6: "0 \<le> focusRatio ?q" and 7: "focusRatio ?q \<le> 1"
    and 8: "\<bar>focusRatio ?q - focusShare ?q\<bar> \<le> 1 / 200 + 1 / 2 ^ 52"
    by blast+
  let ?f = "\<lparr>rafNow = 100000, dateNow = 100000, faceInference = Some lookingAtScreen,
       objectInference = None\<rparr>"
  have p: "processedResult (initialRefs 90000) ?f
      = Some (runGazeInference lookingAtScreen 100000)"
    by (simp add: processedResult_def initialRefs_def INFERENCE_INTERVAL_MS_def
        INFERENCE_FPS_def)
  have mf: "measuredBucket (runGazeInference lookingAtScreen 100000) = FocusedBucket"
    using ff [of 100000] by (simp add: focusedFrame_def exampleFrame_def)
  have bf: "bucketsOf (fst (aiLoop (initialRefs 90000) ?f)) = (10000, 0, 0, 0)"
    unfolding aiLoop_cells(2) p b0 by (simp add: mf initialRefs_def)
  have "timeQuality (fst (aiLoop (initialRefs 90000) ?f)) =
        (if 10000 + 0 + 0 + 0 > (0 :: int) \<and> js_rem (rafNow ?f) 4 < 1
         then \<lparr>focusedTimeMs = 10000, minorMovementTimeMs = 0, deviationTimeMs = 0,
               absenceTimeMs = 0, totalSessionTimeMs = 10000 + 0 + 0 + 0,
               focusRatio = real_of_int (Math_round
                 (fl (fl (real_of_int (10000 + 0) / real_of_int (10000 + 0 + 0 + 0)) * 100)))
                 / 100\<rparr>
         else timeQuality (initialRefs 90000))"
    using time_quality_accounting [where s = "initialRefs 90000" and f = ?f and fo = 10000
        and mi = 0 and dv = 0 and ab = 0 and r = ?r]
      bf by blast
  then have 9: "timeQuality (fst (aiLoop (initialRefs 90000) ?f))
     = \<lparr>focusedTimeMs = 10000, minorMovementTimeMs = 0, deviationTimeMs = 0,
        absenceTimeMs = 0, totalSessionTimeMs = 10000, focusRatio = 1\<rparr>"
    by (simp add: js_rem_def Math_round_def fl_1 fl_100)
  show ?thesis
    by (intro conjI) (rule 1 2 3 4 9 6 7 8)+
qed

end
